theory Spec2Isabelle
  imports Main "HOL-Library.Word"
begin

unbundle bit_operations_syntax

section \<open>Machine types and platform constants\<close>

text \<open>
  The reader works on \<open>int32_t\<close> and \<open>uint32_t\<close> values; both are 32-bit words here.
  Signed comparisons read a word with \<open>sint\<close>, unsigned ones with \<open>unat\<close>.
  Timestamps (\<open>nsecs_t\<close>) are 64-bit words; they are only copied.
\<close>

type_synonym int32 = "32 word"
type_synonym uint32 = "32 word"
type_synonym nsecs = "64 word"

text \<open>
  Modelled from the spec: the key codes, meta-state masks and rotation indices are
  declared in platform headers that are not among the sources. The spec names them
  (section 4.5, section 6); the numeric values are those of the platform headers.
\<close>

definition AKEYCODE_DPAD_UP :: int32 where "AKEYCODE_DPAD_UP = 19"
definition AKEYCODE_DPAD_DOWN :: int32 where "AKEYCODE_DPAD_DOWN = 20"
definition AKEYCODE_DPAD_LEFT :: int32 where "AKEYCODE_DPAD_LEFT = 21"
definition AKEYCODE_DPAD_RIGHT :: int32 where "AKEYCODE_DPAD_RIGHT = 22"
definition AKEYCODE_ALT_LEFT :: int32 where "AKEYCODE_ALT_LEFT = 57"
definition AKEYCODE_ALT_RIGHT :: int32 where "AKEYCODE_ALT_RIGHT = 58"
definition AKEYCODE_SHIFT_LEFT :: int32 where "AKEYCODE_SHIFT_LEFT = 59"
definition AKEYCODE_SHIFT_RIGHT :: int32 where "AKEYCODE_SHIFT_RIGHT = 60"
definition AKEYCODE_SYM :: int32 where "AKEYCODE_SYM = 63"

definition META_SHIFT_ON :: int32 where "META_SHIFT_ON = 0x01"
definition META_ALT_ON :: int32 where "META_ALT_ON = 0x02"
definition META_SYM_ON :: int32 where "META_SYM_ON = 0x04"
definition META_ALT_LEFT_ON :: int32 where "META_ALT_LEFT_ON = 0x10"
definition META_ALT_RIGHT_ON :: int32 where "META_ALT_RIGHT_ON = 0x20"
definition META_SHIFT_LEFT_ON :: int32 where "META_SHIFT_LEFT_ON = 0x40"
definition META_SHIFT_RIGHT_ON :: int32 where "META_SHIFT_RIGHT_ON = 0x80"

definition ROTATION_0 :: int32 where "ROTATION_0 = 0"
definition ROTATION_90 :: int32 where "ROTATION_90 = 1"
definition ROTATION_180 :: int32 where "ROTATION_180 = 2"
definition ROTATION_270 :: int32 where "ROTATION_270 = 3"

lemmas keycode_defs =
  AKEYCODE_DPAD_UP_def AKEYCODE_DPAD_DOWN_def AKEYCODE_DPAD_LEFT_def AKEYCODE_DPAD_RIGHT_def
  AKEYCODE_ALT_LEFT_def AKEYCODE_ALT_RIGHT_def AKEYCODE_SHIFT_LEFT_def AKEYCODE_SHIFT_RIGHT_def
  AKEYCODE_SYM_def

lemmas meta_defs =
  META_SHIFT_ON_def META_ALT_ON_def META_SYM_ON_def META_ALT_LEFT_ON_def META_ALT_RIGHT_ON_def
  META_SHIFT_LEFT_ON_def META_SHIFT_RIGHT_ON_def

lemmas rotation_defs = ROTATION_0_def ROTATION_90_def ROTATION_180_def ROTATION_270_def

section \<open>Static functions\<close>

subsection \<open>updateMetaState\<close>

text \<open>The \<open>switch\<close> of \<open>updateMetaState\<close>: the mask of a modifier key, \<open>None\<close> in the
  \<open>default\<close> case.\<close>

definition metaMask :: "int32 \<Rightarrow> int32 option" where
  "metaMask keyCode =
     (if keyCode = AKEYCODE_ALT_LEFT then Some META_ALT_LEFT_ON
      else if keyCode = AKEYCODE_ALT_RIGHT then Some META_ALT_RIGHT_ON
      else if keyCode = AKEYCODE_SHIFT_LEFT then Some META_SHIFT_LEFT_ON
      else if keyCode = AKEYCODE_SHIFT_RIGHT then Some META_SHIFT_RIGHT_ON
      else if keyCode = AKEYCODE_SYM then Some META_SYM_ON
      else None)"

definition updateMetaState :: "int32 \<Rightarrow> bool \<Rightarrow> int32 \<Rightarrow> int32" where
  "updateMetaState keyCode down oldMetaState =
     (case metaMask keyCode of
        None \<Rightarrow> oldMetaState
      | Some msk \<Rightarrow>
          let newMetaState =
                (if down then oldMetaState OR msk
                 else oldMetaState AND NOT msk AND NOT (META_ALT_ON OR META_SHIFT_ON));
              newMetaState =
                (if newMetaState AND (META_ALT_LEFT_ON OR META_ALT_RIGHT_ON) \<noteq> 0
                 then newMetaState OR META_ALT_ON else newMetaState);
              newMetaState =
                (if newMetaState AND (META_SHIFT_LEFT_ON OR META_SHIFT_RIGHT_ON) \<noteq> 0
                 then newMetaState OR META_SHIFT_ON else newMetaState)
          in newMetaState)"

text \<open>The meta-state invariant of the spec: a combined bit is set exactly when one of
  its left/right bits is.\<close>

definition meta_consistent :: "int32 \<Rightarrow> bool" where
  "meta_consistent m =
     (((m AND (META_ALT_LEFT_ON OR META_ALT_RIGHT_ON) \<noteq> 0) = (m AND META_ALT_ON \<noteq> 0)) \<and>
      ((m AND (META_SHIFT_LEFT_ON OR META_SHIFT_RIGHT_ON) \<noteq> 0) = (m AND META_SHIFT_ON \<noteq> 0)))"

subsection \<open>rotateKeyCode\<close>

definition keyCodeRotationMap :: "int32 list list" where
  "keyCodeRotationMap =
     [[AKEYCODE_DPAD_DOWN, AKEYCODE_DPAD_RIGHT, AKEYCODE_DPAD_UP, AKEYCODE_DPAD_LEFT],
      [AKEYCODE_DPAD_RIGHT, AKEYCODE_DPAD_UP, AKEYCODE_DPAD_LEFT, AKEYCODE_DPAD_DOWN],
      [AKEYCODE_DPAD_UP, AKEYCODE_DPAD_LEFT, AKEYCODE_DPAD_DOWN, AKEYCODE_DPAD_RIGHT],
      [AKEYCODE_DPAD_LEFT, AKEYCODE_DPAD_DOWN, AKEYCODE_DPAD_RIGHT, AKEYCODE_DPAD_UP]]"

text \<open>Reading \<open>row[orientation]\<close>: \<open>None\<close> when the index is outside the row of four
  entries (the C++ read is out of bounds there).\<close>

definition rowAt :: "int32 list \<Rightarrow> int32 \<Rightarrow> int32 option" where
  "rowAt row orientation =
     (if 0 \<le> sint orientation \<and> nat (sint orientation) < length row
      then Some (row ! nat (sint orientation)) else None)"

text \<open>The \<open>for\<close> loop over the rows of the table, returning at the first row whose
  entry 0 is the key code; \<open>Some keyCode\<close> when the loop falls through.\<close>

fun rotateLoop :: "int32 list list \<Rightarrow> int32 \<Rightarrow> int32 \<Rightarrow> int32 option" where
  "rotateLoop [] keyCode orientation = Some keyCode"
| "rotateLoop (row # rows) keyCode orientation =
     (if keyCode = row ! 0 then rowAt row orientation
      else rotateLoop rows keyCode orientation)"

definition rotateKeyCode :: "int32 \<Rightarrow> int32 \<Rightarrow> int32 option" where
  "rotateKeyCode keyCode orientation =
     (if orientation \<noteq> ROTATION_0 then rotateLoop keyCodeRotationMap keyCode orientation
      else Some keyCode)"

text \<open>The counter-clockwise cycle of the spec.\<close>

definition dpadCycle :: "int32 list" where
  "dpadCycle = [AKEYCODE_DPAD_DOWN, AKEYCODE_DPAD_RIGHT, AKEYCODE_DPAD_UP, AKEYCODE_DPAD_LEFT]"

section \<open>Constants of the input subsystem\<close>

text \<open>
  Modelled from the spec: the event types, scan codes, device classes, policy actions and
  event actions below are declared in headers that are not among the sources (the Linux
  input header, the event hub, the reader's own header and the platform input header).
  Section 6 of the spec lists the vocabulary; the values are those of the platform headers.
  No theorem below depends on more than these constants being pairwise distinct where the
  code switches on them, and on the flag masks being single bits.
\<close>

definition EV_SYN :: int32 where "EV_SYN = 0x00"
definition EV_KEY :: int32 where "EV_KEY = 0x01"
definition EV_REL :: int32 where "EV_REL = 0x02"
definition EV_ABS :: int32 where "EV_ABS = 0x03"
definition EV_SW :: int32 where "EV_SW = 0x05"
definition DEVICE_ADDED :: int32 where "DEVICE_ADDED = 0x10000000"
definition DEVICE_REMOVED :: int32 where "DEVICE_REMOVED = 0x20000000"

definition SYN_REPORT :: int32 where "SYN_REPORT = 0"
definition SYN_MT_REPORT :: int32 where "SYN_MT_REPORT = 2"

definition BTN_MOUSE :: int32 where "BTN_MOUSE = 0x110"
definition BTN_TOUCH :: int32 where "BTN_TOUCH = 0x14a"
definition REL_X :: int32 where "REL_X = 0x00"
definition REL_Y :: int32 where "REL_Y = 0x01"
definition ABS_X :: int32 where "ABS_X = 0x00"
definition ABS_Y :: int32 where "ABS_Y = 0x01"
definition ABS_PRESSURE :: int32 where "ABS_PRESSURE = 0x18"
definition ABS_TOOL_WIDTH :: int32 where "ABS_TOOL_WIDTH = 0x1c"
definition ABS_MT_TOUCH_MAJOR :: int32 where "ABS_MT_TOUCH_MAJOR = 0x30"
definition ABS_MT_WIDTH_MAJOR :: int32 where "ABS_MT_WIDTH_MAJOR = 0x32"
definition ABS_MT_POSITION_X :: int32 where "ABS_MT_POSITION_X = 0x35"
definition ABS_MT_POSITION_Y :: int32 where "ABS_MT_POSITION_Y = 0x36"
definition ABS_MT_TRACKING_ID :: int32 where "ABS_MT_TRACKING_ID = 0x39"

lemmas evtype_defs =
  EV_SYN_def EV_KEY_def EV_REL_def EV_ABS_def EV_SW_def DEVICE_ADDED_def DEVICE_REMOVED_def


definition INPUT_DEVICE_CLASS_KEYBOARD :: uint32 where "INPUT_DEVICE_CLASS_KEYBOARD = 0x01"
definition INPUT_DEVICE_CLASS_ALPHAKEY :: uint32 where "INPUT_DEVICE_CLASS_ALPHAKEY = 0x02"
definition INPUT_DEVICE_CLASS_TOUCHSCREEN :: uint32 where "INPUT_DEVICE_CLASS_TOUCHSCREEN = 0x04"
definition INPUT_DEVICE_CLASS_TRACKBALL :: uint32 where "INPUT_DEVICE_CLASS_TRACKBALL = 0x08"
definition INPUT_DEVICE_CLASS_TOUCHSCREEN_MT :: uint32 where
  "INPUT_DEVICE_CLASS_TOUCHSCREEN_MT = 0x10"
definition INPUT_DEVICE_CLASS_DPAD :: uint32 where "INPUT_DEVICE_CLASS_DPAD = 0x20"

lemmas class_defs =
  INPUT_DEVICE_CLASS_KEYBOARD_def INPUT_DEVICE_CLASS_ALPHAKEY_def
  INPUT_DEVICE_CLASS_TOUCHSCREEN_def INPUT_DEVICE_CLASS_TRACKBALL_def
  INPUT_DEVICE_CLASS_TOUCHSCREEN_MT_def INPUT_DEVICE_CLASS_DPAD_def

definition ACTION_DISPATCH :: int32 where "ACTION_DISPATCH = 0x01"
definition ACTION_APP_SWITCH_COMING :: int32 where "ACTION_APP_SWITCH_COMING = 0x02"
definition ACTION_WOKE_HERE :: int32 where "ACTION_WOKE_HERE = 0x04"
definition ACTION_BRIGHT_HERE :: int32 where "ACTION_BRIGHT_HERE = 0x08"

definition POLICY_FLAG_WOKE_HERE :: uint32 where "POLICY_FLAG_WOKE_HERE = 0x10000000"
definition POLICY_FLAG_BRIGHT_HERE :: uint32 where "POLICY_FLAG_BRIGHT_HERE = 0x20000000"

lemmas policy_defs =
  ACTION_DISPATCH_def ACTION_APP_SWITCH_COMING_def ACTION_WOKE_HERE_def ACTION_BRIGHT_HERE_def
  POLICY_FLAG_WOKE_HERE_def POLICY_FLAG_BRIGHT_HERE_def

definition KEY_EVENT_ACTION_DOWN :: int32 where "KEY_EVENT_ACTION_DOWN = 0"
definition KEY_EVENT_ACTION_UP :: int32 where "KEY_EVENT_ACTION_UP = 1"
definition KEY_EVENT_FLAG_WOKE_HERE :: int32 where "KEY_EVENT_FLAG_WOKE_HERE = 0x01"
definition KEY_EVENT_FLAG_FROM_SYSTEM :: int32 where "KEY_EVENT_FLAG_FROM_SYSTEM = 0x08"
definition KEY_EVENT_FLAG_CANCELED :: int32 where "KEY_EVENT_FLAG_CANCELED = 0x20"
definition KEY_EVENT_FLAG_VIRTUAL_HARD_KEY :: int32 where "KEY_EVENT_FLAG_VIRTUAL_HARD_KEY = 0x40"

definition MOTION_EVENT_ACTION_DOWN :: int32 where "MOTION_EVENT_ACTION_DOWN = 0"
definition MOTION_EVENT_ACTION_UP :: int32 where "MOTION_EVENT_ACTION_UP = 1"
definition MOTION_EVENT_ACTION_MOVE :: int32 where "MOTION_EVENT_ACTION_MOVE = 2"
definition MOTION_EVENT_ACTION_POINTER_DOWN :: int32 where "MOTION_EVENT_ACTION_POINTER_DOWN = 5"
definition MOTION_EVENT_ACTION_POINTER_UP :: int32 where "MOTION_EVENT_ACTION_POINTER_UP = 6"
definition MOTION_EVENT_ACTION_POINTER_INDEX_SHIFT :: nat where
  "MOTION_EVENT_ACTION_POINTER_INDEX_SHIFT = 8"

lemmas key_event_defs =
  KEY_EVENT_ACTION_DOWN_def KEY_EVENT_ACTION_UP_def KEY_EVENT_FLAG_WOKE_HERE_def
  KEY_EVENT_FLAG_FROM_SYSTEM_def KEY_EVENT_FLAG_CANCELED_def KEY_EVENT_FLAG_VIRTUAL_HARD_KEY_def

lemmas motion_defs =
  MOTION_EVENT_ACTION_DOWN_def MOTION_EVENT_ACTION_UP_def MOTION_EVENT_ACTION_MOVE_def
  MOTION_EVENT_ACTION_POINTER_DOWN_def MOTION_EVENT_ACTION_POINTER_UP_def
  MOTION_EVENT_ACTION_POINTER_INDEX_SHIFT_def

definition INPUT_EVENT_NATURE_KEY :: int32 where "INPUT_EVENT_NATURE_KEY = 1"
definition INPUT_EVENT_NATURE_TOUCH :: int32 where "INPUT_EVENT_NATURE_TOUCH = 2"
definition INPUT_EVENT_NATURE_TRACKBALL :: int32 where "INPUT_EVENT_NATURE_TRACKBALL = 3"

definition KEY_STATE_VIRTUAL :: int32 where "KEY_STATE_VIRTUAL = 2"

definition TOUCHSCREEN_NOTOUCH :: int32 where "TOUCHSCREEN_NOTOUCH = 1"
definition TOUCHSCREEN_FINGER :: int32 where "TOUCHSCREEN_FINGER = 3"
definition KEYBOARD_NOKEYS :: int32 where "KEYBOARD_NOKEYS = 1"
definition KEYBOARD_QWERTY :: int32 where "KEYBOARD_QWERTY = 2"
definition NAVIGATION_NONAV :: int32 where "NAVIGATION_NONAV = 1"
definition NAVIGATION_DPAD :: int32 where "NAVIGATION_DPAD = 2"
definition NAVIGATION_TRACKBALL :: int32 where "NAVIGATION_TRACKBALL = 3"

text \<open>Capacity of a touch frame and the largest pointer id (spec, section 3: typically 10;
  31 because ids fit a 32-bit set).\<close>

definition MAX_POINTERS :: uint32 where "MAX_POINTERS = 10"
definition MAX_POINTER_ID :: uint32 where "MAX_POINTER_ID = 31"

section \<open>The 32-bit set of pointer ids\<close>

text \<open>
  Modelled from the spec: the bit-set class \<open>BitSet32\<close> lives in a header that is not among
  the sources. The spec (section 2, component 1; section 4.3) describes it as an ordered
  container for pointer ids with first-bit, mark and clear operations, where the first
  marked bit is the lowest id. Here id \<open>n\<close> is bit \<open>n\<close> of the 32-bit \<open>value\<close>.
\<close>

type_synonym BitSet32 = "32 word"

definition valueForBit :: "uint32 \<Rightarrow> uint32" where
  "valueForBit n = push_bit (unat n) 1"

definition isEmpty :: "BitSet32 \<Rightarrow> bool" where
  "isEmpty b = (b = 0)"

definition markBit :: "uint32 \<Rightarrow> BitSet32 \<Rightarrow> BitSet32" where
  "markBit n b = b OR valueForBit n"

definition clearBit :: "uint32 \<Rightarrow> BitSet32 \<Rightarrow> BitSet32" where
  "clearBit n b = b AND NOT (valueForBit n)"

text \<open>The ids of a set in ascending order.\<close>

definition markedBits :: "BitSet32 \<Rightarrow> nat list" where
  "markedBits b = filter (bit b) [0..<32]"

text \<open>The lowest marked id; 32 on the empty set, where the source never asks.\<close>

definition firstMarkedBit :: "BitSet32 \<Rightarrow> uint32" where
  "firstMarkedBit b = (case markedBits b of [] \<Rightarrow> 32 | n # _ \<Rightarrow> of_nat n)"

text \<open>The loop \<open>while (! bits.isEmpty()) { id = bits.firstMarkedBit(); bits.clearBit(id); ... }\<close>
  visits the ids of a set in this order. Its termination is proved from the two facts
  below: a non-empty set has a first id, and clearing it removes exactly that id.\<close>

lemma markedBits_nonempty: "b \<noteq> 0 \<Longrightarrow> markedBits b \<noteq> []"
proof -
  assume "b \<noteq> 0"
  then obtain n where n: "bit b n"
    by (auto simp: bit_eq_iff)
  then have "n < 32"
    using bit_imp_le_length [of b n] by simp
  with n have "n \<in> set (markedBits b)"
    by (simp add: markedBits_def)
  then show ?thesis
    by auto
qed

lemma markedBits_clear_first:
  assumes "markedBits b = n # ns"
  shows "markedBits (clearBit (of_nat n) b) = ns"
proof -
  have n: "n \<in> set (markedBits b)"
    using assms by simp
  then have lt: "n < 32"
    by (simp add: markedBits_def)
  then have un: "unat (of_nat n :: uint32) = n"
    by (simp add: unat_of_nat)
  have "distinct (markedBits b)"
    by (simp add: markedBits_def)
  then have notin: "n \<notin> set ns"
    using assms by simp
  have "bit (clearBit (of_nat n) b) = (\<lambda>k. bit b k \<and> k \<noteq> n)"
    using lt
    by (auto simp: fun_eq_iff clearBit_def valueForBit_def un bit_and_iff bit_not_iff
        bit_exp_iff dest: bit_imp_le_length)
  then have "markedBits (clearBit (of_nat n) b) = filter (\<lambda>k. k \<noteq> n) (markedBits b)"
    by (simp add: markedBits_def)
  also have "\<dots> = ns"
    using notin by (auto simp: assms filter_id_conv)
  finally show ?thesis .
qed

lemma clear_first_decreases:
  "\<not> isEmpty b \<Longrightarrow>
     length (markedBits (clearBit (firstMarkedBit b) b)) < length (markedBits b)"
proof -
  assume "\<not> isEmpty b"
  then have "markedBits b \<noteq> []"
    by (simp add: isEmpty_def markedBits_nonempty)
  then obtain n ns where eq: "markedBits b = n # ns"
    by (cases "markedBits b") auto
  then show ?thesis
    by (simp add: firstMarkedBit_def markedBits_clear_first [OF eq])
qed

text \<open>The ids visited by such a loop, in the order of the visits.\<close>

function drainBits :: "BitSet32 \<Rightarrow> uint32 list" where
  "drainBits idBits =
     (if isEmpty idBits then []
      else let n = firstMarkedBit idBits in n # drainBits (clearBit n idBits))"
  by pat_completeness auto
termination
  by (relation "measure (\<lambda>b. length (markedBits b))") (auto simp: clear_first_decreases)

declare drainBits.simps [simp del]

section \<open>Device records\<close>

text \<open>
  Modelled from the spec: the device record \<open>InputDevice\<close> and its nested state types are
  declared in a header that is not among the sources, and the bodies of their small
  methods (\<open>clear\<close>, \<open>isDirty\<close>, \<open>copyFrom\<close>, \<open>reset\<close>, the class tests) are not in
  \<open>InputReader.cpp\<close>. The records below follow section 3 of the spec and the field
  accesses made by \<open>InputReader.cpp\<close>. Fields that only feed the floating-point
  coordinate mapping (axis information, precalculated origins and scales) and the
  virtual-key hit boxes are left out; the hit test is a function of the environment.
\<close>

record KeyboardState =
  kb_metaState :: int32
  kb_downTime :: nsecs

record TrackballAccumulator =
  tba_fields :: uint32
  tba_btnMouse :: bool
  tba_relX :: int32
  tba_relY :: int32

record TrackballState =
  tb_accumulator :: TrackballAccumulator
  tb_down :: bool
  tb_downTime :: nsecs

record SingleTouchAccumulator =
  sta_fields :: uint32
  sta_btnTouch :: bool
  sta_absX :: int32
  sta_absY :: int32
  sta_absPressure :: int32
  sta_absToolWidth :: int32

record SingleTouchScreenState =
  st_accumulator :: SingleTouchAccumulator
  st_down :: bool
  st_x :: int32
  st_y :: int32
  st_pressure :: int32
  st_size :: int32

record MTPointer =
  mtp_fields :: uint32
  absMTPositionX :: int32
  absMTPositionY :: int32
  absMTTouchMajor :: int32
  absMTWidthMajor :: int32
  absMTTrackingId :: int32

text \<open>The multi-touch accumulator: \<open>pointers\<close> has \<open>MAX_POINTERS + 1\<close> slots, the last one
  receiving the fields of a pointer that will not be counted.\<close>

record MultiTouchAccumulator =
  mta_pointerCount :: uint32
  mta_pointers :: "MTPointer list"

record PointerData =
  pd_id :: uint32
  pd_x :: int32
  pd_y :: int32
  pd_pressure :: int32
  pd_size :: int32

text \<open>A touch frame: \<open>pointers\<close> has \<open>MAX_POINTERS\<close> slots, \<open>idToIndex\<close> has
  \<open>MAX_POINTER_ID + 1\<close>.\<close>

record TouchData =
  pointerCount :: uint32
  pointers :: "PointerData list"
  idBits :: BitSet32
  idToIndex :: "uint32 list"

datatype VirtualKeyStatus = STATUS_NONE | STATUS_UP | STATUS_DOWN | STATUS_CANCELED

record CurrentVirtualKeyState =
  vk_status :: VirtualKeyStatus
  vk_downTime :: nsecs
  vk_keyCode :: int32
  vk_scanCode :: int32

record VirtualKey =
  vkey_keyCode :: int32
  vkey_scanCode :: int32

record TouchParameters =
  useBadTouchFilter :: bool
  useJumpyTouchFilter :: bool
  useAveragingTouchFilter :: bool

record TouchScreenState =
  ts_parameters :: TouchParameters
  currentTouch :: TouchData
  lastTouch :: TouchData
  ts_downTime :: nsecs
  currentVirtualKey :: CurrentVirtualKeyState

record InputDevice =
  dev_id :: int32
  dev_name :: string
  classes :: uint32
  ignored :: bool
  keyboard :: KeyboardState
  trackball :: TrackballState
  touchScreen :: TouchScreenState
  singleTouchScreen :: SingleTouchScreenState
  multiTouchScreen :: MultiTouchAccumulator

subsection \<open>Field masks of the accumulators\<close>

definition FIELD_BTN_MOUSE :: uint32 where "FIELD_BTN_MOUSE = 1"
definition FIELD_REL_X :: uint32 where "FIELD_REL_X = 2"
definition FIELD_REL_Y :: uint32 where "FIELD_REL_Y = 4"

definition FIELD_BTN_TOUCH :: uint32 where "FIELD_BTN_TOUCH = 1"
definition FIELD_ABS_X :: uint32 where "FIELD_ABS_X = 2"
definition FIELD_ABS_Y :: uint32 where "FIELD_ABS_Y = 4"
definition FIELD_ABS_PRESSURE :: uint32 where "FIELD_ABS_PRESSURE = 8"
definition FIELD_ABS_TOOL_WIDTH :: uint32 where "FIELD_ABS_TOOL_WIDTH = 16"

definition FIELD_ABS_MT_POSITION_X :: uint32 where "FIELD_ABS_MT_POSITION_X = 1"
definition FIELD_ABS_MT_POSITION_Y :: uint32 where "FIELD_ABS_MT_POSITION_Y = 2"
definition FIELD_ABS_MT_TOUCH_MAJOR :: uint32 where "FIELD_ABS_MT_TOUCH_MAJOR = 4"
definition FIELD_ABS_MT_WIDTH_MAJOR :: uint32 where "FIELD_ABS_MT_WIDTH_MAJOR = 8"
definition FIELD_ABS_MT_TRACKING_ID :: uint32 where "FIELD_ABS_MT_TRACKING_ID = 16"

lemmas field_defs =
  FIELD_BTN_MOUSE_def FIELD_REL_X_def FIELD_REL_Y_def FIELD_BTN_TOUCH_def FIELD_ABS_X_def
  FIELD_ABS_Y_def FIELD_ABS_PRESSURE_def FIELD_ABS_TOOL_WIDTH_def
  FIELD_ABS_MT_POSITION_X_def FIELD_ABS_MT_POSITION_Y_def FIELD_ABS_MT_TOUCH_MAJOR_def
  FIELD_ABS_MT_WIDTH_MAJOR_def FIELD_ABS_MT_TRACKING_ID_def

subsection \<open>Small methods of the device record\<close>

definition isKeyboard :: "InputDevice \<Rightarrow> bool" where
  "isKeyboard device = (classes device AND INPUT_DEVICE_CLASS_KEYBOARD \<noteq> 0)"

definition isTrackball :: "InputDevice \<Rightarrow> bool" where
  "isTrackball device = (classes device AND INPUT_DEVICE_CLASS_TRACKBALL \<noteq> 0)"

definition isSingleTouchScreen :: "InputDevice \<Rightarrow> bool" where
  "isSingleTouchScreen device =
     (classes device AND (INPUT_DEVICE_CLASS_TOUCHSCREEN OR INPUT_DEVICE_CLASS_TOUCHSCREEN_MT)
        = INPUT_DEVICE_CLASS_TOUCHSCREEN)"

definition isMultiTouchScreen :: "InputDevice \<Rightarrow> bool" where
  "isMultiTouchScreen device = (classes device AND INPUT_DEVICE_CLASS_TOUCHSCREEN_MT \<noteq> 0)"

definition isTouchScreen :: "InputDevice \<Rightarrow> bool" where
  "isTouchScreen device =
     (classes device AND (INPUT_DEVICE_CLASS_TOUCHSCREEN OR INPUT_DEVICE_CLASS_TOUCHSCREEN_MT)
        \<noteq> 0)"

text \<open>Accumulators: \<open>clear\<close> forgets what was collected, \<open>isDirty\<close> tells whether anything
  was collected since the last \<open>clear\<close>. The multi-touch accumulator counts completed
  pointers, and clearing it resets the count and the first slot.\<close>

definition tba_clear :: "TrackballAccumulator \<Rightarrow> TrackballAccumulator" where
  "tba_clear a = a\<lparr>tba_fields := 0\<rparr>"

definition tba_isDirty :: "TrackballAccumulator \<Rightarrow> bool" where
  "tba_isDirty a = (tba_fields a \<noteq> 0)"

definition sta_clear :: "SingleTouchAccumulator \<Rightarrow> SingleTouchAccumulator" where
  "sta_clear a = a\<lparr>sta_fields := 0\<rparr>"

definition sta_isDirty :: "SingleTouchAccumulator \<Rightarrow> bool" where
  "sta_isDirty a = (sta_fields a \<noteq> 0)"

definition mtp_clear :: "MTPointer \<Rightarrow> MTPointer" where
  "mtp_clear p = p\<lparr>mtp_fields := 0\<rparr>"

definition mta_clear :: "MultiTouchAccumulator \<Rightarrow> MultiTouchAccumulator" where
  "mta_clear a =
     a\<lparr>mta_pointerCount := 0, mta_pointers := (mta_pointers a)[0 := mtp_clear (mta_pointers a ! 0)]\<rparr>"

definition mta_isDirty :: "MultiTouchAccumulator \<Rightarrow> bool" where
  "mta_isDirty a = (mta_pointerCount a \<noteq> 0)"

text \<open>A touch frame is cleared by dropping its pointers and ids; the slots keep their
  old contents. \<open>copyFrom\<close> is assignment of the whole frame.\<close>

definition td_clear :: "TouchData \<Rightarrow> TouchData" where
  "td_clear t = t\<lparr>pointerCount := 0, idBits := 0\<rparr>"

text \<open>A device as \<open>new InputDevice(id, classes, name)\<close> followed by \<open>reset()\<close> leaves it:
  nothing accumulated, nothing down, no virtual key.\<close>

definition emptyPointerData :: PointerData where
  "emptyPointerData = \<lparr>pd_id = 0, pd_x = 0, pd_y = 0, pd_pressure = 0, pd_size = 0\<rparr>"

definition emptyTouchData :: TouchData where
  "emptyTouchData =
     \<lparr>pointerCount = 0, pointers = replicate (unat MAX_POINTERS) emptyPointerData,
      idBits = 0, idToIndex = replicate (Suc (unat MAX_POINTER_ID)) 0\<rparr>"

definition emptyMTPointer :: MTPointer where
  "emptyMTPointer =
     \<lparr>mtp_fields = 0, absMTPositionX = 0, absMTPositionY = 0, absMTTouchMajor = 0,
      absMTWidthMajor = 0, absMTTrackingId = 0\<rparr>"

definition newDevice :: "int32 \<Rightarrow> uint32 \<Rightarrow> string \<Rightarrow> InputDevice" where
  "newDevice deviceId cls name =
     \<lparr>dev_id = deviceId, dev_name = name, classes = cls, ignored = False,
      keyboard = \<lparr>kb_metaState = 0, kb_downTime = 0\<rparr>,
      trackball =
        \<lparr>tb_accumulator = \<lparr>tba_fields = 0, tba_btnMouse = False, tba_relX = 0, tba_relY = 0\<rparr>,
         tb_down = False, tb_downTime = 0\<rparr>,
      touchScreen =
        \<lparr>ts_parameters =
           \<lparr>useBadTouchFilter = False, useJumpyTouchFilter = False,
            useAveragingTouchFilter = False\<rparr>,
         currentTouch = emptyTouchData, lastTouch = emptyTouchData, ts_downTime = 0,
         currentVirtualKey =
           \<lparr>vk_status = STATUS_NONE, vk_downTime = 0, vk_keyCode = 0, vk_scanCode = 0\<rparr>\<rparr>,
      singleTouchScreen =
        \<lparr>st_accumulator =
           \<lparr>sta_fields = 0, sta_btnTouch = False, sta_absX = 0, sta_absY = 0,
            sta_absPressure = 0, sta_absToolWidth = 0\<rparr>,
         st_down = False, st_x = 0, st_y = 0, st_pressure = 0, st_size = 0\<rparr>,
      multiTouchScreen =
        \<lparr>mta_pointerCount = 0,
         mta_pointers = replicate (Suc (unat MAX_POINTERS)) emptyMTPointer\<rparr>\<rparr>"

section \<open>Collaborators and observable effects\<close>

record RawEvent =
  ev_deviceId :: int32
  ev_type :: int32
  ev_scanCode :: int32
  ev_keyCode :: int32
  ev_flags :: uint32
  ev_value :: int32
  ev_when :: nsecs

text \<open>
  The event source, the policy and the clock are external (spec, section 6); the touch
  filters, the pointer-id calculation and the virtual-key hit test are methods of the
  device record whose bodies are not among the sources. One iteration of the reader sees
  them as the functions of this record. A filter returns what it reports and the current
  touch frame it leaves behind.
\<close>

record Env =
  getEvent :: RawEvent
  systemTime :: nsecs
  getDeviceClasses :: "int32 \<Rightarrow> uint32"
  getDeviceName :: "int32 \<Rightarrow> string"
  getScanCodeState :: "int32 \<Rightarrow> int32 \<Rightarrow> int32 \<Rightarrow> int32"
  getKeyCodeState :: "int32 \<Rightarrow> int32 \<Rightarrow> int32 \<Rightarrow> int32"
  getDisplayInfo :: "(int32 \<times> int32 \<times> int32) option"
  filterTouchEvents :: bool
  filterJumpyTouchEvents :: bool
  interceptKey :: "nsecs \<Rightarrow> int32 \<Rightarrow> bool \<Rightarrow> int32 \<Rightarrow> int32 \<Rightarrow> uint32 \<Rightarrow> int32"
  interceptTouch :: "nsecs \<Rightarrow> int32"
  interceptTrackball :: "nsecs \<Rightarrow> bool \<Rightarrow> bool \<Rightarrow> bool \<Rightarrow> int32"
  interceptSwitch :: "nsecs \<Rightarrow> int32 \<Rightarrow> int32 \<Rightarrow> int32"
  applyBadTouchFilter :: "TouchScreenState \<Rightarrow> bool \<times> TouchData"
  applyJumpyTouchFilter :: "TouchScreenState \<Rightarrow> bool \<times> TouchData"
  applyAveragingTouchFilter :: "TouchScreenState \<Rightarrow> TouchData"
  calculatePointerIds :: "TouchScreenState \<Rightarrow> TouchData"
  findVirtualKeyHit :: "TouchScreenState \<Rightarrow> VirtualKey option"

text \<open>Arguments of \<open>notifyKey\<close> and \<open>notifyMotion\<close>. A motion carries the pointer ids and,
  for each, the integer sample its floating-point coordinates are computed from; the
  coordinate mapping, the edge flags and the precisions are floating point and left out.\<close>

record KeyArgs =
  ke_when :: nsecs
  ke_deviceId :: int32
  ke_nature :: int32
  ke_policyFlags :: uint32
  ke_action :: int32
  ke_flags :: int32
  ke_keyCode :: int32
  ke_scanCode :: int32
  ke_metaState :: int32
  ke_downTime :: nsecs

record MotionArgs =
  mo_when :: nsecs
  mo_deviceId :: int32
  mo_nature :: int32
  mo_policyFlags :: uint32
  mo_action :: int32
  mo_metaState :: int32
  mo_pointerIds :: "int32 list"
  mo_samples :: "PointerData list"
  mo_downTime :: nsecs

text \<open>What the reader does to the outside, in order: calls on the dispatcher, the
  policy's feedback call, warnings, and stores into the exported virtual-key state.\<close>

datatype Effect =
    NotifyKey KeyArgs
  | NotifyMotion MotionArgs
  | NotifyConfigurationChanged nsecs
  | NotifyAppSwitchComing nsecs
  | VirtualKeyDownFeedback
  | LogW string
  | StoreExportedVirtualKey int32 int32

record InputConfiguration =
  cfg_touchScreen :: int32
  cfg_keyboard :: int32
  cfg_navigation :: int32

text \<open>The reader. \<open>mDevices\<close> is the keyed vector of devices in key order; a device pointer
  of the source is the key of its entry. \<open>effects\<close> collects what was done to the outside.\<close>

record Reader =
  mDevices :: "(int32 \<times> InputDevice) list"
  mGlobalMetaState :: int32
  mDisplayWidth :: int32
  mDisplayHeight :: int32
  mDisplayOrientation :: int32
  mExportedVirtualKeyCode :: int32
  mExportedVirtualScanCode :: int32
  mExportedInputConfiguration :: InputConfiguration
  effects :: "Effect list"

definition emit :: "Effect \<Rightarrow> Reader \<Rightarrow> Reader" where
  "emit e r = r\<lparr>effects := effects r @ [e]\<rparr>"

subsection \<open>The keyed vector of devices\<close>

fun kvAdd :: "int32 \<Rightarrow> InputDevice \<Rightarrow> (int32 \<times> InputDevice) list \<Rightarrow> (int32 \<times> InputDevice) list"
  where
  "kvAdd k v [] = [(k, v)]"
| "kvAdd k v ((k', v') # rest) =
     (if k = k' then (k, v) # rest
      else if k <s k' then (k, v) # (k', v') # rest
      else (k', v') # kvAdd k v rest)"

definition kvRemoveItem :: "int32 \<Rightarrow> (int32 \<times> InputDevice) list \<Rightarrow> (int32 \<times> InputDevice) list"
  where
  "kvRemoveItem k kv = filter (\<lambda>(k', v). k' \<noteq> k) kv"

definition getDevice :: "Reader \<Rightarrow> int32 \<Rightarrow> InputDevice option" where
  "getDevice r deviceId = map_of (mDevices r) deviceId"

definition getNonIgnoredDevice :: "Reader \<Rightarrow> int32 \<Rightarrow> InputDevice option" where
  "getNonIgnoredDevice r deviceId =
     (case getDevice r deviceId of
        Some device \<Rightarrow> if \<not> ignored device then Some device else None
      | None \<Rightarrow> None)"

text \<open>Writing through a device pointer: the entry with that key is updated in place.\<close>

definition modDevice :: "int32 \<Rightarrow> (InputDevice \<Rightarrow> InputDevice) \<Rightarrow> Reader \<Rightarrow> Reader" where
  "modDevice deviceId f r =
     r\<lparr>mDevices := map (\<lambda>(k, d). if k = deviceId then (k, f d) else (k, d)) (mDevices r)\<rparr>"

definition modTouchScreen ::
  "int32 \<Rightarrow> (TouchScreenState \<Rightarrow> TouchScreenState) \<Rightarrow> Reader \<Rightarrow> Reader" where
  "modTouchScreen deviceId f = modDevice deviceId (\<lambda>d. d\<lparr>touchScreen := f (touchScreen d)\<rparr>)"

section \<open>The reader\<close>

subsection \<open>Display properties, meta state, exported state\<close>

definition resetDisplayProperties :: "Reader \<Rightarrow> Reader" where
  "resetDisplayProperties r =
     r\<lparr>mDisplayWidth := - 1, mDisplayHeight := - 1, mDisplayOrientation := - 1\<rparr>"

text \<open>A change of the display size reconfigures every device; what that writes (the
  precalculated scales and the hit boxes) is outside this model.\<close>

definition refreshDisplayProperties :: "Env \<Rightarrow> Reader \<Rightarrow> bool \<times> Reader" where
  "refreshDisplayProperties env r =
     (case getDisplayInfo env of
        Some (newWidth, newHeight, newOrientation) \<Rightarrow>
          let r1 = (if newWidth \<noteq> mDisplayWidth r \<or> newHeight \<noteq> mDisplayHeight r
                    then r\<lparr>mDisplayWidth := newWidth, mDisplayHeight := newHeight\<rparr> else r);
              r2 = (if newOrientation \<noteq> mDisplayOrientation r1
                    then r1\<lparr>mDisplayOrientation := newOrientation\<rparr> else r1)
          in (True, r2)
      | None \<Rightarrow> (False, resetDisplayProperties r))"

definition resetGlobalMetaState :: "Reader \<Rightarrow> Reader" where
  "resetGlobalMetaState r = r\<lparr>mGlobalMetaState := - 1\<rparr>"

definition globalMetaState :: "Reader \<Rightarrow> int32 \<times> Reader" where
  "globalMetaState r =
     (if mGlobalMetaState r = - 1
      then let m = fold (\<lambda>(k, device) acc.
                           if isKeyboard device then acc OR kb_metaState (keyboard device)
                           else acc)
                     (mDevices r) 0
           in (m, r\<lparr>mGlobalMetaState := m\<rparr>)
      else (mGlobalMetaState r, r))"

text \<open>The loop of \<open>updateExportedVirtualKeyState\<close> over the devices: the key of the last
  touch screen whose virtual key is down, \<open>(-1, -1)\<close> when there is none.\<close>

definition scanVirtualKeys :: "(int32 \<times> InputDevice) list \<Rightarrow> int32 \<times> int32" where
  "scanVirtualKeys devices =
     fold (\<lambda>(k, device) (keyCode, scanCode).
             if isTouchScreen device
                \<and> vk_status (currentVirtualKey (touchScreen device)) = STATUS_DOWN
             then (vk_keyCode (currentVirtualKey (touchScreen device)),
                   vk_scanCode (currentVirtualKey (touchScreen device)))
             else (keyCode, scanCode))
       devices (- 1, - 1)"

definition updateExportedVirtualKeyState :: "Reader \<Rightarrow> Reader" where
  "updateExportedVirtualKeyState r =
     (let (keyCode, scanCode) = scanVirtualKeys (mDevices r)
      in emit (StoreExportedVirtualKey keyCode scanCode)
           (r\<lparr>mExportedVirtualKeyCode := keyCode, mExportedVirtualScanCode := scanCode\<rparr>))"

definition getCurrentVirtualKey :: "Reader \<Rightarrow> bool \<times> int32 \<times> int32" where
  "getCurrentVirtualKey r =
     (mExportedVirtualKeyCode r \<noteq> - 1, mExportedVirtualKeyCode r, mExportedVirtualScanCode r)"

definition updateExportedInputConfiguration :: "Reader \<Rightarrow> Reader" where
  "updateExportedInputConfiguration r =
     r\<lparr>mExportedInputConfiguration :=
         fold (\<lambda>(k, device) cfg.
                 let deviceClasses = classes device;
                     cfg1 = (if deviceClasses AND INPUT_DEVICE_CLASS_TOUCHSCREEN \<noteq> 0
                             then cfg\<lparr>cfg_touchScreen := TOUCHSCREEN_FINGER\<rparr> else cfg);
                     cfg2 = (if deviceClasses AND INPUT_DEVICE_CLASS_ALPHAKEY \<noteq> 0
                             then cfg1\<lparr>cfg_keyboard := KEYBOARD_QWERTY\<rparr> else cfg1)
                 in if deviceClasses AND INPUT_DEVICE_CLASS_TRACKBALL \<noteq> 0
                    then cfg2\<lparr>cfg_navigation := NAVIGATION_TRACKBALL\<rparr>
                    else if deviceClasses AND INPUT_DEVICE_CLASS_DPAD \<noteq> 0
                    then cfg2\<lparr>cfg_navigation := NAVIGATION_DPAD\<rparr>
                    else cfg2)
           (mDevices r)
           \<lparr>cfg_touchScreen = TOUCHSCREEN_NOTOUCH, cfg_keyboard = KEYBOARD_NOKEYS,
            cfg_navigation = NAVIGATION_NONAV\<rparr>\<rparr>"

definition onConfigurationChanged :: "nsecs \<Rightarrow> Reader \<Rightarrow> Reader" where
  "onConfigurationChanged when r =
     emit (NotifyConfigurationChanged when)
       (updateExportedInputConfiguration
          (updateExportedVirtualKeyState (resetGlobalMetaState r)))"

text \<open>The queries of other threads read the exported state first and ask the event
  source only when it does not answer. The second component tells whether the event
  source was asked.\<close>

definition getCurrentScanCodeState ::
  "Env \<Rightarrow> Reader \<Rightarrow> int32 \<Rightarrow> int32 \<Rightarrow> int32 \<Rightarrow> int32 \<times> bool" where
  "getCurrentScanCodeState env r deviceId deviceClasses scanCode =
     (if mExportedVirtualScanCode r = scanCode then (KEY_STATE_VIRTUAL, False)
      else (getScanCodeState env deviceId deviceClasses scanCode, True))"

definition getCurrentKeyCodeState ::
  "Env \<Rightarrow> Reader \<Rightarrow> int32 \<Rightarrow> int32 \<Rightarrow> int32 \<Rightarrow> int32 \<times> bool" where
  "getCurrentKeyCodeState env r deviceId deviceClasses keyCode =
     (if mExportedVirtualKeyCode r = keyCode then (KEY_STATE_VIRTUAL, False)
      else (getKeyCodeState env deviceId deviceClasses keyCode, True))"

subsection \<open>Standard policy actions\<close>

text \<open>Returns whether to dispatch, the updated policy flags, and the reader.\<close>

definition applyStandardInputDispatchPolicyActions ::
  "nsecs \<Rightarrow> int32 \<Rightarrow> uint32 \<Rightarrow> Reader \<Rightarrow> bool \<times> uint32 \<times> Reader" where
  "applyStandardInputDispatchPolicyActions when policyActions policyFlags r =
     (let r1 = (if policyActions AND ACTION_APP_SWITCH_COMING \<noteq> 0
                then emit (NotifyAppSwitchComing when) r else r);
          policyFlags1 = (if policyActions AND ACTION_WOKE_HERE \<noteq> 0
                          then policyFlags OR POLICY_FLAG_WOKE_HERE else policyFlags);
          policyFlags2 = (if policyActions AND ACTION_BRIGHT_HERE \<noteq> 0
                          then policyFlags1 OR POLICY_FLAG_BRIGHT_HERE else policyFlags1)
      in (policyActions AND ACTION_DISPATCH \<noteq> 0, policyFlags2, r1))"

subsection \<open>Touch dispatch\<close>

text \<open>\<open>dispatchTouch\<close> walks the ids of \<open>idBits\<close> and reads, for each, the slot
  \<open>touch->pointers[touch->idToIndex[id]]\<close>. \<open>touch\<close> points at the last or the current frame
  of the device; here it is the selector of that frame.\<close>

definition dispatchTouch ::
  "nsecs \<Rightarrow> int32 \<Rightarrow> uint32 \<Rightarrow> (TouchScreenState \<Rightarrow> TouchData) \<Rightarrow> BitSet32 \<Rightarrow> int32
     \<Rightarrow> Reader \<Rightarrow> Reader" where
  "dispatchTouch when deviceId policyFlags touch idBits0 motionEventAction r =
     (case getDevice r deviceId of
        None \<Rightarrow> r
      | Some device \<Rightarrow>
          let t = touch (touchScreen device);
              ids = drainBits idBits0;
              samples = map (\<lambda>n. pointers t ! unat (idToIndex t ! unat n)) ids;
              downTime = ts_downTime (touchScreen device);
              (metaState, r1) = globalMetaState r
          in emit (NotifyMotion
                     \<lparr>mo_when = when, mo_deviceId = dev_id device,
                      mo_nature = INPUT_EVENT_NATURE_TOUCH, mo_policyFlags = policyFlags,
                      mo_action = motionEventAction, mo_metaState = metaState,
                      mo_pointerIds = ids, mo_samples = samples, mo_downTime = downTime\<rparr>)
               r1)"

function upLoop ::
  "nsecs \<Rightarrow> int32 \<Rightarrow> uint32 \<Rightarrow> BitSet32 \<Rightarrow> BitSet32 \<Rightarrow> Reader \<Rightarrow> BitSet32 \<times> Reader" where
  "upLoop when deviceId policyFlags upIdBits activeIdBits r =
     (if isEmpty upIdBits then (activeIdBits, r)
      else
        let upId = firstMarkedBit upIdBits;
            upIdBits1 = clearBit upId upIdBits;
            oldActiveIdBits = activeIdBits;
            activeIdBits1 = clearBit upId activeIdBits;
            motionEventAction =
              (if isEmpty activeIdBits1 then MOTION_EVENT_ACTION_UP
               else MOTION_EVENT_ACTION_POINTER_UP
                      OR push_bit MOTION_EVENT_ACTION_POINTER_INDEX_SHIFT upId);
            r1 = dispatchTouch when deviceId policyFlags lastTouch oldActiveIdBits
                   motionEventAction r
        in upLoop when deviceId policyFlags upIdBits1 activeIdBits1 r1)"
  by pat_completeness auto
termination
  by (relation "measure (\<lambda>(w, d, p, up, a, r). length (markedBits up))")
    (auto simp: clear_first_decreases)

function downLoop ::
  "nsecs \<Rightarrow> int32 \<Rightarrow> uint32 \<Rightarrow> BitSet32 \<Rightarrow> BitSet32 \<Rightarrow> Reader \<Rightarrow> BitSet32 \<times> Reader" where
  "downLoop when deviceId policyFlags downIdBits activeIdBits r =
     (if isEmpty downIdBits then (activeIdBits, r)
      else
        let downId = firstMarkedBit downIdBits;
            downIdBits1 = clearBit downId downIdBits;
            oldActiveIdBits = activeIdBits;
            activeIdBits1 = markBit downId activeIdBits;
            (motionEventAction, r1) =
              (if isEmpty oldActiveIdBits
               then (MOTION_EVENT_ACTION_DOWN,
                     modTouchScreen deviceId (\<lambda>ts. ts\<lparr>ts_downTime := when\<rparr>) r)
               else (MOTION_EVENT_ACTION_POINTER_DOWN
                       OR push_bit MOTION_EVENT_ACTION_POINTER_INDEX_SHIFT downId, r));
            r2 = dispatchTouch when deviceId policyFlags currentTouch activeIdBits1
                   motionEventAction r1
        in downLoop when deviceId policyFlags downIdBits1 activeIdBits1 r2)"
  by pat_completeness auto
termination
  by (relation "measure (\<lambda>(w, d, p, dn, a, r). length (markedBits dn))")
    (auto simp: clear_first_decreases)

declare upLoop.simps [simp del] downLoop.simps [simp del]

definition dispatchTouches :: "nsecs \<Rightarrow> int32 \<Rightarrow> uint32 \<Rightarrow> Reader \<Rightarrow> Reader" where
  "dispatchTouches when deviceId policyFlags r =
     (case getDevice r deviceId of
        None \<Rightarrow> r
      | Some device \<Rightarrow>
          let currentPointerCount = pointerCount (currentTouch (touchScreen device));
              lastPointerCount = pointerCount (lastTouch (touchScreen device))
          in if currentPointerCount = 0 \<and> lastPointerCount = 0 then r
             else
               let currentIdBits = idBits (currentTouch (touchScreen device));
                   lastIdBits = idBits (lastTouch (touchScreen device))
               in if currentIdBits = lastIdBits
                  then dispatchTouch when deviceId policyFlags currentTouch currentIdBits
                         MOTION_EVENT_ACTION_MOVE r
                  else
                    let upIdBits = lastIdBits AND NOT currentIdBits;
                        downIdBits = currentIdBits AND NOT lastIdBits;
                        activeIdBits = lastIdBits;
                        (activeIdBits1, r1) =
                          upLoop when deviceId policyFlags upIdBits activeIdBits r;
                        (activeIdBits2, r2) =
                          downLoop when deviceId policyFlags downIdBits activeIdBits1 r1
                    in r2)"

subsection \<open>Virtual keys\<close>

definition modVirtualKey ::
  "int32 \<Rightarrow> (CurrentVirtualKeyState \<Rightarrow> CurrentVirtualKeyState) \<Rightarrow> Reader \<Rightarrow> Reader" where
  "modVirtualKey deviceId f =
     modTouchScreen deviceId (\<lambda>ts. ts\<lparr>currentVirtualKey := f (currentVirtualKey ts)\<rparr>)"

definition dispatchVirtualKey ::
  "Env \<Rightarrow> nsecs \<Rightarrow> int32 \<Rightarrow> uint32 \<Rightarrow> int32 \<Rightarrow> int32 \<Rightarrow> Reader \<Rightarrow> Reader" where
  "dispatchVirtualKey env when deviceId policyFlags keyEventAction keyEventFlags r =
     (let r1 = updateExportedVirtualKeyState r
      in case getDevice r1 deviceId of
           None \<Rightarrow> r1
         | Some device \<Rightarrow>
             let keyCode = vk_keyCode (currentVirtualKey (touchScreen device));
                 scanCode = vk_scanCode (currentVirtualKey (touchScreen device));
                 downTime = vk_downTime (currentVirtualKey (touchScreen device));
                 (metaState, r2) = globalMetaState r1;
                 r3 = (if keyEventAction = KEY_EVENT_ACTION_DOWN
                       then emit VirtualKeyDownFeedback r2 else r2);
                 policyActions =
                   interceptKey env when (dev_id device)
                     (keyEventAction = KEY_EVENT_ACTION_DOWN) keyCode scanCode policyFlags;
                 (dispatch, policyFlags1, r4) =
                   applyStandardInputDispatchPolicyActions when policyActions policyFlags r3
             in if dispatch
                then emit (NotifyKey
                             \<lparr>ke_when = when, ke_deviceId = dev_id device,
                              ke_nature = INPUT_EVENT_NATURE_KEY, ke_policyFlags = policyFlags1,
                              ke_action = keyEventAction, ke_flags = keyEventFlags,
                              ke_keyCode = keyCode, ke_scanCode = scanCode,
                              ke_metaState = metaState, ke_downTime = downTime\<rparr>)
                       r4
                else r4)"

definition consumeVirtualKeyTouches ::
  "Env \<Rightarrow> nsecs \<Rightarrow> int32 \<Rightarrow> uint32 \<Rightarrow> Reader \<Rightarrow> bool \<times> Reader" where
  "consumeVirtualKeyTouches env when deviceId policyFlags r =
     (case getDevice r deviceId of
        None \<Rightarrow> (False, r)
      | Some device \<Rightarrow>
          let ts = touchScreen device in
          (case vk_status (currentVirtualKey ts) of
             STATUS_CANCELED \<Rightarrow>
               (True,
                if pointerCount (currentTouch ts) = 0
                then modVirtualKey deviceId (\<lambda>vk. vk\<lparr>vk_status := STATUS_UP\<rparr>) r
                else r)
           | STATUS_DOWN \<Rightarrow>
               if pointerCount (currentTouch ts) = 0
               then (True,
                     dispatchVirtualKey env when deviceId policyFlags KEY_EVENT_ACTION_UP
                       (KEY_EVENT_FLAG_FROM_SYSTEM OR KEY_EVENT_FLAG_VIRTUAL_HARD_KEY)
                       (modVirtualKey deviceId (\<lambda>vk. vk\<lparr>vk_status := STATUS_UP\<rparr>) r))
               else if pointerCount (currentTouch ts) = 1
                       \<and> (case findVirtualKeyHit env ts of
                              Some virtualKey \<Rightarrow>
                                vkey_keyCode virtualKey = vk_keyCode (currentVirtualKey ts)
                            | None \<Rightarrow> False)
               then (True, r)
               else (True,
                     dispatchVirtualKey env when deviceId policyFlags KEY_EVENT_ACTION_UP
                       (KEY_EVENT_FLAG_FROM_SYSTEM OR KEY_EVENT_FLAG_VIRTUAL_HARD_KEY
                          OR KEY_EVENT_FLAG_CANCELED)
                       (modVirtualKey deviceId (\<lambda>vk. vk\<lparr>vk_status := STATUS_CANCELED\<rparr>) r))
           | _ \<Rightarrow>
               if pointerCount (currentTouch ts) = 1 \<and> pointerCount (lastTouch ts) = 0
               then (case findVirtualKeyHit env ts of
                       Some virtualKey \<Rightarrow>
                         (True,
                          dispatchVirtualKey env when deviceId policyFlags
                            KEY_EVENT_ACTION_DOWN
                            (KEY_EVENT_FLAG_FROM_SYSTEM OR KEY_EVENT_FLAG_VIRTUAL_HARD_KEY)
                            (modVirtualKey deviceId
                               (\<lambda>vk. vk\<lparr>vk_status := STATUS_DOWN, vk_downTime := when,
                                         vk_keyCode := vkey_keyCode virtualKey,
                                         vk_scanCode := vkey_scanCode virtualKey\<rparr>)
                               r))
                     | None \<Rightarrow> (False, r))
               else (False, r)))"

subsection \<open>The touch pipeline\<close>

text \<open>After the filters, \<open>savedTouch\<close> is the copy taken before averaging when the
  averaging filter is on (\<open>Some\<close>), and the current frame itself otherwise (\<open>None\<close>).\<close>

definition preprocessTouch ::
  "Env \<Rightarrow> bool \<Rightarrow> TouchScreenState \<Rightarrow> TouchScreenState \<times> TouchData option" where
  "preprocessTouch env havePointerIds ts =
     (let (ts1, have1) =
            (if useBadTouchFilter (ts_parameters ts)
             then let (hit, ct) = applyBadTouchFilter env ts
                  in (ts\<lparr>currentTouch := ct\<rparr>, if hit then False else havePointerIds)
             else (ts, havePointerIds));
          (ts2, have2) =
            (if useJumpyTouchFilter (ts_parameters ts1)
             then let (hit, ct) = applyJumpyTouchFilter env ts1
                  in (ts1\<lparr>currentTouch := ct\<rparr>, if hit then False else have1)
             else (ts1, have1));
          ts3 = (if \<not> have2 then ts2\<lparr>currentTouch := calculatePointerIds env ts2\<rparr> else ts2)
      in if useAveragingTouchFilter (ts_parameters ts3)
         then (ts3\<lparr>currentTouch := applyAveragingTouchFilter env ts3\<rparr>, Some (currentTouch ts3))
         else (ts3, None))"

definition onTouchScreenChanged :: "Env \<Rightarrow> nsecs \<Rightarrow> int32 \<Rightarrow> bool \<Rightarrow> Reader \<Rightarrow> Reader" where
  "onTouchScreenChanged env when deviceId havePointerIds r =
     (let policyActions = interceptTouch env when;
          (dispatch, policyFlags, r1) =
            applyStandardInputDispatchPolicyActions when policyActions 0 r
      in if \<not> dispatch
         then modTouchScreen deviceId (\<lambda>ts. ts\<lparr>lastTouch := td_clear (lastTouch ts)\<rparr>) r1
         else
           (case getDevice r1 deviceId of
              None \<Rightarrow> r1
            | Some device \<Rightarrow>
                let savedTouch = snd (preprocessTouch env havePointerIds (touchScreen device));
                    r2 = modTouchScreen deviceId
                           (\<lambda>ts. fst (preprocessTouch env havePointerIds ts)) r1;
                    (consumed, r3) = consumeVirtualKeyTouches env when deviceId policyFlags r2;
                    r4 = (if \<not> consumed then dispatchTouches when deviceId policyFlags r3
                          else r3)
                in modTouchScreen deviceId
                     (\<lambda>ts. ts\<lparr>lastTouch :=
                                 (case savedTouch of Some temp \<Rightarrow> temp
                                  | None \<Rightarrow> currentTouch ts)\<rparr>)
                     r4))"

text \<open>\<open>DEBUG_POINTERS\<close> is defined as 0 at the head of the file, so the body of the
  required-fields test, with its \<open>continue\<close>, is compiled out.\<close>

definition DEBUG_POINTERS :: bool where "DEBUG_POINTERS = False"

definition REQUIRED_FIELDS :: uint32 where
  "REQUIRED_FIELDS =
     FIELD_ABS_MT_POSITION_X OR FIELD_ABS_MT_POSITION_Y OR FIELD_ABS_MT_TOUCH_MAJOR
       OR FIELD_ABS_MT_WIDTH_MAJOR"

text \<open>One round of the \<open>for\<close> loop of the multi-touch assembly, on the accumulator slot
  \<open>inp\<close>; the state is the frame under construction, \<open>outCount\<close> and \<open>havePointerIds\<close>.\<close>

definition assembleStep ::
  "MTPointer \<Rightarrow> TouchData \<times> uint32 \<times> bool \<Rightarrow> TouchData \<times> uint32 \<times> bool" where
  "assembleStep inp = (\<lambda>(out, outCount, havePointerIds).
     let flds = mtp_fields inp
     in if flds AND REQUIRED_FIELDS \<noteq> REQUIRED_FIELDS \<and> DEBUG_POINTERS
        then (out, outCount, havePointerIds)
        else if absMTTouchMajor inp \<le>s 0
        then (out, outCount, havePointerIds)
        else
          let out1 = out\<lparr>pointers := (pointers out)
                        [unat outCount := (pointers out ! unat outCount)
                           \<lparr>pd_x := absMTPositionX inp, pd_y := absMTPositionY inp,
                            pd_pressure := absMTTouchMajor inp,
                            pd_size := absMTWidthMajor inp\<rparr>]\<rparr>;
              (out2, have2) =
                (if havePointerIds
                 then if flds AND FIELD_ABS_MT_TRACKING_ID \<noteq> 0
                      then let n = absMTTrackingId inp
                           in if n > MAX_POINTER_ID then (out1, False)
                              else (out1\<lparr>pointers := (pointers out1)
                                          [unat outCount :=
                                             (pointers out1 ! unat outCount)\<lparr>pd_id := n\<rparr>],
                                         idToIndex := (idToIndex out1)[unat n := outCount],
                                         idBits := markBit n (idBits out1)\<rparr>, True)
                      else (out1, False)
                 else (out1, havePointerIds))
          in (out2, outCount + 1, have2))"

definition assembleMultiTouch :: "MultiTouchAccumulator \<Rightarrow> TouchData \<Rightarrow> TouchData \<times> bool" where
  "assembleMultiTouch acc out0 =
     (let inCount = mta_pointerCount acc;
          (out, outCount, havePointerIds) =
            fold assembleStep (take (unat inCount) (mta_pointers acc)) (td_clear out0, 0, True)
      in (out\<lparr>pointerCount := outCount\<rparr>, havePointerIds))"

definition onMultiTouchScreenStateChanged :: "Env \<Rightarrow> nsecs \<Rightarrow> int32 \<Rightarrow> Reader \<Rightarrow> Reader" where
  "onMultiTouchScreenStateChanged env when deviceId r =
     (let (ok, r1) = refreshDisplayProperties env r
      in if \<not> ok then r1
         else
           (case getDevice r1 deviceId of
              None \<Rightarrow> r1
            | Some device \<Rightarrow>
                let havePointerIds =
                      snd (assembleMultiTouch (multiTouchScreen device)
                             (currentTouch (touchScreen device)));
                    r2 = modDevice deviceId
                           (\<lambda>d. d\<lparr>touchScreen := (touchScreen d)
                                   \<lparr>currentTouch :=
                                      fst (assembleMultiTouch (multiTouchScreen d)
                                             (currentTouch (touchScreen d)))\<rparr>\<rparr>)
                           r1
                in onTouchScreenChanged env when deviceId havePointerIds r2))"

text \<open>The single-touch assembly on the device record: the fields set in the accumulator
  are merged into the committed state, and the frame holds one pointer with id 0 when the
  committed state is down.\<close>

definition commitSingleTouch :: "SingleTouchScreenState \<Rightarrow> SingleTouchScreenState" where
  "commitSingleTouch inp =
     (let acc = st_accumulator inp;
          flds = sta_fields acc;
          in1 = (if flds AND FIELD_BTN_TOUCH \<noteq> 0
                 then inp\<lparr>st_down := sta_btnTouch acc\<rparr> else inp);
          in2 = (if flds AND FIELD_ABS_X \<noteq> 0 then in1\<lparr>st_x := sta_absX acc\<rparr> else in1);
          in3 = (if flds AND FIELD_ABS_Y \<noteq> 0 then in2\<lparr>st_y := sta_absY acc\<rparr> else in2);
          in4 = (if flds AND FIELD_ABS_PRESSURE \<noteq> 0
                 then in3\<lparr>st_pressure := sta_absPressure acc\<rparr> else in3)
      in if flds AND FIELD_ABS_TOOL_WIDTH \<noteq> 0
         then in4\<lparr>st_size := sta_absToolWidth acc\<rparr> else in4)"

definition singleTouchFrame :: "SingleTouchScreenState \<Rightarrow> TouchData \<Rightarrow> TouchData" where
  "singleTouchFrame inp out0 =
     (let out = td_clear out0
      in if st_down inp
         then out\<lparr>pointerCount := 1,
                  pointers := (pointers out)
                    [0 := \<lparr>pd_id = 0, pd_x = st_x inp, pd_y = st_y inp,
                           pd_pressure = st_pressure inp, pd_size = st_size inp\<rparr>],
                  idToIndex := (idToIndex out)[0 := 0],
                  idBits := markBit 0 (idBits out)\<rparr>
         else out)"

definition onSingleTouchScreenStateChanged :: "Env \<Rightarrow> nsecs \<Rightarrow> int32 \<Rightarrow> Reader \<Rightarrow> Reader" where
  "onSingleTouchScreenStateChanged env when deviceId r =
     (let (ok, r1) = refreshDisplayProperties env r
      in if \<not> ok then r1
         else
           let r2 = modDevice deviceId
                      (\<lambda>d. d\<lparr>singleTouchScreen := commitSingleTouch (singleTouchScreen d),
                              touchScreen := (touchScreen d)
                                \<lparr>currentTouch :=
                                   singleTouchFrame (commitSingleTouch (singleTouchScreen d))
                                     (currentTouch (touchScreen d))\<rparr>\<rparr>)
                      r1
           in onTouchScreenChanged env when deviceId True r2)"

subsection \<open>Trackball, keys and switches\<close>

text \<open>The trackball commit on the device record: a change of the button updates \<open>down\<close>
  and, on a press, the down time.\<close>

definition commitTrackball :: "nsecs \<Rightarrow> TrackballState \<Rightarrow> TrackballState" where
  "commitTrackball when tb =
     (if tba_fields (tb_accumulator tb) AND FIELD_BTN_MOUSE \<noteq> 0
      then if tba_btnMouse (tb_accumulator tb)
           then tb\<lparr>tb_down := True, tb_downTime := when\<rparr>
           else tb\<lparr>tb_down := False\<rparr>
      else tb)"

text \<open>The trackball motion carries one pointer with id 0; its sample holds the relative
  motion before scaling and rotation (pressure is the constant 1.0, size 0).\<close>

definition onTrackballStateChanged :: "Env \<Rightarrow> nsecs \<Rightarrow> int32 \<Rightarrow> Reader \<Rightarrow> Reader" where
  "onTrackballStateChanged env when deviceId r =
     (let (ok, r1) = refreshDisplayProperties env r
      in if \<not> ok then r1
         else
           (case getDevice r1 deviceId of
              None \<Rightarrow> r1
            | Some device \<Rightarrow>
                let acc = tb_accumulator (trackball device);
                    flds = tba_fields acc;
                    downChanged = (flds AND FIELD_BTN_MOUSE \<noteq> 0);
                    deltaChanged = (flds AND (FIELD_REL_X OR FIELD_REL_Y) \<noteq> 0);
                    tb1 = commitTrackball when (trackball device);
                    isDown = tb_down tb1;
                    r2 = modDevice deviceId
                           (\<lambda>d. d\<lparr>trackball := commitTrackball when (trackball d)\<rparr>) r1;
                    policyActions = interceptTrackball env when downChanged isDown deltaChanged;
                    (dispatch, policyFlags, r3) =
                      applyStandardInputDispatchPolicyActions when policyActions 0 r2
                in if \<not> dispatch then r3
                   else
                     let motionEventAction =
                           (if downChanged
                            then if isDown then MOTION_EVENT_ACTION_DOWN
                                 else MOTION_EVENT_ACTION_UP
                            else MOTION_EVENT_ACTION_MOVE);
                         sample =
                           \<lparr>pd_id = 0,
                            pd_x = (if flds AND FIELD_REL_X \<noteq> 0 then tba_relX acc else 0),
                            pd_y = (if flds AND FIELD_REL_Y \<noteq> 0 then tba_relY acc else 0),
                            pd_pressure = 1, pd_size = 0\<rparr>;
                         (metaState, r4) = globalMetaState r3
                     in emit (NotifyMotion
                                \<lparr>mo_when = when, mo_deviceId = dev_id device,
                                 mo_nature = INPUT_EVENT_NATURE_TRACKBALL,
                                 mo_policyFlags = policyFlags, mo_action = motionEventAction,
                                 mo_metaState = metaState, mo_pointerIds = [0],
                                 mo_samples = [sample], mo_downTime = tb_downTime tb1\<rparr>)
                          r4))"

text \<open>The policy promises an orientation among the four rotations (spec, section 6);
  for any other the table read of \<open>rotateKeyCode\<close> is out of bounds, and the model
  handles the key no further.\<close>

definition onKey ::
  "Env \<Rightarrow> nsecs \<Rightarrow> int32 \<Rightarrow> bool \<Rightarrow> int32 \<Rightarrow> int32 \<Rightarrow> uint32 \<Rightarrow> Reader \<Rightarrow> Reader" where
  "onKey env when deviceId isDown keyCode scanCode policyFlags r =
     (let (ok, r1) = refreshDisplayProperties env r
      in if \<not> ok then r1
         else
           (case getDevice r1 deviceId of
              None \<Rightarrow> r1
            | Some device \<Rightarrow>
                let oldMetaState = kb_metaState (keyboard device);
                    newMetaState = updateMetaState keyCode isDown oldMetaState;
                    r2 = (if oldMetaState \<noteq> newMetaState
                          then resetGlobalMetaState
                                 (modDevice deviceId
                                    (\<lambda>d. d\<lparr>keyboard := (keyboard d)\<lparr>kb_metaState := newMetaState\<rparr>\<rparr>)
                                    r1)
                          else r1)
                in case rotateKeyCode keyCode (mDisplayOrientation r2) of
                     None \<Rightarrow> r2
                   | Some keyCode1 \<Rightarrow>
                       let r3 = (if isDown
                                 then modDevice deviceId
                                        (\<lambda>d. d\<lparr>keyboard := (keyboard d)\<lparr>kb_downTime := when\<rparr>\<rparr>) r2
                                 else r2);
                           policyActions =
                             interceptKey env when (dev_id device) isDown keyCode1 scanCode
                               policyFlags;
                           (dispatch, policyFlags1, r4) =
                             applyStandardInputDispatchPolicyActions when policyActions
                               policyFlags r3
                       in if \<not> dispatch then r4
                          else
                            let keyEventAction =
                                  (if isDown then KEY_EVENT_ACTION_DOWN else KEY_EVENT_ACTION_UP);
                                keyEventFlags =
                                  (if policyActions AND ACTION_WOKE_HERE \<noteq> 0
                                   then KEY_EVENT_FLAG_FROM_SYSTEM OR KEY_EVENT_FLAG_WOKE_HERE
                                   else KEY_EVENT_FLAG_FROM_SYSTEM)
                            in emit (NotifyKey
                                       \<lparr>ke_when = when, ke_deviceId = dev_id device,
                                        ke_nature = INPUT_EVENT_NATURE_KEY,
                                        ke_policyFlags = policyFlags1,
                                        ke_action = keyEventAction, ke_flags = keyEventFlags,
                                        ke_keyCode = keyCode1, ke_scanCode = scanCode,
                                        ke_metaState = newMetaState,
                                        ke_downTime =
                                          (if isDown then when
                                           else kb_downTime (keyboard device))\<rparr>)
                                 r4))"

definition onSwitch :: "Env \<Rightarrow> nsecs \<Rightarrow> int32 \<Rightarrow> int32 \<Rightarrow> Reader \<Rightarrow> Reader" where
  "onSwitch env when switchCode switchValue r =
     (let policyActions = interceptSwitch env when switchCode switchValue;
          (dispatch, policyFlags, r1) =
            applyStandardInputDispatchPolicyActions when policyActions 0 r
      in r1)"

subsection \<open>Raw event handlers\<close>

definition addDevice :: "Env \<Rightarrow> nsecs \<Rightarrow> int32 \<Rightarrow> Reader \<Rightarrow> Reader" where
  "addDevice env when deviceId r =
     (let cls = getDeviceClasses env deviceId;
          device0 = newDevice deviceId cls (getDeviceName env deviceId);
          device =
            (if cls \<noteq> 0
             then if isTouchScreen device0
                  then device0\<lparr>touchScreen := (touchScreen device0)
                         \<lparr>ts_parameters :=
                            \<lparr>useBadTouchFilter = filterTouchEvents env,
                             useJumpyTouchFilter = filterJumpyTouchEvents env,
                             useAveragingTouchFilter = filterTouchEvents env\<rparr>\<rparr>\<rparr>
                  else device0
             else device0\<lparr>ignored := True\<rparr>);
          r1 = r\<lparr>mDevices := kvAdd deviceId device (mDevices r)\<rparr>
      in if \<not> ignored device then onConfigurationChanged when r1 else r1)"

definition removeDevice :: "nsecs \<Rightarrow> InputDevice \<Rightarrow> Reader \<Rightarrow> Reader" where
  "removeDevice when device r =
     (let r1 = r\<lparr>mDevices := kvRemoveItem (dev_id device) (mDevices r)\<rparr>
      in if \<not> ignored device then onConfigurationChanged when r1 else r1)"

definition handleDeviceAdded :: "Env \<Rightarrow> RawEvent \<Rightarrow> Reader \<Rightarrow> Reader" where
  "handleDeviceAdded env rawEvent r =
     (case getDevice r (ev_deviceId rawEvent) of
        Some device \<Rightarrow> emit (LogW ''Ignoring spurious device added event.'') r
      | None \<Rightarrow> addDevice env (ev_when rawEvent) (ev_deviceId rawEvent) r)"

definition handleDeviceRemoved :: "RawEvent \<Rightarrow> Reader \<Rightarrow> Reader" where
  "handleDeviceRemoved rawEvent r =
     (case getDevice r (ev_deviceId rawEvent) of
        None \<Rightarrow> emit (LogW ''Ignoring spurious device removed event.'') r
      | Some device \<Rightarrow> removeDevice (ev_when rawEvent) device r)"

text \<open>The per-pointer branch of \<open>handleSync\<close> on a multi-touch device.\<close>

definition syncPointer :: "int32 \<Rightarrow> InputDevice \<Rightarrow> Reader \<Rightarrow> Reader" where
  "syncPointer deviceId device r =
     (let acc = multiTouchScreen device;
          pointerIndex = mta_pointerCount acc;
          (pointerIndex1, acc1, r1) =
            (if mtp_fields (mta_pointers acc ! unat pointerIndex) \<noteq> 0
             then if pointerIndex = MAX_POINTERS
                  then (pointerIndex, acc,
                        emit (LogW ''MultiTouch device driver returned more than maximum of pointers.'') r)
                  else (pointerIndex + 1, acc\<lparr>mta_pointerCount := pointerIndex + 1\<rparr>, r)
             else (pointerIndex, acc, r));
          acc2 = acc1\<lparr>mta_pointers := (mta_pointers acc1)
                   [unat pointerIndex1 := mtp_clear (mta_pointers acc1 ! unat pointerIndex1)]\<rparr>
      in modDevice deviceId (\<lambda>d. d\<lparr>multiTouchScreen := acc2\<rparr>) r1)"

text \<open>The frame branch of \<open>handleSync\<close>: first the touch accumulator of the device, then
  its trackball accumulator.\<close>

definition syncTouch :: "Env \<Rightarrow> nsecs \<Rightarrow> int32 \<Rightarrow> InputDevice \<Rightarrow> Reader \<Rightarrow> Reader" where
  "syncTouch env when deviceId device r =
     (if isMultiTouchScreen device
      then if mta_isDirty (multiTouchScreen device)
           then modDevice deviceId (\<lambda>d. d\<lparr>multiTouchScreen := mta_clear (multiTouchScreen d)\<rparr>)
                  (onMultiTouchScreenStateChanged env when deviceId r)
           else r
      else if isSingleTouchScreen device
      then if sta_isDirty (st_accumulator (singleTouchScreen device))
           then modDevice deviceId
                  (\<lambda>d. d\<lparr>singleTouchScreen := (singleTouchScreen d)
                           \<lparr>st_accumulator := sta_clear (st_accumulator (singleTouchScreen d))\<rparr>\<rparr>)
                  (onSingleTouchScreenStateChanged env when deviceId r)
           else r
      else r)"

definition syncTrackball :: "Env \<Rightarrow> nsecs \<Rightarrow> int32 \<Rightarrow> InputDevice \<Rightarrow> Reader \<Rightarrow> Reader" where
  "syncTrackball env when deviceId device r =
     (if tba_isDirty (tb_accumulator (trackball device))
      then modDevice deviceId
             (\<lambda>d. d\<lparr>trackball := (trackball d)
                      \<lparr>tb_accumulator := tba_clear (tb_accumulator (trackball d))\<rparr>\<rparr>)
             (onTrackballStateChanged env when deviceId r)
      else r)"

definition handleSync :: "Env \<Rightarrow> RawEvent \<Rightarrow> Reader \<Rightarrow> Reader" where
  "handleSync env rawEvent r =
     (case getNonIgnoredDevice r (ev_deviceId rawEvent) of
        None \<Rightarrow> r
      | Some device \<Rightarrow>
          if ev_scanCode rawEvent = SYN_MT_REPORT
          then if isMultiTouchScreen device
               then syncPointer (ev_deviceId rawEvent) device r
               else r
          else if ev_scanCode rawEvent = SYN_REPORT
          then let r1 = syncTouch env (ev_when rawEvent) (ev_deviceId rawEvent) device r
               in case getDevice r1 (ev_deviceId rawEvent) of
                    None \<Rightarrow> r1
                  | Some device1 \<Rightarrow>
                      syncTrackball env (ev_when rawEvent) (ev_deviceId rawEvent) device1 r1
          else r)"

definition handleKey :: "Env \<Rightarrow> RawEvent \<Rightarrow> Reader \<Rightarrow> Reader" where
  "handleKey env rawEvent r =
     (case getNonIgnoredDevice r (ev_deviceId rawEvent) of
        None \<Rightarrow> r
      | Some device \<Rightarrow>
          let isDown = (ev_value rawEvent \<noteq> 0);
              scanCode = ev_scanCode rawEvent
          in if isSingleTouchScreen device \<and> scanCode = BTN_TOUCH
             then modDevice (ev_deviceId rawEvent)
                    (\<lambda>d. d\<lparr>singleTouchScreen := (singleTouchScreen d)
                             \<lparr>st_accumulator := (st_accumulator (singleTouchScreen d))
                                \<lparr>sta_fields :=
                                   sta_fields (st_accumulator (singleTouchScreen d))
                                     OR FIELD_BTN_TOUCH,
                                 sta_btnTouch := isDown\<rparr>\<rparr>\<rparr>)
                    r
             else if isTrackball device \<and> scanCode = BTN_MOUSE
             then modDevice (ev_deviceId rawEvent)
                    (\<lambda>d. d\<lparr>trackball := (trackball d)
                             \<lparr>tb_accumulator := (tb_accumulator (trackball d))
                                \<lparr>tba_fields := tba_fields (tb_accumulator (trackball d))
                                                 OR FIELD_BTN_MOUSE,
                                 tba_btnMouse := isDown\<rparr>\<rparr>\<rparr>)
                    r
             else if isKeyboard device
             then onKey env (ev_when rawEvent) (ev_deviceId rawEvent) isDown
                    (ev_keyCode rawEvent) scanCode (ev_flags rawEvent) r
             else r)"

definition handleRelativeMotion :: "RawEvent \<Rightarrow> Reader \<Rightarrow> Reader" where
  "handleRelativeMotion rawEvent r =
     (case getNonIgnoredDevice r (ev_deviceId rawEvent) of
        None \<Rightarrow> r
      | Some device \<Rightarrow>
          if isTrackball device
          then modDevice (ev_deviceId rawEvent)
                 (\<lambda>d. let acc = tb_accumulator (trackball d)
                       in d\<lparr>trackball := (trackball d)\<lparr>tb_accumulator :=
                            (if ev_scanCode rawEvent = REL_X
                             then acc\<lparr>tba_fields := tba_fields acc OR FIELD_REL_X,
                                      tba_relX := ev_value rawEvent\<rparr>
                             else if ev_scanCode rawEvent = REL_Y
                             then acc\<lparr>tba_fields := tba_fields acc OR FIELD_REL_Y,
                                      tba_relY := ev_value rawEvent\<rparr>
                             else acc)\<rparr>\<rparr>)
                 r
          else r)"

text \<open>The \<open>switch\<close> of \<open>handleAbsoluteMotion\<close> on the current slot of the multi-touch
  accumulator, and on the single-touch accumulator.\<close>

definition mtpAbsolute :: "int32 \<Rightarrow> int32 \<Rightarrow> MTPointer \<Rightarrow> MTPointer" where
  "mtpAbsolute scanCode v p =
     (if scanCode = ABS_MT_POSITION_X
      then p\<lparr>mtp_fields := mtp_fields p OR FIELD_ABS_MT_POSITION_X, absMTPositionX := v\<rparr>
      else if scanCode = ABS_MT_POSITION_Y
      then p\<lparr>mtp_fields := mtp_fields p OR FIELD_ABS_MT_POSITION_Y, absMTPositionY := v\<rparr>
      else if scanCode = ABS_MT_TOUCH_MAJOR
      then p\<lparr>mtp_fields := mtp_fields p OR FIELD_ABS_MT_TOUCH_MAJOR, absMTTouchMajor := v\<rparr>
      else if scanCode = ABS_MT_WIDTH_MAJOR
      then p\<lparr>mtp_fields := mtp_fields p OR FIELD_ABS_MT_WIDTH_MAJOR, absMTWidthMajor := v\<rparr>
      else if scanCode = ABS_MT_TRACKING_ID
      then p\<lparr>mtp_fields := mtp_fields p OR FIELD_ABS_MT_TRACKING_ID, absMTTrackingId := v\<rparr>
      else p)"

definition staAbsolute :: "int32 \<Rightarrow> int32 \<Rightarrow> SingleTouchAccumulator \<Rightarrow> SingleTouchAccumulator"
  where
  "staAbsolute scanCode v a =
     (if scanCode = ABS_X
      then a\<lparr>sta_fields := sta_fields a OR FIELD_ABS_X, sta_absX := v\<rparr>
      else if scanCode = ABS_Y
      then a\<lparr>sta_fields := sta_fields a OR FIELD_ABS_Y, sta_absY := v\<rparr>
      else if scanCode = ABS_PRESSURE
      then a\<lparr>sta_fields := sta_fields a OR FIELD_ABS_PRESSURE, sta_absPressure := v\<rparr>
      else if scanCode = ABS_TOOL_WIDTH
      then a\<lparr>sta_fields := sta_fields a OR FIELD_ABS_TOOL_WIDTH, sta_absToolWidth := v\<rparr>
      else a)"

definition handleAbsoluteMotion :: "RawEvent \<Rightarrow> Reader \<Rightarrow> Reader" where
  "handleAbsoluteMotion rawEvent r =
     (case getNonIgnoredDevice r (ev_deviceId rawEvent) of
        None \<Rightarrow> r
      | Some device \<Rightarrow>
          if isMultiTouchScreen device
          then modDevice (ev_deviceId rawEvent)
                 (\<lambda>d. let acc = multiTouchScreen d;
                           pointerIndex = mta_pointerCount acc
                       in d\<lparr>multiTouchScreen := acc\<lparr>mta_pointers := (mta_pointers acc)
                            [unat pointerIndex :=
                               mtpAbsolute (ev_scanCode rawEvent) (ev_value rawEvent)
                                 (mta_pointers acc ! unat pointerIndex)]\<rparr>\<rparr>)
                 r
          else if isSingleTouchScreen device
          then modDevice (ev_deviceId rawEvent)
                 (\<lambda>d. d\<lparr>singleTouchScreen := (singleTouchScreen d)
                          \<lparr>st_accumulator :=
                             staAbsolute (ev_scanCode rawEvent) (ev_value rawEvent)
                               (st_accumulator (singleTouchScreen d))\<rparr>\<rparr>)
                 r
          else r)"

definition handleSwitch :: "Env \<Rightarrow> RawEvent \<Rightarrow> Reader \<Rightarrow> Reader" where
  "handleSwitch env rawEvent r =
     (case getNonIgnoredDevice r (ev_deviceId rawEvent) of
        None \<Rightarrow> r
      | Some device \<Rightarrow>
          onSwitch env (ev_when rawEvent) (ev_scanCode rawEvent) (ev_value rawEvent) r)"

definition process :: "Env \<Rightarrow> RawEvent \<Rightarrow> Reader \<Rightarrow> Reader" where
  "process env rawEvent r =
     (if ev_type rawEvent = DEVICE_ADDED then handleDeviceAdded env rawEvent r
      else if ev_type rawEvent = DEVICE_REMOVED then handleDeviceRemoved rawEvent r
      else if ev_type rawEvent = EV_SYN then handleSync env rawEvent r
      else if ev_type rawEvent = EV_KEY then handleKey env rawEvent r
      else if ev_type rawEvent = EV_REL then handleRelativeMotion rawEvent r
      else if ev_type rawEvent = EV_ABS then handleAbsoluteMotion rawEvent r
      else if ev_type rawEvent = EV_SW then handleSwitch env rawEvent r
      else r)"

text \<open>One iteration: take one raw event from the event source, stamp it with the
  monotonic clock, process it.\<close>

definition loopOnce :: "Env \<Rightarrow> Reader \<Rightarrow> Reader" where
  "loopOnce env r = process env ((getEvent env)\<lparr>ev_when := systemTime env\<rparr>) r"

text \<open>The reader as its constructor leaves it: no device, meta state and display
  properties reset, exported virtual key refreshed. The exported input configuration is
  not written before the first configuration change.\<close>

definition newReader :: Reader where
  "newReader =
     updateExportedVirtualKeyState
       (resetDisplayProperties
          (resetGlobalMetaState
             \<lparr>mDevices = [], mGlobalMetaState = 0, mDisplayWidth = 0, mDisplayHeight = 0,
              mDisplayOrientation = 0, mExportedVirtualKeyCode = 0,
              mExportedVirtualScanCode = 0,
              mExportedInputConfiguration =
                \<lparr>cfg_touchScreen = 0, cfg_keyboard = 0, cfg_navigation = 0\<rparr>,
              effects = []\<rparr>))"

text \<open>The thread harness calls \<open>loopOnce\<close> again and again; each iteration meets the
  collaborators in the state they are in at that moment.\<close>

definition runReader :: "Env list \<Rightarrow> Reader \<Rightarrow> Reader" where
  "runReader envs r = fold loopOnce envs r"

section \<open>Example environments\<close>

text \<open>Concrete collaborators and raw events, used to run the reader on explicit inputs.\<close>

definition rawEvent :: "int32 \<Rightarrow> int32 \<Rightarrow> int32 \<Rightarrow> int32 \<Rightarrow> RawEvent" where
  "rawEvent deviceId type scanCode v =
     \<lparr>ev_deviceId = deviceId, ev_type = type, ev_scanCode = scanCode, ev_keyCode = 0,
      ev_flags = 0, ev_value = v, ev_when = 0\<rparr>"

definition exampleEnv :: "uint32 \<Rightarrow> RawEvent \<Rightarrow> Env" where
  "exampleEnv cls ev =
     \<lparr>getEvent = ev, systemTime = 7,
      getDeviceClasses = (\<lambda>deviceId. cls),
      getDeviceName = (\<lambda>deviceId. ''device''),
      getScanCodeState = (\<lambda>deviceId deviceClasses scanCode. 0),
      getKeyCodeState = (\<lambda>deviceId deviceClasses keyCode. 0),
      getDisplayInfo = Some (480, 800, ROTATION_0),
      filterTouchEvents = False, filterJumpyTouchEvents = False,
      interceptKey = (\<lambda>w deviceId isDown keyCode scanCode policyFlags. ACTION_DISPATCH),
      interceptTouch = (\<lambda>w. ACTION_DISPATCH),
      interceptTrackball = (\<lambda>w downChanged isDown deltaChanged. ACTION_DISPATCH),
      interceptSwitch = (\<lambda>w switchCode switchValue. ACTION_DISPATCH),
      applyBadTouchFilter = (\<lambda>ts. (False, currentTouch ts)),
      applyJumpyTouchFilter = (\<lambda>ts. (False, currentTouch ts)),
      applyAveragingTouchFilter = currentTouch,
      calculatePointerIds = currentTouch,
      findVirtualKeyHit = (\<lambda>ts. None)\<rparr>"

definition addedEvent :: Env where
  "addedEvent = exampleEnv INPUT_DEVICE_CLASS_TOUCHSCREEN_MT (rawEvent 1 DEVICE_ADDED 0 0)"

definition touchMajorEvent :: Env where
  "touchMajorEvent =
     exampleEnv INPUT_DEVICE_CLASS_TOUCHSCREEN_MT (rawEvent 1 EV_ABS ABS_MT_TOUCH_MAJOR 5)"

definition pointerSyncEvent :: Env where
  "pointerSyncEvent =
     exampleEnv INPUT_DEVICE_CLASS_TOUCHSCREEN_MT (rawEvent 1 EV_SYN SYN_MT_REPORT 0)"

text \<open>A reader whose only device has collected \<open>MAX_POINTERS\<close> pointers and fields of one
  more.\<close>

definition fullReader :: Reader where
  "fullReader =
     modDevice 1
       (\<lambda>d. d\<lparr>multiTouchScreen :=
               \<lparr>mta_pointerCount = MAX_POINTERS,
                mta_pointers =
                  replicate (unat MAX_POINTERS) emptyMTPointer
                    @ [emptyMTPointer\<lparr>mtp_fields := FIELD_ABS_MT_TOUCH_MAJOR,
                                      absMTTouchMajor := 5\<rparr>]\<rparr>\<rparr>)
       (runReader [addedEvent] newReader)"

text \<open>An accumulator holding one completed pointer for which the driver reported only the
  touch-major axis, with a positive value.\<close>

definition slotTouchMajorOnly :: MTPointer where
  "slotTouchMajorOnly =
     emptyMTPointer\<lparr>mtp_fields := FIELD_ABS_MT_TOUCH_MAJOR, absMTTouchMajor := 5\<rparr>"

definition accTouchMajorOnly :: MultiTouchAccumulator where
  "accTouchMajorOnly =
     \<lparr>mta_pointerCount = 1,
      mta_pointers = slotTouchMajorOnly # replicate (unat MAX_POINTERS) emptyMTPointer\<rparr>"

text \<open>The motion-event actions among the effects, in order.\<close>

fun motionActions :: "Effect list \<Rightarrow> int32 list" where
  "motionActions [] = []"
| "motionActions (NotifyMotion a # es) = mo_action a # motionActions es"
| "motionActions (e # es) = motionActions es"

definition homeKey :: VirtualKey where
  "homeKey = \<lparr>vkey_keyCode = 3, vkey_scanCode = 102\<rparr>"

text \<open>A single-touch screen; \<open>hit\<close> is what the virtual-key hit test answers.\<close>

definition touchEnv :: "VirtualKey option \<Rightarrow> RawEvent \<Rightarrow> Env" where
  "touchEnv hit ev =
     (exampleEnv INPUT_DEVICE_CLASS_TOUCHSCREEN ev)\<lparr>findVirtualKeyHit := (\<lambda>ts. hit)\<rparr>"

definition touchDownEvents :: "VirtualKey option \<Rightarrow> Env list" where
  "touchDownEvents hit =
     [touchEnv hit (rawEvent 1 DEVICE_ADDED 0 0),
      touchEnv hit (rawEvent 1 EV_KEY BTN_TOUCH 1),
      touchEnv hit (rawEvent 1 EV_ABS ABS_X 100),
      touchEnv hit (rawEvent 1 EV_ABS ABS_Y 200)]"

definition reportEvent :: "VirtualKey option \<Rightarrow> Env" where
  "reportEvent hit = touchEnv hit (rawEvent 1 EV_SYN SYN_REPORT 0)"

text \<open>A reader whose only device, a single-touch screen, has the given touch-screen state.\<close>

definition readerWith :: "(TouchScreenState \<Rightarrow> TouchScreenState) \<Rightarrow> Reader" where
  "readerWith f =
     modTouchScreen 1 f (runReader [touchEnv None (rawEvent 1 DEVICE_ADDED 0 0)] newReader)"

text \<open>A frame holding the pointers with the given ids, in this order: pointer \<open>i\<close> of the
  frame has the \<open>i\<close>-th id, and \<open>idToIndex\<close> maps the id back to \<open>i\<close>.\<close>

definition frameOf :: "uint32 list \<Rightarrow> TouchData" where
  "frameOf ids =
     \<lparr>pointerCount = of_nat (length ids),
      pointers = map (\<lambda>n. \<lparr>pd_id = n, pd_x = 100 + 10 * n, pd_y = 200, pd_pressure = 1,
                             pd_size = 1\<rparr>) ids
                 @ replicate (unat MAX_POINTERS - length ids) emptyPointerData,
      idBits = fold markBit ids 0,
      idToIndex = fold (\<lambda>(i, n) m. m[unat n := of_nat i]) (enumerate 0 ids)
                    (replicate (Suc (unat MAX_POINTER_ID)) 0)\<rparr>"

text \<open>The policy of this environment intercepts every touch frame without
  \<open>ACTION_DISPATCH\<close>.\<close>

definition dropEnv :: Env where
  "dropEnv = (reportEvent None)\<lparr>interceptTouch := (\<lambda>w. ACTION_APP_SWITCH_COMING)\<rparr>"

text \<open>Readers whose device holds given last and current touch frames.\<close>

definition twoFrames :: Reader where
  "twoFrames = readerWith (\<lambda>ts. ts\<lparr>lastTouch := frameOf [0, 1], currentTouch := frameOf [1, 2]\<rparr>)"

definition lastOnly :: Reader where
  "lastOnly = readerWith (\<lambda>ts. ts\<lparr>lastTouch := frameOf [0]\<rparr>)"

definition currentOnly :: Reader where
  "currentOnly = readerWith (\<lambda>ts. ts\<lparr>currentTouch := frameOf [0, 1]\<rparr>)"

definition sameIds :: Reader where
  "sameIds = readerWith (\<lambda>ts. ts\<lparr>lastTouch := frameOf [0, 2], currentTouch := frameOf [0, 2]\<rparr>)"

definition deviceOf :: "Reader \<Rightarrow> InputDevice" where
  "deviceOf r = snd (hd (mDevices r))"

text \<open>Event runs on the single-touch screen: a touch outside and on a virtual key, the
  pointer leaving the key, and the release after that.\<close>

definition touchedReader :: Reader where
  "touchedReader = runReader (touchDownEvents None @ [reportEvent None]) newReader"

definition keyDownEvents :: "Env list" where
  "keyDownEvents = touchDownEvents (Some homeKey) @ [reportEvent (Some homeKey)]"

definition keyCanceledEvents :: "Env list" where
  "keyCanceledEvents =
     keyDownEvents @ [touchEnv None (rawEvent 1 EV_ABS ABS_X 500), reportEvent None]"

definition canceledReleased :: Reader where
  "canceledReleased =
     runReader (keyCanceledEvents @ [touchEnv None (rawEvent 1 EV_KEY BTN_TOUCH 0)]) newReader"

definition withKey :: "VirtualKeyStatus \<Rightarrow> uint32 list \<Rightarrow> Reader" where
  "withKey st ids =
     readerWith (\<lambda>ts. ts\<lparr>currentTouch := frameOf ids,
        currentVirtualKey := \<lparr>vk_status = st, vk_downTime = 5, vk_keyCode = 3,
                               vk_scanCode = 102\<rparr>\<rparr>)"

text \<open>A virtual key whose key code is -1, and a touch that lands on it.\<close>

definition minusOneKey :: VirtualKey where
  "minusOneKey = \<lparr>vkey_keyCode = - 1, vkey_scanCode = 102\<rparr>"

definition minusOneKeyEvents :: "Env list" where
  "minusOneKeyEvents = touchDownEvents (Some minusOneKey) @ [reportEvent (Some minusOneKey)]"

section \<open>Views and invariants\<close>

text \<open>Projections of the device records, used to state what a handler leaves unchanged,
  and the invariants carried through the reader loop.\<close>

definition coreView ::
  "InputDevice \<Rightarrow> int32 \<times> uint32 \<times> bool \<times> CurrentVirtualKeyState
     \<times> MultiTouchAccumulator \<times> SingleTouchAccumulator \<times> TrackballAccumulator" where
  "coreView d =
     (dev_id d, classes d, ignored d, currentVirtualKey (touchScreen d), multiTouchScreen d,
      st_accumulator (singleTouchScreen d), tb_accumulator (trackball d))"

definition devView :: "(InputDevice \<Rightarrow> 'v) \<Rightarrow> Reader \<Rightarrow> (int32 \<times> 'v) list" where
  "devView V r = map (\<lambda>(k, d). (k, V d)) (mDevices r)"

definition core where
  "core r = (devView coreView r, mExportedVirtualKeyCode r, mExportedVirtualScanCode r)"

definition accView ::
  "InputDevice \<Rightarrow> uint32 \<times> bool \<times> MultiTouchAccumulator \<times> SingleTouchAccumulator
     \<times> TrackballAccumulator" where
  "accView d =
     (classes d, ignored d, multiTouchScreen d, st_accumulator (singleTouchScreen d),
      tb_accumulator (trackball d))"

definition mta_ok :: "MultiTouchAccumulator \<Rightarrow> bool" where
  "mta_ok a =
     (mta_pointerCount a \<le> MAX_POINTERS \<and> length (mta_pointers a) = Suc (unat MAX_POINTERS))"

definition accs_ok :: "Reader \<Rightarrow> bool" where
  "accs_ok r = list_all (\<lambda>(k, d). mta_ok (multiTouchScreen d)) (mDevices r)"


text \<open>The effects that are input events handed to the dispatcher.\<close>

fun isInputEvent :: "Effect \<Rightarrow> bool" where
  "isInputEvent (NotifyKey a) = True"
| "isInputEvent (NotifyMotion a) = True"
| "isInputEvent e = False"

definition vkDown :: "InputDevice \<Rightarrow> bool" where
  "vkDown d = (vk_status (currentVirtualKey (touchScreen d)) = STATUS_DOWN)"

definition vkKeyCode :: "InputDevice \<Rightarrow> int32" where
  "vkKeyCode d = vk_keyCode (currentVirtualKey (touchScreen d))"

definition vkScanCode :: "InputDevice \<Rightarrow> int32" where
  "vkScanCode d = vk_scanCode (currentVirtualKey (touchScreen d))"

text \<open>A device is registered under its own id; when its virtual key is down it is a touch
  screen that is not ignored, and its key code is not the "none" value of the exported
  state.\<close>

definition vkEntryOk :: "int32 \<times> InputDevice \<Rightarrow> bool" where
  "vkEntryOk = (\<lambda>(k, d).
     dev_id d = k \<and> (vkDown d \<longrightarrow> isTouchScreen d \<and> \<not> ignored d \<and> vkKeyCode d \<noteq> - 1))"

definition vk_inv :: "Reader \<Rightarrow> bool" where
  "vk_inv r =
     (distinct (map fst (mDevices r))
      \<and> (mExportedVirtualKeyCode r, mExportedVirtualScanCode r) = scanVirtualKeys (mDevices r)
      \<and> list_all vkEntryOk (mDevices r))"

definition envKeysOk :: "Env \<Rightarrow> bool" where
  "envKeysOk env = (\<forall>ts v. findVirtualKeyHit env ts = Some v \<longrightarrow> vkey_keyCode v \<noteq> - 1)"

definition vkView ::
  "InputDevice \<Rightarrow> int32 \<times> uint32 \<times> bool \<times> CurrentVirtualKeyState" where
  "vkView d = (dev_id d, classes d, ignored d, currentVirtualKey (touchScreen d))"

definition vcore where
  "vcore r = (devView vkView r, mExportedVirtualKeyCode r, mExportedVirtualScanCode r)"

text \<open>The step of the scan, on the view of a device.\<close>

definition scanStepV ::
  "int32 \<times> int32 \<times> uint32 \<times> bool \<times> CurrentVirtualKeyState \<Rightarrow> int32 \<times> int32
     \<Rightarrow> int32 \<times> int32" where
  "scanStepV = (\<lambda>(k, n, c, i, vk) (keyCode, scanCode).
     if c AND (INPUT_DEVICE_CLASS_TOUCHSCREEN OR INPUT_DEVICE_CLASS_TOUCHSCREEN_MT) \<noteq> 0
        \<and> vk_status vk = STATUS_DOWN
     then (vk_keyCode vk, vk_scanCode vk) else (keyCode, scanCode))"

definition vkOkV ::
  "int32 \<times> int32 \<times> uint32 \<times> bool \<times> CurrentVirtualKeyState \<Rightarrow> bool" where
  "vkOkV = (\<lambda>(k, n, c, i, vk).
     n = k \<and> (vk_status vk = STATUS_DOWN \<longrightarrow>
       c AND (INPUT_DEVICE_CLASS_TOUCHSCREEN OR INPUT_DEVICE_CLASS_TOUCHSCREEN_MT) \<noteq> 0
       \<and> \<not> i \<and> vk_keyCode vk \<noteq> - 1))"

text \<open>What the scan returns.\<close>

definition contributes :: "InputDevice \<Rightarrow> bool" where
  "contributes d = (isTouchScreen d \<and> vkDown d)"

definition tsDevice :: "Reader \<Rightarrow> int32 \<Rightarrow> bool" where
  "tsDevice r k = (\<forall>d. getDevice r k = Some d \<longrightarrow> isTouchScreen d \<and> \<not> ignored d)"

definition vkStatus :: "InputDevice \<Rightarrow> VirtualKeyStatus" where
  "vkStatus d = vk_status (currentVirtualKey (touchScreen d))"

text \<open>The exported state holds what the scan of the devices gives, and the store of exactly
  these values is the first thing done after the effects \<open>before\<close>.\<close>

definition refreshedAfter :: "Effect list \<Rightarrow> Reader \<Rightarrow> bool" where
  "refreshedAfter before r' =
     ((mExportedVirtualKeyCode r', mExportedVirtualScanCode r') = scanVirtualKeys (mDevices r')
      \<and> take (Suc (length before)) (effects r')
          = before @ [StoreExportedVirtualKey (fst (scanVirtualKeys (mDevices r')))
                        (snd (scanVirtualKeys (mDevices r')))])"

text \<open>The four transitions of the virtual-key state of a device, as conditions on the
  device before \<open>consumeVirtualKeyTouches\<close>.\<close>

definition goesDown :: "Env \<Rightarrow> InputDevice \<Rightarrow> bool" where
  "goesDown env d =
     ((vkStatus d = STATUS_NONE \<or> vkStatus d = STATUS_UP)
      \<and> pointerCount (currentTouch (touchScreen d)) = 1
      \<and> pointerCount (lastTouch (touchScreen d)) = 0
      \<and> findVirtualKeyHit env (touchScreen d) \<noteq> None)"

definition goesUp :: "InputDevice \<Rightarrow> bool" where
  "goesUp d = (vkStatus d = STATUS_DOWN \<and> pointerCount (currentTouch (touchScreen d)) = 0)"

definition getsCanceled :: "Env \<Rightarrow> InputDevice \<Rightarrow> bool" where
  "getsCanceled env d =
     (vkStatus d = STATUS_DOWN \<and> pointerCount (currentTouch (touchScreen d)) \<noteq> 0
      \<and> \<not> (pointerCount (currentTouch (touchScreen d)) = 1
            \<and> map_option vkey_keyCode (findVirtualKeyHit env (touchScreen d))
                = Some (vkKeyCode d)))"

definition canceledGoesUp :: "InputDevice \<Rightarrow> bool" where
  "canceledGoesUp d =
     (vkStatus d = STATUS_CANCELED \<and> pointerCount (currentTouch (touchScreen d)) = 0)"

section \<open>Touch dispatch as the specification words it\<close>

text \<open>The definitions of this section follow section 4.3 of the spec, not the source: the
  ids of a set in ascending order, the events of the ups and of the downs with the active
  set threaded through, and the events of one frame.\<close>

definition idList :: "BitSet32 \<Rightarrow> uint32 list" where
  "idList b = map of_nat (markedBits b)"

definition touchSamples :: "TouchData \<Rightarrow> uint32 list \<Rightarrow> PointerData list" where
  "touchSamples t ids = map (\<lambda>n. pointers t ! unat (idToIndex t ! unat n)) ids"

definition touchMotion ::
  "nsecs \<Rightarrow> InputDevice \<Rightarrow> uint32 \<Rightarrow> int32 \<Rightarrow> TouchData \<Rightarrow> int32 \<times> BitSet32 \<times> nsecs \<Rightarrow> Effect"
  where
  "touchMotion w device policyFlags metaState t = (\<lambda>(action, bits, downTime).
     NotifyMotion
       \<lparr>mo_when = w, mo_deviceId = dev_id device, mo_nature = INPUT_EVENT_NATURE_TOUCH,
        mo_policyFlags = policyFlags, mo_action = action, mo_metaState = metaState,
        mo_pointerIds = idList bits, mo_samples = touchSamples t (idList bits),
        mo_downTime = downTime\<rparr>)"

fun specUps :: "nsecs \<Rightarrow> uint32 list \<Rightarrow> BitSet32 \<Rightarrow> (int32 \<times> BitSet32 \<times> nsecs) list" where
  "specUps downTime [] active = []"
| "specUps downTime (u # us) active =
     (if clearBit u active = 0 then MOTION_EVENT_ACTION_UP
      else MOTION_EVENT_ACTION_POINTER_UP OR push_bit MOTION_EVENT_ACTION_POINTER_INDEX_SHIFT u,
      active, downTime)
     # specUps downTime us (clearBit u active)"

fun specDowns ::
  "nsecs \<Rightarrow> nsecs \<Rightarrow> uint32 list \<Rightarrow> BitSet32 \<Rightarrow> (int32 \<times> BitSet32 \<times> nsecs) list" where
  "specDowns now downTime [] active = []"
| "specDowns now downTime (d # ds) active =
     (if active = 0
      then (MOTION_EVENT_ACTION_DOWN, markBit d active, now)
             # specDowns now now ds (markBit d active)
      else (MOTION_EVENT_ACTION_POINTER_DOWN
              OR push_bit MOTION_EVENT_ACTION_POINTER_INDEX_SHIFT d,
            markBit d active, downTime)
             # specDowns now downTime ds (markBit d active))"

definition specTouchEvents :: "nsecs \<Rightarrow> InputDevice \<Rightarrow> uint32 \<Rightarrow> int32 \<Rightarrow> Effect list" where
  "specTouchEvents now device policyFlags metaState =
     (let cur = currentTouch (touchScreen device);
          last = lastTouch (touchScreen device);
          downTime = ts_downTime (touchScreen device)
      in if idBits cur = idBits last
         then if idBits cur \<noteq> 0
              then [touchMotion now device policyFlags metaState cur
                      (MOTION_EVENT_ACTION_MOVE, idBits cur, downTime)]
              else []
         else
           let ups = idList (idBits last AND NOT (idBits cur));
               downs = idList (idBits cur AND NOT (idBits last))
           in map (touchMotion now device policyFlags metaState last)
                (specUps downTime ups (idBits last))
              @ map (touchMotion now device policyFlags metaState cur)
                  (specDowns now downTime downs (fold clearBit ups (idBits last))))"

definition countMatchesIds :: "TouchData \<Rightarrow> bool" where
  "countMatchesIds t = ((pointerCount t = 0) = (idBits t = 0))"

text \<open>The cached global meta state.\<close>

definition metaOf :: "Reader \<Rightarrow> int32" where
  "metaOf r = fst (globalMetaState r)"

section \<open>Properties of the static functions\<close>

subsection \<open>Meta state\<close>

lemma and_bit_zero_iff: "(m AND 2 ^ n = 0) = (\<not> bit m n)" for m :: int32
  by (simp add: and_exp_eq_0_iff_not_bit)

lemma and_1_zero_iff: "(m AND 1 = 0) = (\<not> bit m 0)" for m :: int32
  using and_bit_zero_iff [of m 0] by simp

lemma and_2_zero_iff: "(m AND 2 = 0) = (\<not> bit m 1)" for m :: int32
  using and_bit_zero_iff [of m 1] by simp

lemma and_48_zero_iff: "(m AND 48 = 0) = (\<not> bit m 4 \<and> \<not> bit m 5)" for m :: int32
proof -
  have "m AND 48 = (m AND 2 ^ 4) OR (m AND 2 ^ 5)"
    by (simp flip: bit.conj_disj_distrib)
  then show ?thesis
    by (simp only: or_eq_0_iff and_bit_zero_iff)
qed

lemma and_192_zero_iff: "(m AND 192 = 0) = (\<not> bit m 6 \<and> \<not> bit m 7)" for m :: int32
proof -
  have "m AND 192 = (m AND 2 ^ 6) OR (m AND 2 ^ 7)"
    by (simp flip: bit.conj_disj_distrib)
  then show ?thesis
    by (simp only: or_eq_0_iff and_bit_zero_iff)
qed

text \<open>
  Claim C5. \<open>updateMetaState\<close> preserves the meta-state invariant: if in the old meta
  state the combined ALT bit is set exactly when the left or the right ALT bit is, and
  likewise for SHIFT, then the same holds of the returned meta state, for every key code
  and for a press as well as a release.
\<close>

theorem updateMetaState_preserves_consistency:
  "meta_consistent oldMetaState \<Longrightarrow>
     meta_consistent (updateMetaState keyCode isDown oldMetaState)"
  unfolding meta_consistent_def updateMetaState_def metaMask_def meta_defs Let_def
  by (cases isDown)
    (auto split: option.splits if_splits
       simp add: and_1_zero_iff and_2_zero_iff and_48_zero_iff and_192_zero_iff bit_simps)

theorem updateMetaState_preserves_consistency_witness:
  "meta_consistent 0x12 \<and> updateMetaState AKEYCODE_ALT_LEFT False 0x12 = 0
     \<and> meta_consistent (updateMetaState AKEYCODE_ALT_LEFT False 0x12)
     \<and> meta_consistent 0x41 \<and> updateMetaState AKEYCODE_ALT_RIGHT True 0x41 = 0x63
     \<and> meta_consistent (updateMetaState AKEYCODE_ALT_RIGHT True 0x41)"
proof -
  have a: "meta_consistent 0x12"
    by (simp add: meta_consistent_def meta_defs)
  have b: "meta_consistent 0x41"
    by (simp add: meta_consistent_def meta_defs)
  have c: "updateMetaState AKEYCODE_ALT_LEFT False 0x12 = 0"
    by (simp add: updateMetaState_def metaMask_def meta_defs keycode_defs)
  have d: "updateMetaState AKEYCODE_ALT_RIGHT True 0x41 = 0x63"
    by (simp add: updateMetaState_def metaMask_def meta_defs keycode_defs)
  show ?thesis
    using a b c d
      updateMetaState_preserves_consistency [OF a, of AKEYCODE_ALT_LEFT False]
      updateMetaState_preserves_consistency [OF b, of AKEYCODE_ALT_RIGHT True]
    by simp
qed

subsection \<open>Key code rotation\<close>

lemma rotateLoop_other:
  "keyCode \<notin> set (map (\<lambda>row. row ! 0) rows) \<Longrightarrow> rotateLoop rows keyCode orientation = Some keyCode"
  by (induction rows) auto

text \<open>
  Claim C9. \<open>rotateKeyCode\<close> maps DPAD_DOWN to DPAD_DOWN at rotation 0, to DPAD_RIGHT at 90
  degrees, to DPAD_UP at 180 and to DPAD_LEFT at 270; each of the four DPAD key codes is
  moved along the cycle DOWN, RIGHT, UP, LEFT by as many steps as the orientation index
  (0 to 3) says; every other key code is returned unchanged, at every orientation.
\<close>

theorem rotateKeyCode_dpad_cycle:
  "rotateKeyCode AKEYCODE_DPAD_DOWN ROTATION_0 = Some AKEYCODE_DPAD_DOWN
   \<and> rotateKeyCode AKEYCODE_DPAD_DOWN ROTATION_90 = Some AKEYCODE_DPAD_RIGHT
   \<and> rotateKeyCode AKEYCODE_DPAD_DOWN ROTATION_180 = Some AKEYCODE_DPAD_UP
   \<and> rotateKeyCode AKEYCODE_DPAD_DOWN ROTATION_270 = Some AKEYCODE_DPAD_LEFT
   \<and> (\<forall>i < 4. \<forall>k < 4.
         rotateKeyCode (dpadCycle ! i) (of_nat k) = Some (dpadCycle ! ((i + k) mod 4)))
   \<and> (\<forall>keyCode orientation.
         keyCode \<notin> set dpadCycle \<longrightarrow> rotateKeyCode keyCode orientation = Some keyCode)"
proof -
  have four: "n < 4 \<Longrightarrow> n = 0 \<or> n = 1 \<or> n = 2 \<or> n = 3" for n :: nat
    by arith
  have down:
    "rotateKeyCode AKEYCODE_DPAD_DOWN ROTATION_0 = Some AKEYCODE_DPAD_DOWN"
    "rotateKeyCode AKEYCODE_DPAD_DOWN ROTATION_90 = Some AKEYCODE_DPAD_RIGHT"
    "rotateKeyCode AKEYCODE_DPAD_DOWN ROTATION_180 = Some AKEYCODE_DPAD_UP"
    "rotateKeyCode AKEYCODE_DPAD_DOWN ROTATION_270 = Some AKEYCODE_DPAD_LEFT"
    by (simp_all add: rotateKeyCode_def keyCodeRotationMap_def rowAt_def keycode_defs
        rotation_defs)
  have cycle:
    "rotateKeyCode (dpadCycle ! i) (of_nat k) = Some (dpadCycle ! ((i + k) mod 4))"
    if "i < 4" "k < 4" for i k
    using four [OF that(1)] four [OF that(2)]
    by (auto simp: rotateKeyCode_def keyCodeRotationMap_def rowAt_def dpadCycle_def
        keycode_defs rotation_defs)
  have other: "rotateKeyCode keyCode orientation = Some keyCode"
    if "keyCode \<notin> set dpadCycle" for keyCode orientation
    using that
    by (simp add: rotateKeyCode_def rotateLoop_other keyCodeRotationMap_def dpadCycle_def)
  show ?thesis
    using down cycle other by blast
qed

theorem rotateKeyCode_dpad_cycle_witness:
  "rotateKeyCode (dpadCycle ! 1) (of_nat 3) = Some (dpadCycle ! ((1 + 3) mod 4))
   \<and> dpadCycle ! 1 = AKEYCODE_DPAD_RIGHT \<and> dpadCycle ! ((1 + 3) mod 4) = AKEYCODE_DPAD_DOWN
   \<and> AKEYCODE_SYM \<notin> set dpadCycle
   \<and> rotateKeyCode AKEYCODE_SYM ROTATION_180 = Some AKEYCODE_SYM"
proof -
  have a: "AKEYCODE_SYM \<notin> set dpadCycle"
    by (simp add: dpadCycle_def keycode_defs)
  have b: "(1::nat) < 4" "(3::nat) < 4"
    by simp_all
  have c: "dpadCycle ! 1 = AKEYCODE_DPAD_RIGHT" "dpadCycle ! ((1 + 3) mod 4) = AKEYCODE_DPAD_DOWN"
    by (simp_all add: dpadCycle_def)
  from rotateKeyCode_dpad_cycle a b c show ?thesis
    by blast
qed

section \<open>Queries on the exported state\<close>

text \<open>
  Claim C10. When the exported virtual scan code equals the queried scan code,
  \<open>getCurrentScanCodeState\<close> answers \<open>KEY_STATE_VIRTUAL\<close> whatever device id (and classes) the
  query names, without asking the event source; when it differs, the answer is the event
  source's. The same holds of \<open>getCurrentKeyCodeState\<close> and the exported virtual key code.
\<close>

theorem exported_virtual_state_answers_first:
  "(mExportedVirtualScanCode r = scanCode \<longrightarrow>
      getCurrentScanCodeState env r deviceId deviceClasses scanCode = (KEY_STATE_VIRTUAL, False))
   \<and> (mExportedVirtualScanCode r \<noteq> scanCode \<longrightarrow>
      getCurrentScanCodeState env r deviceId deviceClasses scanCode
        = (getScanCodeState env deviceId deviceClasses scanCode, True))
   \<and> (mExportedVirtualKeyCode r = keyCode \<longrightarrow>
      getCurrentKeyCodeState env r deviceId deviceClasses keyCode = (KEY_STATE_VIRTUAL, False))
   \<and> (mExportedVirtualKeyCode r \<noteq> keyCode \<longrightarrow>
      getCurrentKeyCodeState env r deviceId deviceClasses keyCode
        = (getKeyCodeState env deviceId deviceClasses keyCode, True))"
  by (simp add: getCurrentScanCodeState_def getCurrentKeyCodeState_def)

theorem exported_virtual_state_answers_first_witness:
  "getCurrentScanCodeState (exampleEnv 0 (rawEvent 0 0 0 0)) newReader 3 0 (- 1)
     = (KEY_STATE_VIRTUAL, False)
   \<and> getCurrentScanCodeState (exampleEnv 0 (rawEvent 0 0 0 0)) newReader 3 0 158 = (0, True)
   \<and> getCurrentKeyCodeState (exampleEnv 0 (rawEvent 0 0 0 0)) newReader 3 0 (- 1)
     = (KEY_STATE_VIRTUAL, False)
   \<and> getCurrentKeyCodeState (exampleEnv 0 (rawEvent 0 0 0 0)) newReader 3 0 4 = (0, True)"
proof -
  have a: "mExportedVirtualScanCode newReader = - 1" "mExportedVirtualKeyCode newReader = - 1"
    by (simp_all add: newReader_def updateExportedVirtualKeyState_def scanVirtualKeys_def
        resetDisplayProperties_def resetGlobalMetaState_def emit_def)
  have b: "getScanCodeState (exampleEnv 0 (rawEvent 0 0 0 0)) 3 0 158 = 0"
    "getKeyCodeState (exampleEnv 0 (rawEvent 0 0 0 0)) 3 0 4 = 0"
    by (simp_all add: exampleEnv_def)
  show ?thesis
    using a b
      exported_virtual_state_answers_first
        [where r = newReader and scanCode = "- 1" and keyCode = "- 1"
           and env = "exampleEnv 0 (rawEvent 0 0 0 0)" and deviceClasses = 0 and deviceId = 3]
      exported_virtual_state_answers_first
        [where r = newReader and scanCode = 158 and keyCode = 4
           and env = "exampleEnv 0 (rawEvent 0 0 0 0)" and deviceClasses = 0 and deviceId = 3]
    by simp
qed

section \<open>Multi-touch assembly and the required fields\<close>

text \<open>
  Claim C1 says that an accumulator slot lacking one of the four required fields yields no
  pointer of the current touch frame. The slot of \<open>accTouchMajorOnly\<close> lacks three of them,
  and the assembly still turns it into the pointer of a one-pointer frame, with the slot's
  touch-major value as pressure: the test on the required fields has an empty body in this
  build.
\<close>

theorem assembly_accepts_slot_without_required_fields:
  "mtp_fields (mta_pointers accTouchMajorOnly ! 0) AND REQUIRED_FIELDS \<noteq> REQUIRED_FIELDS
  \<and> pointerCount (fst (assembleMultiTouch accTouchMajorOnly emptyTouchData)) = 1
  \<and> pd_pressure (pointers (fst (assembleMultiTouch accTouchMajorOnly emptyTouchData)) ! 0) = 5
  \<and> \<not> snd (assembleMultiTouch accTouchMajorOnly emptyTouchData)"
  by (simp add: assembleMultiTouch_def assembleStep_def accTouchMajorOnly_def slotTouchMajorOnly_def
      emptyMTPointer_def emptyTouchData_def td_clear_def REQUIRED_FIELDS_def field_defs DEBUG_POINTERS_def
      MAX_POINTERS_def MAX_POINTER_ID_def emptyPointerData_def word_sle_eq)

section \<open>What the handlers leave unchanged\<close>

lemma devView_modDevice:
  "(\<And>d. V (f d) = V d) \<Longrightarrow> devView V (modDevice deviceId f r) = devView V r"
  by (auto simp: devView_def modDevice_def)

lemma core_modDevice:
  "(\<And>d. coreView (f d) = coreView d) \<Longrightarrow> core (modDevice deviceId f r) = core r"
  by (simp add: core_def devView_modDevice) (simp add: modDevice_def)

lemma core_emit [simp]: "core (emit e r) = core r"
  by (simp add: core_def devView_def emit_def)

lemma core_globalMetaState [simp]: "core (snd (globalMetaState r)) = core r"
  by (simp add: core_def devView_def globalMetaState_def Let_def)

lemma core_resetGlobalMetaState [simp]: "core (resetGlobalMetaState r) = core r"
  by (simp add: core_def devView_def resetGlobalMetaState_def)

lemma core_refreshDisplayProperties [simp]: "core (snd (refreshDisplayProperties env r)) = core r"
  by (simp add: core_def devView_def refreshDisplayProperties_def resetDisplayProperties_def Let_def
      split: option.splits)

lemma core_updateExportedInputConfiguration [simp]:
  "core (updateExportedInputConfiguration r) = core r"
  by (simp add: core_def devView_def updateExportedInputConfiguration_def)

lemma core_applyStandard [simp]:
  "core (snd (snd (applyStandardInputDispatchPolicyActions when pa pf r))) = core r"
  by (simp add: applyStandardInputDispatchPolicyActions_def Let_def)

lemma core_modTouchScreen:
  "(\<And>ts. currentVirtualKey (f ts) = currentVirtualKey ts) \<Longrightarrow>
     core (modTouchScreen deviceId f r) = core r"
  unfolding modTouchScreen_def by (rule core_modDevice) (simp add: coreView_def)

lemma map_of_view: "map_of (map (\<lambda>(k, d). (k, V d)) xs) k = map_option V (map_of xs k)"
  by (induction xs) auto

lemma map_of_devView: "map_of (devView V r) k = map_option V (getDevice r k)"
  by (simp add: devView_def getDevice_def map_of_view)

lemma core_dispatchTouch [simp]:
  "core (dispatchTouch when deviceId pf touch bits action r) = core r"
  by (simp add: dispatchTouch_def Let_def split_def split: option.splits)

lemma core_upLoop [simp]:
  "core (snd (upLoop w deviceId pf up active r)) = core r"
proof (induction w deviceId pf up active r rule: upLoop.induct)
  case (1 w deviceId pf up active r)
  show ?case
    by (subst upLoop.simps) (simp add: Let_def "1.IH")
qed

lemma core_downLoop [simp]:
  "core (snd (downLoop w deviceId pf dn active r)) = core r"
proof (induction w deviceId pf dn active r rule: downLoop.induct)
  case (1 w deviceId pf dn active r)
  show ?case
    by (subst downLoop.simps) (simp add: Let_def split_def "1.IH" core_modTouchScreen)
qed

lemma core_dispatchTouches [simp]:
  "core (dispatchTouches when deviceId pf r) = core r"
  by (simp add: dispatchTouches_def Let_def split_def split: option.splits)

lemma core_onSwitch [simp]: "core (onSwitch env w c v r) = core r"
  by (simp add: onSwitch_def Let_def split_def)

lemma core_onKey [simp]: "core (onKey env w deviceId isDown keyCode scanCode pf r) = core r"
  by (simp add: onKey_def Let_def split_def core_modDevice coreView_def
      split: option.splits)

lemma core_onTrackballStateChanged [simp]:
  "core (onTrackballStateChanged env w deviceId r) = core r"
  by (simp add: onTrackballStateChanged_def Let_def split_def core_modDevice coreView_def
      commitTrackball_def split: option.splits)

lemma accView_of_coreView:
  "devView accView r =
     map (\<lambda>(k, n, c, i, vk, rest). (k, c, i, rest)) (devView coreView r)"
  by (simp add: devView_def coreView_def accView_def split_def)

lemma core_imp_accView: "core r' = core r \<Longrightarrow> devView accView r' = devView accView r"
  by (simp add: accView_of_coreView core_def)

lemma acc_emit [simp]: "devView accView (emit e r) = devView accView r"
  by (simp add: devView_def emit_def)

lemma acc_modTouchScreen [simp]:
  "devView accView (modTouchScreen deviceId f r) = devView accView r"
  unfolding modTouchScreen_def by (rule devView_modDevice) (simp add: accView_def)

lemma acc_modVirtualKey [simp]:
  "devView accView (modVirtualKey deviceId f r) = devView accView r"
  by (simp add: modVirtualKey_def)

lemma mDevices_updateExportedVirtualKeyState [simp]:
  "mDevices (updateExportedVirtualKeyState r) = mDevices r"
  by (simp add: updateExportedVirtualKeyState_def Let_def split_def emit_def)

lemma mDevices_emit [simp]: "mDevices (emit e r) = mDevices r"
  by (simp add: emit_def)

lemma mDevices_globalMetaState [simp]: "mDevices (snd (globalMetaState r)) = mDevices r"
  by (simp add: globalMetaState_def Let_def)

lemma mDevices_applyStandard [simp]:
  "mDevices (snd (snd (applyStandardInputDispatchPolicyActions w pa pf r))) = mDevices r"
  by (simp add: applyStandardInputDispatchPolicyActions_def Let_def)

lemma mDevices_refreshDisplayProperties [simp]:
  "mDevices (snd (refreshDisplayProperties env r)) = mDevices r"
  by (simp add: refreshDisplayProperties_def resetDisplayProperties_def Let_def
      split: option.splits)

lemma mDevices_dispatchVirtualKey [simp]:
  "mDevices (dispatchVirtualKey env w deviceId pf action flags r) = mDevices r"
  by (simp add: dispatchVirtualKey_def Let_def split_def split: option.splits)

lemma devView_mDevices_cong: "mDevices r' = mDevices r \<Longrightarrow> devView V r' = devView V r"
  by (simp add: devView_def)

lemma acc_consumeVirtualKeyTouches [simp]:
  "devView accView (snd (consumeVirtualKeyTouches env w deviceId pf r)) = devView accView r"
  by (simp add: consumeVirtualKeyTouches_def Let_def devView_mDevices_cong [OF mDevices_dispatchVirtualKey]
      split: option.splits VirtualKeyStatus.splits)

lemma acc_applyStandard [simp]:
  "devView accView (snd (snd (applyStandardInputDispatchPolicyActions w pa pf r)))
     = devView accView r"
  by (rule core_imp_accView) simp

lemma acc_dispatchTouches [simp]:
  "devView accView (dispatchTouches w deviceId pf r) = devView accView r"
  by (rule core_imp_accView) simp

lemma acc_refreshDisplayProperties [simp]:
  "devView accView (snd (refreshDisplayProperties env r)) = devView accView r"
  by (rule core_imp_accView) simp

lemma acc_onTouchScreenChanged [simp]:
  "devView accView (onTouchScreenChanged env w deviceId have r) = devView accView r"
  by (simp add: onTouchScreenChanged_def Let_def split_def split: option.splits)

lemma acc_onMultiTouchScreenStateChanged [simp]:
  "devView accView (onMultiTouchScreenStateChanged env w deviceId r) = devView accView r"
  by (simp add: onMultiTouchScreenStateChanged_def Let_def split_def devView_modDevice accView_def
      split: option.splits)

lemma acc_onSingleTouchScreenStateChanged [simp]:
  "devView accView (onSingleTouchScreenStateChanged env w deviceId r) = devView accView r"
  by (simp add: onSingleTouchScreenStateChanged_def Let_def split_def devView_modDevice
      accView_def commitSingleTouch_def split: option.splits)

lemma acc_onTrackballStateChanged [simp]:
  "devView accView (onTrackballStateChanged env w deviceId r) = devView accView r"
  by (rule core_imp_accView) simp

lemma getNonIgnoredDevice_SomeD:
  "getNonIgnoredDevice r k = Some d \<Longrightarrow> getDevice r k = Some d \<and> \<not> ignored d"
  by (auto simp: getNonIgnoredDevice_def split: option.splits if_splits)

lemma getDevice_modDevice:
  "getDevice (modDevice deviceId f r) k =
     (if k = deviceId then map_option f (getDevice r k) else getDevice r k)"
proof -
  have "map_of (map (\<lambda>(k', d). if k' = deviceId then (k', f d) else (k', d)) xs) k =
      (if k = deviceId then map_option f (map_of xs k) else map_of xs k)" for xs
    by (induction xs) auto
  then show ?thesis
    by (simp add: getDevice_def modDevice_def)
qed

lemma getDevice_emit [simp]: "getDevice (emit e r) k = getDevice r k"
  by (simp add: getDevice_def)

lemma effects_emit [simp]: "effects (emit e r) = effects r @ [e]"
  by (simp add: emit_def)

lemma effects_modDevice [simp]: "effects (modDevice deviceId f r) = effects r"
  by (simp add: modDevice_def)

lemma mDevices_onConfigurationChanged [simp]:
  "mDevices (onConfigurationChanged w r) = mDevices r"
  by (simp add: onConfigurationChanged_def updateExportedInputConfiguration_def
      resetGlobalMetaState_def)

lemma effects_refreshDisplayProperties [simp]:
  "effects (snd (refreshDisplayProperties env r)) = effects r"
  by (simp add: refreshDisplayProperties_def resetDisplayProperties_def Let_def
      split: option.splits)

lemma effects_modTouchScreen [simp]: "effects (modTouchScreen k f r) = effects r"
  by (simp add: modTouchScreen_def)

lemma getDevice_refreshDisplayProperties [simp]:
  "getDevice (snd (refreshDisplayProperties env r)) k = getDevice r k"
  by (simp add: getDevice_def)

lemma getDevice_applyStandard [simp]:
  "getDevice (snd (snd (applyStandardInputDispatchPolicyActions w pa pf r))) k = getDevice r k"
  by (simp add: getDevice_def)

lemma getDevice_modTouchScreen:
  "getDevice (modTouchScreen deviceId f r) k =
     (if k = deviceId
      then map_option (\<lambda>d. d\<lparr>touchScreen := f (touchScreen d)\<rparr>) (getDevice r k)
      else getDevice r k)"
  by (simp add: modTouchScreen_def getDevice_modDevice)

section \<open>The pointer count of the multi-touch accumulator\<close>

lemma accs_ok_view:
  "accs_ok r = list_all (\<lambda>(k, c, i, mt, rest). mta_ok mt) (devView accView r)"
  by (simp add: accs_ok_def devView_def accView_def list_all_iff split_def)

lemma accs_ok_cong: "devView accView r' = devView accView r \<Longrightarrow> accs_ok r' = accs_ok r"
  by (simp add: accs_ok_view)

lemma accs_ok_mDevices_cong: "mDevices r' = mDevices r \<Longrightarrow> accs_ok r' = accs_ok r"
  by (simp add: accs_ok_def)

lemma accs_ok_modDevice:
  "(\<And>d. mta_ok (multiTouchScreen d) \<Longrightarrow> mta_ok (multiTouchScreen (f d))) \<Longrightarrow>
     accs_ok r \<Longrightarrow> accs_ok (modDevice deviceId f r)"
  by (fastforce simp: accs_ok_def modDevice_def list_all_iff split: if_splits)

lemma accs_ok_getDevice:
  "accs_ok r \<Longrightarrow> getDevice r k = Some d \<Longrightarrow> mta_ok (multiTouchScreen d)"
  by (auto simp: accs_ok_def getDevice_def list_all_iff dest: map_of_SomeD)

lemma set_kvAdd: "set (kvAdd k v xs) \<subseteq> insert (k, v) (set xs)"
  by (induction xs) (auto split: if_splits)

lemma mta_ok_new: "mta_ok (multiTouchScreen (newDevice k c n))"
  by (simp add: mta_ok_def newDevice_def MAX_POINTERS_def)

lemma mta_ok_clear: "mta_ok a \<Longrightarrow> mta_ok (mta_clear a)"
  by (simp add: mta_ok_def mta_clear_def)

lemma accs_ok_addDevice: "accs_ok r \<Longrightarrow> accs_ok (addDevice env w k r)"
proof -
  assume ok: "accs_ok r"
  have "accs_ok (r\<lparr>mDevices := kvAdd k d (mDevices r)\<rparr>)" if "mta_ok (multiTouchScreen d)" for d
    using ok that set_kvAdd [of k d "mDevices r"]
    by (auto simp: accs_ok_def list_all_iff)
  then show ?thesis
    by (simp add: addDevice_def Let_def mta_ok_new accs_ok_mDevices_cong [OF mDevices_onConfigurationChanged])
qed

lemma accs_ok_removeDevice: "accs_ok r \<Longrightarrow> accs_ok (removeDevice w d r)"
  by (simp add: removeDevice_def Let_def accs_ok_mDevices_cong [OF mDevices_onConfigurationChanged])
    (auto simp: accs_ok_def kvRemoveItem_def list_all_iff)

lemma max_pointers_succ:
  "c \<le> MAX_POINTERS \<Longrightarrow> c \<noteq> MAX_POINTERS \<Longrightarrow> c + 1 \<le> MAX_POINTERS" for c :: uint32
  unfolding MAX_POINTERS_def by unat_arith

lemma accs_ok_emit [simp]: "accs_ok (emit e r) = accs_ok r"
  by (simp add: accs_ok_def)

lemma accs_ok_syncPointer:
  assumes "accs_ok r" and "mta_ok (multiTouchScreen device)"
  shows "accs_ok (syncPointer deviceId device r)"
  using assms
  by (auto simp: syncPointer_def Let_def mta_ok_def max_pointers_succ intro!: accs_ok_modDevice)

lemma accs_ok_handleSync: "accs_ok r \<Longrightarrow> accs_ok (handleSync env ev r)"
proof -
  assume ok: "accs_ok r"
  have touch: "accs_ok (syncTouch env w k d r)" for w k d
    using ok
    by (auto simp: syncTouch_def accs_ok_cong [OF acc_onMultiTouchScreenStateChanged]
        accs_ok_cong [OF acc_onSingleTouchScreenStateChanged] mta_ok_clear
        intro!: accs_ok_modDevice)
  have ball: "accs_ok r' \<Longrightarrow> accs_ok (syncTrackball env w k d r')" for w k d r'
    by (auto simp: syncTrackball_def accs_ok_cong [OF acc_onTrackballStateChanged]
        intro!: accs_ok_modDevice)
  show ?thesis
  proof (cases "getNonIgnoredDevice r (ev_deviceId ev)")
    case None
    then show ?thesis
      using ok by (simp add: handleSync_def)
  next
    case (Some device)
    then have "mta_ok (multiTouchScreen device)"
      using ok accs_ok_getDevice getNonIgnoredDevice_SomeD by blast
    then show ?thesis
      using ok touch ball Some
      by (simp add: handleSync_def Let_def accs_ok_syncPointer split: option.splits)
  qed
qed

lemma accs_ok_handleKey: "accs_ok r \<Longrightarrow> accs_ok (handleKey env ev r)"
  by (auto simp: handleKey_def Let_def accs_ok_cong [OF core_imp_accView [OF core_onKey]]
      intro!: accs_ok_modDevice split: option.splits)

lemma accs_ok_handleRelativeMotion: "accs_ok r \<Longrightarrow> accs_ok (handleRelativeMotion ev r)"
  by (auto simp: handleRelativeMotion_def Let_def intro!: accs_ok_modDevice split: option.splits)

lemma accs_ok_handleAbsoluteMotion: "accs_ok r \<Longrightarrow> accs_ok (handleAbsoluteMotion ev r)"
  by (auto simp: handleAbsoluteMotion_def Let_def mta_ok_def intro!: accs_ok_modDevice
      split: option.splits)

lemma accs_ok_handleSwitch: "accs_ok r \<Longrightarrow> accs_ok (handleSwitch env ev r)"
  by (auto simp: handleSwitch_def accs_ok_cong [OF core_imp_accView [OF core_onSwitch]]
      split: option.splits)

lemma accs_ok_process: "accs_ok r \<Longrightarrow> accs_ok (process env ev r)"
  by (simp add: process_def handleDeviceAdded_def handleDeviceRemoved_def accs_ok_addDevice
      accs_ok_removeDevice accs_ok_handleSync accs_ok_handleKey accs_ok_handleRelativeMotion
      accs_ok_handleAbsoluteMotion accs_ok_handleSwitch split: option.splits)

lemma accs_ok_runReader: "accs_ok r \<Longrightarrow> accs_ok (runReader envs r)"
  unfolding runReader_def
  by (induction envs arbitrary: r) (simp_all add: loopOnce_def accs_ok_process)

lemma accs_ok_newReader: "accs_ok newReader"
  by (simp add: newReader_def accs_ok_def resetDisplayProperties_def resetGlobalMetaState_def)

text \<open>
  Claim C4. Whatever raw events arrive, the pointer count of every multi-touch accumulator
  stays at most \<open>MAX_POINTERS\<close> (and the slot it indexes exists). On a per-pointer sync
  with a dirty current slot the count advances by one exactly while it is below
  \<open>MAX_POINTERS\<close>; at \<open>MAX_POINTERS\<close> the count stays, the fields collected for the extra
  pointer are cleared, and a warning is logged.
\<close>

theorem pointerCount_bounded:
  "(\<forall>envs. \<forall>(k, d) \<in> set (mDevices (runReader envs newReader)).
       mta_pointerCount (multiTouchScreen d) \<le> MAX_POINTERS
       \<and> unat (mta_pointerCount (multiTouchScreen d)) < length (mta_pointers (multiTouchScreen d)))
   \<and> (\<forall>env (ev :: RawEvent) r device.
         getNonIgnoredDevice r (ev_deviceId ev) = Some device \<and> isMultiTouchScreen device
         \<and> ev_type ev = EV_SYN \<and> ev_scanCode ev = SYN_MT_REPORT
         \<and> mta_ok (multiTouchScreen device)
         \<and> mtp_fields (mta_pointers (multiTouchScreen device)
                          ! unat (mta_pointerCount (multiTouchScreen device))) \<noteq> 0
         \<longrightarrow> (\<exists>device'. getDevice (process env ev r) (ev_deviceId ev) = Some device'
               \<and> (if mta_pointerCount (multiTouchScreen device) < MAX_POINTERS
                   then mta_pointerCount (multiTouchScreen device')
                          = mta_pointerCount (multiTouchScreen device) + 1
                        \<and> effects (process env ev r) = effects r
                   else mta_pointerCount (multiTouchScreen device') = MAX_POINTERS
                        \<and> mtp_fields (mta_pointers (multiTouchScreen device') ! unat MAX_POINTERS) = 0
                        \<and> effects (process env ev r) = effects r @
                             [LogW ''MultiTouch device driver returned more than maximum of pointers.''])))"
proof (intro conjI allI impI)
  fix envs
  have "accs_ok (runReader envs newReader)"
    by (simp add: accs_ok_runReader accs_ok_newReader)
  then show "\<forall>(k, d) \<in> set (mDevices (runReader envs newReader)).
       mta_pointerCount (multiTouchScreen d) \<le> MAX_POINTERS
       \<and> unat (mta_pointerCount (multiTouchScreen d)) < length (mta_pointers (multiTouchScreen d))"
    by (auto simp: accs_ok_def list_all_iff mta_ok_def word_le_nat_alt)
next
  fix env and ev :: RawEvent and r device
  assume a: "getNonIgnoredDevice r (ev_deviceId ev) = Some device \<and> isMultiTouchScreen device
         \<and> ev_type ev = EV_SYN \<and> ev_scanCode ev = SYN_MT_REPORT
         \<and> mta_ok (multiTouchScreen device)
         \<and> mtp_fields (mta_pointers (multiTouchScreen device)
                          ! unat (mta_pointerCount (multiTouchScreen device))) \<noteq> 0"
  then have g: "getDevice r (ev_deviceId ev) = Some device"
    by (simp add: getNonIgnoredDevice_SomeD)
  have p: "process env ev r = syncPointer (ev_deviceId ev) device r"
    using a by (simp add: process_def handleSync_def evtype_defs)
  have lt: "(mta_pointerCount (multiTouchScreen device) < MAX_POINTERS)
      = (mta_pointerCount (multiTouchScreen device) \<noteq> MAX_POINTERS)"
    using a by (auto simp: mta_ok_def)
  show "\<exists>device'. getDevice (process env ev r) (ev_deviceId ev) = Some device'
               \<and> (if mta_pointerCount (multiTouchScreen device) < MAX_POINTERS
                   then mta_pointerCount (multiTouchScreen device')
                          = mta_pointerCount (multiTouchScreen device) + 1
                        \<and> effects (process env ev r) = effects r
                   else mta_pointerCount (multiTouchScreen device') = MAX_POINTERS
                        \<and> mtp_fields (mta_pointers (multiTouchScreen device') ! unat MAX_POINTERS) = 0
                        \<and> effects (process env ev r) = effects r @
                             [LogW ''MultiTouch device driver returned more than maximum of pointers.''])"
    using a g
    unfolding p lt
    by (auto simp: syncPointer_def Let_def getDevice_modDevice mta_ok_def mtp_clear_def)
qed

theorem pointerCount_bounded_witness:
  "mDevices (runReader [addedEvent, touchMajorEvent, pointerSyncEvent] newReader) \<noteq> []
   \<and> list_all (\<lambda>(k, d). mta_pointerCount (multiTouchScreen d) \<le> MAX_POINTERS)
        (mDevices (runReader [addedEvent, touchMajorEvent, pointerSyncEvent] newReader))
   \<and> map_option (\<lambda>d. mta_pointerCount (multiTouchScreen d))
        (getDevice (runReader [addedEvent, touchMajorEvent] newReader) 1) = Some 0
   \<and> map_option (\<lambda>d. mta_pointerCount (multiTouchScreen d))
        (getDevice (loopOnce pointerSyncEvent (runReader [addedEvent, touchMajorEvent] newReader)) 1)
        = Some 1
   \<and> map_option (\<lambda>d. mta_pointerCount (multiTouchScreen d))
        (getDevice (loopOnce pointerSyncEvent fullReader) 1) = Some MAX_POINTERS
   \<and> effects (loopOnce pointerSyncEvent fullReader) = effects fullReader @
         [LogW ''MultiTouch device driver returned more than maximum of pointers.'']"
proof -
  let ?ev = "(getEvent pointerSyncEvent)\<lparr>ev_when := systemTime pointerSyncEvent\<rparr>"
  let ?r = "runReader [addedEvent, touchMajorEvent] newReader"
  let ?d = "snd (hd (mDevices ?r))"
  let ?d' = "snd (hd (mDevices fullReader))"
  have ne: "mDevices (runReader [addedEvent, touchMajorEvent, pointerSyncEvent] newReader) \<noteq> []"
    by code_simp
  have c0: "map_option (\<lambda>d. mta_pointerCount (multiTouchScreen d)) (getDevice ?r 1) = Some 0"
    by code_simp
  have h1: "getNonIgnoredDevice ?r (ev_deviceId ?ev) = Some ?d \<and> isMultiTouchScreen ?d
         \<and> ev_type ?ev = EV_SYN \<and> ev_scanCode ?ev = SYN_MT_REPORT
         \<and> mta_ok (multiTouchScreen ?d)
         \<and> mtp_fields (mta_pointers (multiTouchScreen ?d)
                          ! unat (mta_pointerCount (multiTouchScreen ?d))) \<noteq> 0"
    by code_simp
  have h2: "getNonIgnoredDevice fullReader (ev_deviceId ?ev) = Some ?d' \<and> isMultiTouchScreen ?d'
         \<and> ev_type ?ev = EV_SYN \<and> ev_scanCode ?ev = SYN_MT_REPORT
         \<and> mta_ok (multiTouchScreen ?d')
         \<and> mtp_fields (mta_pointers (multiTouchScreen ?d')
                          ! unat (mta_pointerCount (multiTouchScreen ?d'))) \<noteq> 0"
    by code_simp
  have v1: "mta_pointerCount (multiTouchScreen ?d) = 0" "ev_deviceId ?ev = 1"
    by code_simp+
  have v2: "mta_pointerCount (multiTouchScreen ?d') = MAX_POINTERS"
    by code_simp
  note all = pointerCount_bounded [THEN conjunct1, THEN spec,
      of "[addedEvent, touchMajorEvent, pointerSyncEvent]"]
  note s1 = pointerCount_bounded [THEN conjunct2, rule_format, OF h1, of pointerSyncEvent]
  note s2 = pointerCount_bounded [THEN conjunct2, rule_format, OF h2, of pointerSyncEvent]
  have "list_all (\<lambda>(k, d). mta_pointerCount (multiTouchScreen d) \<le> MAX_POINTERS)
        (mDevices (runReader [addedEvent, touchMajorEvent, pointerSyncEvent] newReader))"
    using all by (auto simp: list_all_iff)
  moreover have "map_option (\<lambda>d. mta_pointerCount (multiTouchScreen d))
        (getDevice (loopOnce pointerSyncEvent ?r) 1) = Some 1"
    using s1 by (auto simp: v1 loopOnce_def MAX_POINTERS_def)
  moreover have "map_option (\<lambda>d. mta_pointerCount (multiTouchScreen d))
        (getDevice (loopOnce pointerSyncEvent fullReader) 1) = Some MAX_POINTERS
     \<and> effects (loopOnce pointerSyncEvent fullReader) = effects fullReader @
         [LogW ''MultiTouch device driver returned more than maximum of pointers.'']"
    using s2 by (auto simp: v1 v2 loopOnce_def)
  ultimately show ?thesis
    using ne c0 by simp
qed

section \<open>Frame sync on a clean accumulator\<close>


lemma isMultiTouchScreen_accView:
  "accView d' = accView d \<Longrightarrow> isMultiTouchScreen d' = isMultiTouchScreen d"
  by (simp add: accView_def isMultiTouchScreen_def)

lemma isSingleTouchScreen_accView:
  "accView d' = accView d \<Longrightarrow> isSingleTouchScreen d' = isSingleTouchScreen d"
  by (simp add: accView_def isSingleTouchScreen_def)







section \<open>Touch dispatch against the specification\<close>

lemma idList_empty: "isEmpty b \<Longrightarrow> idList b = []"
  by (simp add: idList_def isEmpty_def markedBits_def)

lemma idList_step:
  "\<not> isEmpty b \<Longrightarrow> idList b = firstMarkedBit b # idList (clearBit (firstMarkedBit b) b)"
proof -
  assume "\<not> isEmpty b"
  then have "markedBits b \<noteq> []"
    by (simp add: isEmpty_def markedBits_nonempty)
  then obtain n ns where eq: "markedBits b = n # ns"
    by (cases "markedBits b") auto
  then show ?thesis
    by (simp add: idList_def firstMarkedBit_def markedBits_clear_first [OF eq])
qed

lemma drainBits_idList: "drainBits b = idList b"
proof (induction b rule: drainBits.induct)
  case (1 b)
  show ?case
  proof (cases "isEmpty b")
    case True
    then show ?thesis
      by (simp add: drainBits.simps idList_empty)
  next
    case False
    then show ?thesis
      using "1.IH" [OF False refl]
      by (subst drainBits.simps) (simp add: idList_step [OF False] Let_def)
  qed
qed

lemma metaOf_globalMetaState [simp]: "metaOf (snd (globalMetaState r)) = metaOf r"
  by (simp add: metaOf_def globalMetaState_def Let_def)

lemma metaOf_emit [simp]: "metaOf (emit e r) = metaOf r"
  by (simp add: metaOf_def globalMetaState_def emit_def Let_def)

lemma metaOf_modTouchScreen [simp]: "metaOf (modTouchScreen k f r) = metaOf r"
proof -
  have "fold (\<lambda>(k, device) acc.
            if isKeyboard device then acc OR kb_metaState (keyboard device) else acc)
         (map (\<lambda>(k', d). if k' = k then (k', d\<lparr>touchScreen := f (touchScreen d)\<rparr>) else (k', d)) xs) a
      = fold (\<lambda>(k, device) acc.
            if isKeyboard device then acc OR kb_metaState (keyboard device) else acc) xs a"
    for xs and a :: int32
    by (induction xs arbitrary: a) (auto simp: isKeyboard_def)
  then show ?thesis
    by (simp add: metaOf_def globalMetaState_def modTouchScreen_def modDevice_def Let_def)
qed

lemma getDevice_globalMetaState [simp]: "getDevice (snd (globalMetaState r)) k = getDevice r k"
  by (simp add: getDevice_def)

lemma effects_globalMetaState [simp]: "effects (snd (globalMetaState r)) = effects r"
  by (simp add: globalMetaState_def Let_def)

lemma dispatchTouch_effect:
  assumes "getDevice r k = Some device"
  shows "effects (dispatchTouch w k pf touch bits action r) =
           effects r @ [touchMotion w device pf (metaOf r) (touch (touchScreen device))
                          (action, bits, ts_downTime (touchScreen device))]"
    and "getDevice (dispatchTouch w k pf touch bits action r) k' = getDevice r k'"
    and "metaOf (dispatchTouch w k pf touch bits action r) = metaOf r"
  using assms
  by (simp_all add: dispatchTouch_def Let_def split_def touchMotion_def touchSamples_def
      drainBits_idList metaOf_def [symmetric])

lemma upLoop_spec:
  assumes "getDevice r k = Some device"
  shows "effects (snd (upLoop w k pf up active r)) =
           effects r @ map (touchMotion w device pf (metaOf r) (lastTouch (touchScreen device)))
                         (specUps (ts_downTime (touchScreen device)) (idList up) active)
         \<and> fst (upLoop w k pf up active r) = fold clearBit (idList up) active
         \<and> getDevice (snd (upLoop w k pf up active r)) k = Some device
         \<and> metaOf (snd (upLoop w k pf up active r)) = metaOf r"
  using assms
proof (induction w k pf up active r rule: upLoop.induct)
  case (1 w k pf up active r)
  show ?case
  proof (cases "isEmpty up")
    case True
    then show ?thesis
      using "1.prems" by (subst (1 2 3 4) upLoop.simps) (simp add: idList_empty)
  next
    case False
    let ?u = "firstMarkedBit up"
    let ?a = "if isEmpty (clearBit ?u active) then MOTION_EVENT_ACTION_UP
         else MOTION_EVENT_ACTION_POINTER_UP OR push_bit MOTION_EVENT_ACTION_POINTER_INDEX_SHIFT ?u"
    let ?r1 = "dispatchTouch w k pf lastTouch active ?a r"
    have step: "upLoop w k pf up active r = upLoop w k pf (clearBit ?u up) (clearBit ?u active) ?r1"
      using False by (subst upLoop.simps) (simp add: Let_def)
    have g1: "getDevice ?r1 k = Some device"
      using "1.prems" by (simp add: dispatchTouch_effect)
    note ih = "1.IH" [OF False refl refl refl refl refl refl g1]
    show ?thesis
      unfolding step
      using ih "1.prems"
      by (simp add: idList_step [OF False] dispatchTouch_effect isEmpty_def)
  qed
qed

lemma touchMotion_downTime [simp]:
  "touchMotion w (device\<lparr>touchScreen := (touchScreen device)\<lparr>ts_downTime := t\<rparr>\<rparr>) pf m
     = touchMotion w device pf m"
  by (simp add: touchMotion_def fun_eq_iff)

lemma downLoop_spec:
  assumes "getDevice r k = Some device"
  shows "effects (snd (downLoop w k pf dn active r)) =
           effects r @ map (touchMotion w device pf (metaOf r) (currentTouch (touchScreen device)))
                         (specDowns w (ts_downTime (touchScreen device)) (idList dn) active)"
  using assms
proof (induction w k pf dn active r arbitrary: device rule: downLoop.induct)
  case (1 w k pf dn active r)
  show ?case
  proof (cases "isEmpty dn")
    case True
    then show ?thesis
      using "1.prems" by (subst downLoop.simps) (simp add: idList_empty)
  next
    case False
    let ?d = "firstMarkedBit dn"
    show ?thesis
    proof (cases "isEmpty active")
      case True
      let ?r1 = "modTouchScreen k (\<lambda>ts. ts\<lparr>ts_downTime := w\<rparr>) r"
      let ?dev1 = "device\<lparr>touchScreen := (touchScreen device)\<lparr>ts_downTime := w\<rparr>\<rparr>"
      let ?r2 = "dispatchTouch w k pf currentTouch (markBit ?d active) MOTION_EVENT_ACTION_DOWN ?r1"
      have step: "downLoop w k pf dn active r
          = downLoop w k pf (clearBit ?d dn) (markBit ?d active) ?r2"
        using False True by (subst downLoop.simps) (simp add: Let_def)
      have g1: "getDevice ?r1 k = Some ?dev1"
        using "1.prems" by (simp add: getDevice_modTouchScreen)
      then have g2: "getDevice ?r2 k = Some ?dev1"
        by (simp add: dispatchTouch_effect)
      have m: "metaOf ?r2 = metaOf r"
        using g1 by (simp add: dispatchTouch_effect)
      have e: "effects ?r2 = effects r @
          [touchMotion w device pf (metaOf r) (currentTouch (touchScreen device))
             (MOTION_EVENT_ACTION_DOWN, markBit ?d active, w)]"
        using dispatchTouch_effect(1) [OF g1, of w pf currentTouch "markBit ?d active"
            MOTION_EVENT_ACTION_DOWN]
        by simp
      have ih: "effects (snd (downLoop w k pf (clearBit ?d dn) (markBit ?d active) ?r2)) =
          effects ?r2 @ map (touchMotion w ?dev1 pf (metaOf ?r2) (currentTouch (touchScreen ?dev1)))
            (specDowns w (ts_downTime (touchScreen ?dev1)) (idList (clearBit ?d dn))
               (markBit ?d active))"
        by (rule "1.IH" [OF False refl refl refl refl _ _ refl g2])
          (simp_all add: True)
      show ?thesis
        unfolding step ih e m
        using True by (simp add: idList_step [OF False] isEmpty_def)
    next
      case nonempty: False
      let ?a = "MOTION_EVENT_ACTION_POINTER_DOWN
                OR push_bit MOTION_EVENT_ACTION_POINTER_INDEX_SHIFT ?d"
      let ?r2 = "dispatchTouch w k pf currentTouch (markBit ?d active) ?a r"
      have step: "downLoop w k pf dn active r
          = downLoop w k pf (clearBit ?d dn) (markBit ?d active) ?r2"
        using False nonempty by (subst downLoop.simps) (simp add: Let_def)
      have g2: "getDevice ?r2 k = Some device"
        using "1.prems" by (simp add: dispatchTouch_effect)
      have m: "metaOf ?r2 = metaOf r"
        using "1.prems" by (simp add: dispatchTouch_effect)
      have e: "effects ?r2 = effects r @
          [touchMotion w device pf (metaOf r) (currentTouch (touchScreen device))
             (?a, markBit ?d active, ts_downTime (touchScreen device))]"
        using dispatchTouch_effect(1) [OF "1.prems", of w pf currentTouch "markBit ?d active" ?a]
        by simp
      have ih: "effects (snd (downLoop w k pf (clearBit ?d dn) (markBit ?d active) ?r2)) =
          effects ?r2 @ map (touchMotion w device pf (metaOf ?r2) (currentTouch (touchScreen device)))
            (specDowns w (ts_downTime (touchScreen device)) (idList (clearBit ?d dn))
               (markBit ?d active))"
        by (rule "1.IH" [OF False refl refl refl refl _ _ refl g2])
          (simp_all add: nonempty)
      show ?thesis
        unfolding step ih e m
        using nonempty by (simp add: idList_step [OF False] isEmpty_def)
    qed
  qed
qed

lemma dispatchTouches_spec:
  assumes "getDevice r k = Some device"
    and "countMatchesIds (currentTouch (touchScreen device))"
    and "countMatchesIds (lastTouch (touchScreen device))"
  shows "effects (dispatchTouches w k pf r) = effects r @ specTouchEvents w device pf (metaOf r)"
proof -
  let ?cur = "currentTouch (touchScreen device)" and ?last = "lastTouch (touchScreen device)"
  let ?up = "idBits ?last AND NOT (idBits ?cur)"
  let ?ul = "upLoop w k pf ?up (idBits ?last) r"
  note u = upLoop_spec [OF assms(1), of w pf ?up "idBits ?last"]
  then have gu: "getDevice (snd ?ul) k = Some device"
    by simp
  note d = downLoop_spec [OF gu, of w pf "idBits ?cur AND NOT (idBits ?last)" "fst ?ul"]
  show ?thesis
    using assms u d
    by (auto simp: dispatchTouches_def specTouchEvents_def Let_def split_def countMatchesIds_def
        dispatchTouch_effect)
qed

lemma idList_ascending: "map unat (idList b) = filter (bit b) [0..<32]"
proof -
  have "map unat (map (of_nat :: nat \<Rightarrow> uint32) ns) = ns" if "\<forall>n \<in> set ns. n < 32" for ns
    using that by (induction ns) (simp_all add: unat_of_nat)
  then show ?thesis
    by (simp add: idList_def markedBits_def)
qed

text \<open>
  Claim C2. For a device whose last and current frames have a pointer count of zero exactly
  when their id set is empty, \<open>dispatchTouches\<close> dispatches the events the specification
  words: for equal id sets one \<open>MOVE\<close> with the current pointers, none when the sets are
  empty; for different sets one event per id of last minus current, lowest id first, from
  the last frame, then one per id of current minus last, lowest id first, from the current
  frame, an up being \<open>UP\<close> exactly when the active set is empty after the id is removed and a
  down being \<open>DOWN\<close> exactly when the active set is empty before the id is added. The ids
  of both differences are enumerated in ascending order.
\<close>

theorem dispatchTouches_refines_spec:
  "getDevice r k = Some device
   \<and> countMatchesIds (currentTouch (touchScreen device))
   \<and> countMatchesIds (lastTouch (touchScreen device))
   \<longrightarrow> effects (dispatchTouches w k policyFlags r)
         = effects r @ specTouchEvents w device policyFlags (fst (globalMetaState r))
       \<and> map unat (idList (idBits (lastTouch (touchScreen device))
                             AND NOT (idBits (currentTouch (touchScreen device)))))
           = filter (bit (idBits (lastTouch (touchScreen device))
                            AND NOT (idBits (currentTouch (touchScreen device))))) [0..<32]
       \<and> map unat (idList (idBits (currentTouch (touchScreen device))
                             AND NOT (idBits (lastTouch (touchScreen device)))))
           = filter (bit (idBits (currentTouch (touchScreen device))
                            AND NOT (idBits (lastTouch (touchScreen device))))) [0..<32]"
  using dispatchTouches_spec [of r k device w policyFlags]
  by (simp add: idList_ascending metaOf_def)

theorem dispatchTouches_refines_spec_witness:
  "getDevice twoFrames 1 = Some (deviceOf twoFrames)
   \<and> countMatchesIds (currentTouch (touchScreen (deviceOf twoFrames)))
   \<and> countMatchesIds (lastTouch (touchScreen (deviceOf twoFrames)))
   \<and> effects (dispatchTouches 7 1 0 twoFrames)
       = effects twoFrames @ specTouchEvents 7 (deviceOf twoFrames) 0 (fst (globalMetaState twoFrames))
   \<and> motionActions (effects (dispatchTouches 7 1 0 twoFrames))
       = [MOTION_EVENT_ACTION_POINTER_UP, MOTION_EVENT_ACTION_POINTER_DOWN OR 0x200]
   \<and> motionActions (effects (dispatchTouches 7 1 0 lastOnly)) = [MOTION_EVENT_ACTION_UP]
   \<and> motionActions (effects (dispatchTouches 7 1 0 currentOnly))
       = [MOTION_EVENT_ACTION_DOWN, MOTION_EVENT_ACTION_POINTER_DOWN OR 0x100]
   \<and> motionActions (effects (dispatchTouches 7 1 0 sameIds)) = [MOTION_EVENT_ACTION_MOVE]"
proof -
  have h: "getDevice twoFrames 1 = Some (deviceOf twoFrames)
      \<and> countMatchesIds (currentTouch (touchScreen (deviceOf twoFrames)))
      \<and> countMatchesIds (lastTouch (touchScreen (deviceOf twoFrames)))"
    by code_simp
  have a: "motionActions (effects (dispatchTouches 7 1 0 twoFrames))
       = [MOTION_EVENT_ACTION_POINTER_UP, MOTION_EVENT_ACTION_POINTER_DOWN OR 0x200]"
    by code_simp
  have b: "motionActions (effects (dispatchTouches 7 1 0 lastOnly)) = [MOTION_EVENT_ACTION_UP]"
    by code_simp
  have c: "motionActions (effects (dispatchTouches 7 1 0 currentOnly))
       = [MOTION_EVENT_ACTION_DOWN, MOTION_EVENT_ACTION_POINTER_DOWN OR 0x100]"
    by code_simp
  have d: "motionActions (effects (dispatchTouches 7 1 0 sameIds)) = [MOTION_EVENT_ACTION_MOVE]"
    by code_simp
  from dispatchTouches_refines_spec [rule_format, OF h, of 7 0]
  show ?thesis
    using h a b c d by simp
qed

section \<open>A touch frame the policy drops\<close>

lemma onTouchScreenChanged_drop:
  assumes "interceptTouch env w AND ACTION_DISPATCH = 0"
  shows "onTouchScreenChanged env w k havePointerIds r =
     modTouchScreen k (\<lambda>ts. ts\<lparr>lastTouch := td_clear (lastTouch ts)\<rparr>)
       (if interceptTouch env w AND ACTION_APP_SWITCH_COMING \<noteq> 0
        then emit (NotifyAppSwitchComing w) r else r)"
  using assms
  by (simp add: onTouchScreenChanged_def applyStandardInputDispatchPolicyActions_def Let_def)

lemma fresh_frame_only_downs:
  assumes "getDevice r k = Some d"
    and "pointerCount (lastTouch (touchScreen d)) = 0"
    and "idBits (lastTouch (touchScreen d)) = 0"
    and "countMatchesIds (currentTouch (touchScreen d))"
  shows "effects (dispatchTouches w k pf r)
     = effects r @ map (touchMotion w d pf (metaOf r) (currentTouch (touchScreen d)))
         (specDowns w (ts_downTime (touchScreen d)) (idList (idBits (currentTouch (touchScreen d)))) 0)"
proof -
  have c: "countMatchesIds (lastTouch (touchScreen d))"
    using assms(2,3) by (simp add: countMatchesIds_def)
  show ?thesis
    using dispatchTouches_spec [OF assms(1) assms(4) c, of w pf] assms(3)
    by (auto simp: specTouchEvents_def Let_def idList_empty isEmpty_def)
qed

lemma metaOf_applyStandard [simp]:
  "metaOf (snd (snd (applyStandardInputDispatchPolicyActions w a pf r))) = metaOf r"
  by (simp add: applyStandardInputDispatchPolicyActions_def Let_def)

text \<open>
  Claim C8. When the actions the policy returns for a touch frame lack \<open>ACTION_DISPATCH\<close>,
  the frame adds no motion event and no key event to what was dispatched (the only
  possible effect is the app-switch notice), also through the single-touch and multi-touch
  entry points; the last frame of the device is cleared and its virtual key is left as it
  was. Whatever frame comes next, \<open>dispatchTouches\<close> dispatches for it one down per pointer
  of the frame and nothing else.
\<close>

theorem policy_drop_clears_lastTouch:
  "interceptTouch env w AND ACTION_DISPATCH = 0 \<longrightarrow>
     effects (onTouchScreenChanged env w k havePointerIds r) =
       effects r @ (if interceptTouch env w AND ACTION_APP_SWITCH_COMING \<noteq> 0
                    then [NotifyAppSwitchComing w] else [])
     \<and> filter isInputEvent (effects (onTouchScreenChanged env w k havePointerIds r))
         = filter isInputEvent (effects r)
     \<and> filter isInputEvent (effects (onMultiTouchScreenStateChanged env w k r))
         = filter isInputEvent (effects r)
     \<and> filter isInputEvent (effects (onSingleTouchScreenStateChanged env w k r))
         = filter isInputEvent (effects r)
     \<and> (\<forall>d. getDevice r k = Some d \<longrightarrow>
           (\<exists>d'. getDevice (onTouchScreenChanged env w k havePointerIds r) k = Some d'
              \<and> lastTouch (touchScreen d') = td_clear (lastTouch (touchScreen d))
              \<and> pointerCount (lastTouch (touchScreen d')) = 0
              \<and> idBits (lastTouch (touchScreen d')) = 0
              \<and> currentVirtualKey (touchScreen d') = currentVirtualKey (touchScreen d)))
     \<and> (\<forall>d next w' pf.
           getDevice r k = Some d \<and> countMatchesIds next \<longrightarrow>
           effects (dispatchTouches w' k pf
                      (modTouchScreen k (\<lambda>ts. ts\<lparr>currentTouch := next\<rparr>)
                         (onTouchScreenChanged env w k havePointerIds r)))
             = effects (onTouchScreenChanged env w k havePointerIds r)
               @ map (touchMotion w' d pf (metaOf r) next)
                   (specDowns w' (ts_downTime (touchScreen d)) (idList (idBits next)) 0))"
proof
  assume a: "interceptTouch env w AND ACTION_DISPATCH = 0"
  note d = onTouchScreenChanged_drop [OF a]
  have e: "effects (onTouchScreenChanged env w k h r') =
       effects r' @ (if interceptTouch env w AND ACTION_APP_SWITCH_COMING \<noteq> 0
                    then [NotifyAppSwitchComing w] else [])" for h r'
    by (simp add: d)
  have m: "filter isInputEvent (effects (onMultiTouchScreenStateChanged env w k r))
         = filter isInputEvent (effects r)"
    by (simp add: onMultiTouchScreenStateChanged_def Let_def split_def e split: option.splits)
  have s: "filter isInputEvent (effects (onSingleTouchScreenStateChanged env w k r))
         = filter isInputEvent (effects r)"
    by (simp add: onSingleTouchScreenStateChanged_def Let_def split_def e split: option.splits)
  have g: "\<exists>d'. getDevice (onTouchScreenChanged env w k havePointerIds r) k = Some d'
              \<and> lastTouch (touchScreen d') = td_clear (lastTouch (touchScreen d))
              \<and> pointerCount (lastTouch (touchScreen d')) = 0
              \<and> idBits (lastTouch (touchScreen d')) = 0
              \<and> currentVirtualKey (touchScreen d') = currentVirtualKey (touchScreen d)"
    if "getDevice r k = Some d" for d
    using that by (simp add: d getDevice_modTouchScreen td_clear_def)
  have n: "effects (dispatchTouches w' k pf
                      (modTouchScreen k (\<lambda>ts. ts\<lparr>currentTouch := next\<rparr>)
                         (onTouchScreenChanged env w k havePointerIds r)))
             = effects (onTouchScreenChanged env w k havePointerIds r)
               @ map (touchMotion w' d pf (metaOf r) next)
                   (specDowns w' (ts_downTime (touchScreen d)) (idList (idBits next)) 0)"
    if h: "getDevice r k = Some d" "countMatchesIds next" for d "next" w' pf
  proof -
    let ?r = "modTouchScreen k (\<lambda>ts. ts\<lparr>currentTouch := next\<rparr>)
                (onTouchScreenChanged env w k havePointerIds r)"
    let ?d = "d\<lparr>touchScreen := (touchScreen d)\<lparr>lastTouch := td_clear (lastTouch (touchScreen d)),
                 currentTouch := next\<rparr>\<rparr>"
    have gd: "getDevice ?r k = Some ?d"
      using h(1) by (simp add: d getDevice_modTouchScreen)
    have t: "touchMotion w' (d\<lparr>touchScreen := x\<rparr>) pf = touchMotion w' d pf" for x
      by (simp add: touchMotion_def fun_eq_iff)
    show ?thesis
      using fresh_frame_only_downs [OF gd, of w' pf] h(2)
      by (simp add: td_clear_def t d)
  qed
  show "effects (onTouchScreenChanged env w k havePointerIds r) =
       effects r @ (if interceptTouch env w AND ACTION_APP_SWITCH_COMING \<noteq> 0
                    then [NotifyAppSwitchComing w] else [])
     \<and> filter isInputEvent (effects (onTouchScreenChanged env w k havePointerIds r))
         = filter isInputEvent (effects r)
     \<and> filter isInputEvent (effects (onMultiTouchScreenStateChanged env w k r))
         = filter isInputEvent (effects r)
     \<and> filter isInputEvent (effects (onSingleTouchScreenStateChanged env w k r))
         = filter isInputEvent (effects r)
     \<and> (\<forall>d. getDevice r k = Some d \<longrightarrow>
           (\<exists>d'. getDevice (onTouchScreenChanged env w k havePointerIds r) k = Some d'
              \<and> lastTouch (touchScreen d') = td_clear (lastTouch (touchScreen d))
              \<and> pointerCount (lastTouch (touchScreen d')) = 0
              \<and> idBits (lastTouch (touchScreen d')) = 0
              \<and> currentVirtualKey (touchScreen d') = currentVirtualKey (touchScreen d)))
     \<and> (\<forall>d next w' pf.
           getDevice r k = Some d \<and> countMatchesIds next \<longrightarrow>
           effects (dispatchTouches w' k pf
                      (modTouchScreen k (\<lambda>ts. ts\<lparr>currentTouch := next\<rparr>)
                         (onTouchScreenChanged env w k havePointerIds r)))
             = effects (onTouchScreenChanged env w k havePointerIds r)
               @ map (touchMotion w' d pf (metaOf r) next)
                   (specDowns w' (ts_downTime (touchScreen d)) (idList (idBits next)) 0))"
    using g n by (simp add: e m s)
qed

theorem policy_drop_clears_lastTouch_witness:
  "interceptTouch dropEnv 7 AND ACTION_DISPATCH = 0
   \<and> getDevice touchedReader 1 = Some (deviceOf touchedReader)
   \<and> pointerCount (lastTouch (touchScreen (deviceOf touchedReader))) = 1
   \<and> countMatchesIds (frameOf [0, 1])
   \<and> effects (onTouchScreenChanged dropEnv 7 1 False touchedReader)
       = effects touchedReader @ [NotifyAppSwitchComing 7]
   \<and> map_option (\<lambda>d. pointerCount (lastTouch (touchScreen d)))
        (getDevice (onTouchScreenChanged dropEnv 7 1 False touchedReader) 1) = Some 0
   \<and> motionActions (effects (dispatchTouches 8 1 0
         (modTouchScreen 1 (\<lambda>ts. ts\<lparr>currentTouch := frameOf [0, 1]\<rparr>)
            (onTouchScreenChanged dropEnv 7 1 False touchedReader))))
       = motionActions (effects touchedReader)
         @ [MOTION_EVENT_ACTION_DOWN, MOTION_EVENT_ACTION_POINTER_DOWN OR 0x100]"
proof -
  have h: "interceptTouch dropEnv 7 AND ACTION_DISPATCH = 0"
    by code_simp
  have g: "getDevice touchedReader 1 = Some (deviceOf touchedReader)"
    by code_simp
  have p: "pointerCount (lastTouch (touchScreen (deviceOf touchedReader))) = 1"
    by code_simp
  have c: "countMatchesIds (frameOf [0, 1])"
    by code_simp
  have a: "interceptTouch dropEnv 7 AND ACTION_APP_SWITCH_COMING \<noteq> 0"
    by code_simp
  have m: "motionActions (effects (dispatchTouches 8 1 0
         (modTouchScreen 1 (\<lambda>ts. ts\<lparr>currentTouch := frameOf [0, 1]\<rparr>)
            (onTouchScreenChanged dropEnv 7 1 False touchedReader))))
       = motionActions (effects touchedReader)
         @ [MOTION_EVENT_ACTION_DOWN, MOTION_EVENT_ACTION_POINTER_DOWN OR 0x100]"
    by code_simp
  note t = policy_drop_clears_lastTouch [of dropEnv 7 1 False touchedReader, THEN mp, OF h]
  from t have e: "effects (onTouchScreenChanged dropEnv 7 1 False touchedReader)
       = effects touchedReader @ [NotifyAppSwitchComing 7]"
    using a by simp
  from t g have l: "map_option (\<lambda>d. pointerCount (lastTouch (touchScreen d)))
        (getDevice (onTouchScreenChanged dropEnv 7 1 False touchedReader) 1) = Some 0"
    by auto
  show ?thesis
    using h g p c e l m by simp
qed

section \<open>The exported virtual key\<close>

lemma scan_fold_view:
  "fold (\<lambda>(k, device) (keyCode, scanCode).
             if isTouchScreen device
                \<and> vk_status (currentVirtualKey (touchScreen device)) = STATUS_DOWN
             then (vk_keyCode (currentVirtualKey (touchScreen device)),
                   vk_scanCode (currentVirtualKey (touchScreen device)))
             else (keyCode, scanCode)) xs a
   = fold scanStepV (map (\<lambda>(k, d). (k, vkView d)) xs) a"
  by (induction xs arbitrary: a)
    (auto simp: scanStepV_def vkView_def isTouchScreen_def split_def)

lemma scanVirtualKeys_view:
  "scanVirtualKeys (mDevices r) = fold scanStepV (devView vkView r) (- 1, - 1)"
  unfolding scanVirtualKeys_def devView_def by (rule scan_fold_view)

lemma vk_inv_view:
  "vk_inv r =
     (distinct (map fst (devView vkView r))
      \<and> (mExportedVirtualKeyCode r, mExportedVirtualScanCode r)
          = fold scanStepV (devView vkView r) (- 1, - 1)
      \<and> list_all vkOkV (devView vkView r))"
proof -
  have a: "map fst (devView vkView r) = map fst (mDevices r)"
    by (simp add: devView_def split_def comp_def)
  have b: "list_all vkOkV (devView vkView r) = list_all vkEntryOk (mDevices r)"
    by (simp add: devView_def list_all_iff vkOkV_def vkEntryOk_def vkView_def vkDown_def
        vkKeyCode_def isTouchScreen_def split_def)
  show ?thesis
    unfolding vk_inv_def a b scanVirtualKeys_view ..
qed

lemma vk_inv_cong: "vcore r' = vcore r \<Longrightarrow> vk_inv r' = vk_inv r"
  by (simp add: vk_inv_view vcore_def)

lemma vkView_of_coreView:
  "devView vkView r = map (\<lambda>(k, n, c, i, vk, rest). (k, n, c, i, vk)) (devView coreView r)"
  by (simp add: devView_def coreView_def vkView_def split_def)

lemma core_imp_vcore: "core r' = core r \<Longrightarrow> vcore r' = vcore r"
  by (simp add: vkView_of_coreView core_def vcore_def)

lemma vk_inv_core: "core r' = core r \<Longrightarrow> vk_inv r' = vk_inv r"
  by (rule vk_inv_cong) (rule core_imp_vcore)

lemma vcore_modDevice:
  "(\<And>d. vkView (f d) = vkView d) \<Longrightarrow> vcore (modDevice k f r) = vcore r"
  by (simp add: vcore_def devView_modDevice) (simp add: modDevice_def)

lemma vk_inv_modDevice:
  "(\<And>d. vkView (f d) = vkView d) \<Longrightarrow> vk_inv (modDevice k f r) = vk_inv r"
  by (rule vk_inv_cong) (rule vcore_modDevice)

lemma scan_fold_result:
  "fold (\<lambda>(k, device) (keyCode, scanCode).
             if isTouchScreen device
                \<and> vk_status (currentVirtualKey (touchScreen device)) = STATUS_DOWN
             then (vk_keyCode (currentVirtualKey (touchScreen device)),
                   vk_scanCode (currentVirtualKey (touchScreen device)))
             else (keyCode, scanCode)) xs a
   = (case filter (\<lambda>(k, d). contributes d) xs of
        [] \<Rightarrow> a
      | _ \<Rightarrow> (\<lambda>(k, d). (vkKeyCode d, vkScanCode d)) (last (filter (\<lambda>(k, d). contributes d) xs)))"
  by (induction xs arbitrary: a)
    (auto simp: contributes_def vkDown_def vkKeyCode_def vkScanCode_def split: list.splits)

lemma scanVirtualKeys_result:
  "scanVirtualKeys xs
   = (case filter (\<lambda>(k, d). contributes d) xs of
        [] \<Rightarrow> (- 1, - 1)
      | _ \<Rightarrow> (\<lambda>(k, d). (vkKeyCode d, vkScanCode d)) (last (filter (\<lambda>(k, d). contributes d) xs)))"
  unfolding scanVirtualKeys_def by (rule scan_fold_result)

lemma vk_inv_updateExported:
  assumes "distinct (map fst (mDevices r))" and "list_all vkEntryOk (mDevices r)"
  shows "vk_inv (updateExportedVirtualKeyState r)"
  using assms
  by (simp add: vk_inv_def updateExportedVirtualKeyState_def Let_def split_def emit_def)

text \<open>The claim, from the invariant.\<close>

lemma vk_inv_claim:
  assumes "vk_inv r"
  shows "(mExportedVirtualKeyCode r \<noteq> - 1) = (\<exists>(k, d) \<in> set (mDevices r). vkDown d)"
    and "mExportedVirtualKeyCode r \<noteq> - 1 \<Longrightarrow>
           \<exists>(k, d) \<in> set (mDevices r). vkDown d \<and> vkKeyCode d = mExportedVirtualKeyCode r
              \<and> vkScanCode d = mExportedVirtualScanCode r"
proof -
  let ?cs = "filter (\<lambda>(k, d). contributes d) (mDevices r)"
  have ok: "\<And>k d. (k, d) \<in> set (mDevices r) \<Longrightarrow> vkEntryOk (k, d)"
    using assms by (auto simp: vk_inv_def list_all_iff)
  have ex: "(\<exists>(k, d) \<in> set (mDevices r). vkDown d) = (?cs \<noteq> [])"
    using ok by (fastforce simp: filter_empty_conv contributes_def vkEntryOk_def)
  have e: "(mExportedVirtualKeyCode r, mExportedVirtualScanCode r)
      = (case ?cs of [] \<Rightarrow> (- 1, - 1)
         | _ \<Rightarrow> (\<lambda>(k, d). (vkKeyCode d, vkScanCode d)) (last ?cs))"
    using assms by (simp add: vk_inv_def scanVirtualKeys_result)
  have l: "?cs \<noteq> [] \<Longrightarrow> last ?cs \<in> set (mDevices r) \<and> contributes (snd (last ?cs))"
    using last_in_set [of ?cs] by auto
  show "(mExportedVirtualKeyCode r \<noteq> - 1) = (\<exists>(k, d) \<in> set (mDevices r). vkDown d)"
  proof (cases "?cs = []")
    case True
    then show ?thesis
      using e ex by simp
  next
    case False
    then have "vkEntryOk (last ?cs)" "vkDown (snd (last ?cs))"
      using l ok [of "fst (last ?cs)" "snd (last ?cs)"] by (auto simp: contributes_def)
    then have "vkKeyCode (snd (last ?cs)) \<noteq> - 1"
      by (simp add: vkEntryOk_def split_def)
    then show ?thesis
      using e ex False by (auto simp: split_def split: list.splits)
  qed
  show "\<exists>(k, d) \<in> set (mDevices r). vkDown d \<and> vkKeyCode d = mExportedVirtualKeyCode r
              \<and> vkScanCode d = mExportedVirtualScanCode r"
    if "mExportedVirtualKeyCode r \<noteq> - 1"
  proof -
    have ne: "?cs \<noteq> []"
      using that e by (auto split: list.splits)
    then have "(vkKeyCode (snd (last ?cs)), vkScanCode (snd (last ?cs)))
        = (mExportedVirtualKeyCode r, mExportedVirtualScanCode r)"
      using e by (auto simp: split_def split: list.splits)
    then show ?thesis
      using l [OF ne] by (auto simp: contributes_def split_def intro!: bexI [of _ "last ?cs"])
  qed
qed

lemma map_of_vkView: "map_option vkView (getDevice r k) = map_of (devView vkView r) k"
  by (simp add: map_of_devView)

lemma tsDevice_vcore: "vcore r' = vcore r \<Longrightarrow> tsDevice r' k = tsDevice r k"
proof -
  assume "vcore r' = vcore r"
  then have "map_option vkView (getDevice r' k) = map_option vkView (getDevice r k)"
    by (simp add: map_of_vkView vcore_def)
  then show ?thesis
    by (cases "getDevice r' k"; cases "getDevice r k")
      (auto simp: tsDevice_def vkView_def isTouchScreen_def)
qed

lemma tsDevice_core: "core r' = core r \<Longrightarrow> tsDevice r' k = tsDevice r k"
  by (rule tsDevice_vcore) (rule core_imp_vcore)

lemma mExported_globalMetaState [simp]:
  "mExportedVirtualKeyCode (snd (globalMetaState r)) = mExportedVirtualKeyCode r"
  "mExportedVirtualScanCode (snd (globalMetaState r)) = mExportedVirtualScanCode r"
  by (simp_all add: globalMetaState_def Let_def)

lemma mExported_emit [simp]:
  "mExportedVirtualKeyCode (emit e r) = mExportedVirtualKeyCode r"
  "mExportedVirtualScanCode (emit e r) = mExportedVirtualScanCode r"
  by (simp_all add: emit_def)

lemma mExported_applyStandard [simp]:
  "mExportedVirtualKeyCode (snd (snd (applyStandardInputDispatchPolicyActions w pa pf r)))
     = mExportedVirtualKeyCode r"
  "mExportedVirtualScanCode (snd (snd (applyStandardInputDispatchPolicyActions w pa pf r)))
     = mExportedVirtualScanCode r"
  by (simp_all add: applyStandardInputDispatchPolicyActions_def Let_def)

lemma core_dispatchVirtualKey:
  "core (dispatchVirtualKey env w k pf action flags r) = core (updateExportedVirtualKeyState r)"
  by (simp add: dispatchVirtualKey_def Let_def split_def split: option.splits)

lemma vk_inv_dispatchVirtualKey:
  assumes "distinct (map fst (mDevices r))" and "list_all vkEntryOk (mDevices r)"
  shows "vk_inv (dispatchVirtualKey env w k pf action flags r)"
  using vk_inv_updateExported [OF assms] vk_inv_core [OF core_dispatchVirtualKey] by simp

lemma mDevices_modVirtualKey:
  "mDevices (modVirtualKey k f r) =
     map (\<lambda>(k', d). if k' = k
            then (k', d\<lparr>touchScreen := (touchScreen d)
                          \<lparr>currentVirtualKey := f (currentVirtualKey (touchScreen d))\<rparr>\<rparr>)
            else (k', d)) (mDevices r)"
  by (simp add: modVirtualKey_def modTouchScreen_def modDevice_def)

lemma distinct_modVirtualKey [simp]:
  "map fst (mDevices (modVirtualKey k f r)) = map fst (mDevices r)"
  by (simp add: mDevices_modVirtualKey split_def comp_def if_distrib cong: if_cong)

lemma the_entry:
  "distinct (map fst xs) \<Longrightarrow> map_of xs k = Some d \<Longrightarrow> (k, d') \<in> set xs \<Longrightarrow> d' = d"
  by (metis map_of_is_SomeI option.inject)

lemma ok_modVirtualKey:
  assumes "distinct (map fst (mDevices r))" and "list_all vkEntryOk (mDevices r)"
    and "getDevice r k = Some device"
    and "vkEntryOk (k, device\<lparr>touchScreen := (touchScreen device)
                          \<lparr>currentVirtualKey := f (currentVirtualKey (touchScreen device))\<rparr>\<rparr>)"
  shows "list_all vkEntryOk (mDevices (modVirtualKey k f r))"
proof -
  have "d = device" if "(k, d) \<in> set (mDevices r)" for d
    using the_entry [OF assms(1) _ that] assms(3) by (simp add: getDevice_def)
  then show ?thesis
    using assms(2,4) by (auto simp: mDevices_modVirtualKey list_all_iff split: if_splits)
qed

lemma filter_map_same:
  "(\<And>x. x \<in> set xs \<Longrightarrow> P (g x) = P x \<and> (P x \<longrightarrow> g x = x)) \<Longrightarrow>
     filter P (map g xs) = filter P xs"
  by (induction xs) auto

lemma vk_inv_modVirtualKey_idle:
  assumes "vk_inv r" and "getDevice r k = Some device" and "\<not> vkDown device"
    and "\<And>vk. vk_status (f vk) \<noteq> STATUS_DOWN"
  shows "vk_inv (modVirtualKey k f r)"
proof -
  have dist: "distinct (map fst (mDevices r))"
    and ok: "list_all vkEntryOk (mDevices r)"
    using assms(1) by (simp_all add: vk_inv_def)
  have same: "d = device" if "(k, d) \<in> set (mDevices r)" for d
    using the_entry [OF dist _ that] assms(2) by (simp add: getDevice_def)
  have "filter (\<lambda>(k, d). contributes d) (mDevices (modVirtualKey k f r))
      = filter (\<lambda>(k, d). contributes d) (mDevices r)"
    unfolding mDevices_modVirtualKey
    by (rule filter_map_same)
      (use same assms(3,4) in \<open>auto simp: contributes_def vkDown_def isTouchScreen_def
         split: if_splits\<close>)
  then have "scanVirtualKeys (mDevices (modVirtualKey k f r)) = scanVirtualKeys (mDevices r)"
    by (simp only: scanVirtualKeys_result)
  moreover have "list_all vkEntryOk (mDevices (modVirtualKey k f r))"
    by (rule ok_modVirtualKey [where f = f, OF dist ok assms(2)])
      (use ok assms(2) in \<open>auto simp: vkEntryOk_def vkDown_def assms(4) list_all_iff
         getDevice_def dest!: map_of_SomeD\<close>)
  moreover have "mExportedVirtualKeyCode (modVirtualKey k f r) = mExportedVirtualKeyCode r"
    "mExportedVirtualScanCode (modVirtualKey k f r) = mExportedVirtualScanCode r"
    by (simp_all add: modVirtualKey_def modTouchScreen_def modDevice_def)
  ultimately show ?thesis
    using assms(1) by (simp add: vk_inv_def)
qed

lemma vk_inv_consumeVirtualKeyTouches:
  assumes "envKeysOk env" and "vk_inv r" and "tsDevice r k"
  shows "vk_inv (snd (consumeVirtualKeyTouches env w k pf r))"
proof (cases "getDevice r k")
  case None
  then show ?thesis
    using assms(2) by (simp add: consumeVirtualKeyTouches_def)
next
  case (Some device)
  have dist: "distinct (map fst (mDevices r))"
    and ok: "list_all vkEntryOk (mDevices r)"
    using assms(2) by (simp_all add: vk_inv_def)
  have ts: "isTouchScreen device" "\<not> ignored device"
    using assms(3) Some by (simp_all add: tsDevice_def)
  have id: "dev_id device = k"
    using ok Some by (auto simp: list_all_iff vkEntryOk_def getDevice_def dest!: map_of_SomeD)
  have dvk: "vk_inv (dispatchVirtualKey env w k pf action flags (modVirtualKey k f r))"
    if "vkEntryOk (k, device\<lparr>touchScreen := (touchScreen device)
                          \<lparr>currentVirtualKey := f (currentVirtualKey (touchScreen device))\<rparr>\<rparr>)"
    for action flags f
    by (rule vk_inv_dispatchVirtualKey)
      (simp_all add: dist ok_modVirtualKey [where f = f, OF dist ok Some that])
  have hit: "vkey_keyCode v \<noteq> - 1" if "findVirtualKeyHit env ts = Some v" for ts v
    using assms(1) that by (auto simp: envKeysOk_def)
  show ?thesis
  proof (cases "vk_status (currentVirtualKey (touchScreen device))")
    case STATUS_CANCELED
    then show ?thesis
      using Some assms(2)
      by (auto simp: consumeVirtualKeyTouches_def Let_def vkDown_def
          intro!: vk_inv_modVirtualKey_idle)
  next
    case STATUS_DOWN
    then show ?thesis
      using Some assms(2)
      by (auto simp: consumeVirtualKeyTouches_def Let_def vkEntryOk_def vkDown_def id intro!: dvk)
  next
    case STATUS_NONE
    then show ?thesis
      using Some assms(2) ts hit
      by (auto simp: consumeVirtualKeyTouches_def Let_def vkEntryOk_def vkDown_def vkKeyCode_def
          isTouchScreen_def id intro!: dvk split: option.splits)
  next
    case STATUS_UP
    then show ?thesis
      using Some assms(2) ts hit
      by (auto simp: consumeVirtualKeyTouches_def Let_def vkEntryOk_def vkDown_def vkKeyCode_def
          isTouchScreen_def id intro!: dvk split: option.splits)
  qed
qed

lemma currentVirtualKey_preprocessTouch [simp]:
  "currentVirtualKey (fst (preprocessTouch env h ts)) = currentVirtualKey ts"
  by (simp add: preprocessTouch_def Let_def split_def)

lemma vk_inv_onTouchScreenChanged:
  assumes "envKeysOk env" and "vk_inv r" and "tsDevice r k"
  shows "vk_inv (onTouchScreenChanged env w k h r)"
proof -
  let ?pa = "interceptTouch env w"
  let ?r1 = "snd (snd (applyStandardInputDispatchPolicyActions w ?pa 0 r))"
  let ?pf = "fst (snd (applyStandardInputDispatchPolicyActions w ?pa 0 r))"
  let ?r2 = "modTouchScreen k (\<lambda>ts. fst (preprocessTouch env h ts)) ?r1"
  let ?c = "consumeVirtualKeyTouches env w k ?pf ?r2"
  have c1: "core ?r1 = core r"
    by simp
  have c2: "core ?r2 = core r"
    by (simp add: core_modTouchScreen)
  have "vk_inv ?r2" "tsDevice ?r2 k"
    using assms vk_inv_core [OF c2] tsDevice_core [OF c2] by simp_all
  then have v3: "vk_inv (snd ?c)"
    using assms(1) by (simp add: vk_inv_consumeVirtualKeyTouches)
  have drop: "vk_inv (modTouchScreen k (\<lambda>ts. ts\<lparr>lastTouch := td_clear (lastTouch ts)\<rparr>) ?r1)"
    using assms(2) by (simp add: vk_inv_core [OF core_modTouchScreen] vk_inv_core [OF c1])
  have fin: "vk_inv (modTouchScreen k (\<lambda>ts. ts\<lparr>lastTouch := g ts\<rparr>)
               (if \<not> fst ?c then dispatchTouches w k ?pf (snd ?c) else snd ?c))" for g
    using v3 by (simp add: vk_inv_core [OF core_modTouchScreen] vk_inv_core [OF core_dispatchTouches])
  show ?thesis
    using drop fin assms(2)
    by (simp add: onTouchScreenChanged_def Let_def split_def vk_inv_core [OF c1]
        split: option.splits)
qed

lemma vk_inv_onMultiTouchScreenStateChanged:
  assumes "envKeysOk env" and "vk_inv r" and "tsDevice r k"
  shows "vk_inv (onMultiTouchScreenStateChanged env w k r)"
proof -
  let ?r1 = "snd (refreshDisplayProperties env r)"
  let ?r2 = "modDevice k
     (\<lambda>d. d\<lparr>touchScreen := (touchScreen d)
             \<lparr>currentTouch := fst (assembleMultiTouch (multiTouchScreen d)
                                      (currentTouch (touchScreen d)))\<rparr>\<rparr>) ?r1"
  have c2: "core ?r2 = core r"
    by (simp add: core_modDevice coreView_def)
  have "vk_inv (onTouchScreenChanged env w k h ?r2)" for h
    using assms vk_inv_core [OF c2] tsDevice_core [OF c2]
    by (simp add: vk_inv_onTouchScreenChanged)
  then show ?thesis
    using assms(2)
    by (simp add: onMultiTouchScreenStateChanged_def Let_def split_def
        vk_inv_core [OF core_refreshDisplayProperties] split: option.splits)
qed

lemma vk_inv_onSingleTouchScreenStateChanged:
  assumes "envKeysOk env" and "vk_inv r" and "tsDevice r k"
  shows "vk_inv (onSingleTouchScreenStateChanged env w k r)"
proof -
  let ?r1 = "snd (refreshDisplayProperties env r)"
  let ?r2 = "modDevice k
     (\<lambda>d. d\<lparr>singleTouchScreen := commitSingleTouch (singleTouchScreen d),
             touchScreen := (touchScreen d)
               \<lparr>currentTouch := singleTouchFrame (commitSingleTouch (singleTouchScreen d))
                                   (currentTouch (touchScreen d))\<rparr>\<rparr>) ?r1"
  have c2: "core ?r2 = core r"
    by (simp add: core_modDevice coreView_def commitSingleTouch_def Let_def)
  have "vk_inv (onTouchScreenChanged env w k h ?r2)" for h
    using assms vk_inv_core [OF c2] tsDevice_core [OF c2]
    by (simp add: vk_inv_onTouchScreenChanged)
  then show ?thesis
    using assms(2)
    by (simp add: onSingleTouchScreenStateChanged_def Let_def split_def
        vk_inv_core [OF core_refreshDisplayProperties])
qed

lemma isTouchScreen_multi: "isMultiTouchScreen d \<Longrightarrow> isTouchScreen d"
proof -
  let ?a = "INPUT_DEVICE_CLASS_TOUCHSCREEN" and ?b = "INPUT_DEVICE_CLASS_TOUCHSCREEN_MT"
  assume m: "isMultiTouchScreen d"
  have "classes d AND ?b = (classes d AND (?a OR ?b)) AND ?b"
    by (simp add: and.assoc word_ao_absorbs)
  then have "classes d AND (?a OR ?b) \<noteq> 0"
    using m unfolding isMultiTouchScreen_def by force
  then show ?thesis
    by (simp add: isTouchScreen_def)
qed

lemma isTouchScreen_single: "isSingleTouchScreen d \<Longrightarrow> isTouchScreen d"
  unfolding isSingleTouchScreen_def isTouchScreen_def class_defs
  by auto

lemma vk_inv_handleSync:
  assumes "envKeysOk env" and "vk_inv r"
  shows "vk_inv (handleSync env ev r)"
proof (cases "getNonIgnoredDevice r (ev_deviceId ev)")
  case None
  then show ?thesis
    using assms(2) by (simp add: handleSync_def)
next
  case (Some device)
  let ?k = "ev_deviceId ev"
  have g: "getDevice r ?k = Some device" "\<not> ignored device"
    using Some by (simp_all add: getNonIgnoredDevice_SomeD)
  have ts: "isTouchScreen device \<Longrightarrow> tsDevice r ?k"
    using g by (simp add: tsDevice_def)
  have p: "vk_inv (syncPointer ?k device r)"
    using assms(2)
    by (auto simp: syncPointer_def Let_def vk_inv_modDevice vkView_def
        vk_inv_cong [of "emit e r" r for e] vcore_def devView_def)
  have t: "vk_inv (syncTouch env w ?k device r)" for w
    using assms ts
    by (auto simp: syncTouch_def vk_inv_modDevice vkView_def isTouchScreen_multi
        isTouchScreen_single vk_inv_onMultiTouchScreenStateChanged
        vk_inv_onSingleTouchScreenStateChanged)
  have b: "vk_inv r' \<Longrightarrow> vk_inv (syncTrackball env w ?k d r')" for w d r'
    by (auto simp: syncTrackball_def vk_inv_modDevice vkView_def
        vk_inv_core [OF core_onTrackballStateChanged])
  show ?thesis
    using Some assms(2) p t b
    by (simp add: handleSync_def Let_def split: option.splits)
qed

lemma vk_inv_handleKey: "vk_inv r \<Longrightarrow> vk_inv (handleKey env ev r)"
  by (auto simp: handleKey_def Let_def vk_inv_modDevice vkView_def vk_inv_core [OF core_onKey]
      split: option.splits)

lemma vk_inv_handleRelativeMotion: "vk_inv r \<Longrightarrow> vk_inv (handleRelativeMotion ev r)"
  by (auto simp: handleRelativeMotion_def Let_def vk_inv_modDevice vkView_def
      split: option.splits)

lemma vk_inv_handleAbsoluteMotion: "vk_inv r \<Longrightarrow> vk_inv (handleAbsoluteMotion ev r)"
  by (auto simp: handleAbsoluteMotion_def Let_def vk_inv_modDevice vkView_def
      split: option.splits)

lemma vk_inv_handleSwitch: "vk_inv r \<Longrightarrow> vk_inv (handleSwitch env ev r)"
  by (auto simp: handleSwitch_def vk_inv_core [OF core_onSwitch] split: option.splits)

lemma keys_kvAdd: "fst ` set (kvAdd k v xs) = insert k (fst ` set xs)"
proof (induction xs)
  case Nil
  then show ?case by simp
next
  case (Cons x xs)
  obtain k' v' where x: "x = (k', v')"
    by (cases x)
  show ?case
    using Cons.IH by (simp add: x insert_commute)
qed

lemma distinct_kvAdd:
  "k \<notin> fst ` set xs \<Longrightarrow> distinct (map fst xs) \<Longrightarrow> distinct (map fst (kvAdd k v xs))"
proof (induction xs)
  case Nil
  then show ?case by simp
next
  case (Cons x xs)
  obtain k' v' where x: "x = (k', v')"
    by (cases x)
  show ?case
    using Cons by (auto simp: x keys_kvAdd)
qed

lemma filter_kvAdd:
  "k \<notin> fst ` set xs \<Longrightarrow> \<not> P (k, v) \<Longrightarrow> filter P (kvAdd k v xs) = filter P xs"
  by (induction xs) auto

lemma vk_inv_onConfigurationChanged:
  assumes "distinct (map fst (mDevices r))" and "list_all vkEntryOk (mDevices r)"
  shows "vk_inv (onConfigurationChanged w r)"
proof -
  have "core (onConfigurationChanged w r)
      = core (updateExportedVirtualKeyState (resetGlobalMetaState r))"
    by (simp add: onConfigurationChanged_def)
  moreover have "vk_inv (updateExportedVirtualKeyState (resetGlobalMetaState r))"
    using assms by (intro vk_inv_updateExported) (simp_all add: resetGlobalMetaState_def)
  ultimately show ?thesis
    using vk_inv_core by blast
qed

lemma vkEntryOk_new:
  "vkEntryOk (k, (newDevice k c n)\<lparr>touchScreen := (touchScreen (newDevice k c n))\<lparr>ts_parameters := p\<rparr>\<rparr>)"
  "vkEntryOk (k, newDevice k c n)"
  "vkEntryOk (k, (newDevice k c n)\<lparr>ignored := True\<rparr>)"
  by (simp_all add: vkEntryOk_def vkDown_def newDevice_def)

lemma ignored_new [simp]: "\<not> ignored (newDevice k c n)"
  by (simp add: newDevice_def)

lemma not_contributes_new:
  "\<not> contributes ((newDevice k c n)\<lparr>ignored := True\<rparr>)"
  by (simp add: contributes_def vkDown_def newDevice_def)

lemma vk_inv_addDevice:
  assumes "vk_inv r" and "getDevice r k = None"
  shows "vk_inv (addDevice env w k r)"
proof -
  have dist: "distinct (map fst (mDevices r))" and ok: "list_all vkEntryOk (mDevices r)"
    using assms(1) by (simp_all add: vk_inv_def)
  have absent: "k \<notin> fst ` set (mDevices r)"
    using assms(2) by (simp add: getDevice_def map_of_eq_None_iff)
  have add: "distinct (map fst (mDevices (r\<lparr>mDevices := kvAdd k d (mDevices r)\<rparr>)))
      \<and> list_all vkEntryOk (mDevices (r\<lparr>mDevices := kvAdd k d (mDevices r)\<rparr>))"
    if "vkEntryOk (k, d)" for d
    using dist ok that absent set_kvAdd [of k d "mDevices r"]
    by (auto simp: distinct_kvAdd list_all_iff)
  have ign: "vk_inv (r\<lparr>mDevices := kvAdd k d (mDevices r)\<rparr>)"
    if "vkEntryOk (k, d)" "\<not> contributes d" for d
  proof -
    have "filter (\<lambda>(k, d). contributes d) (kvAdd k d (mDevices r))
        = filter (\<lambda>(k, d). contributes d) (mDevices r)"
      using absent that(2) by (simp add: filter_kvAdd)
    then have "scanVirtualKeys (kvAdd k d (mDevices r)) = scanVirtualKeys (mDevices r)"
      by (simp only: scanVirtualKeys_result)
    then show ?thesis
      using add [OF that(1)] assms(1) by (simp add: vk_inv_def)
  qed
  show ?thesis
    using add ign
    by (auto simp: addDevice_def Let_def vkEntryOk_new not_contributes_new
        intro!: vk_inv_onConfigurationChanged)
qed

lemma vk_inv_removeDevice:
  assumes "vk_inv r" and "getDevice r k = Some device"
  shows "vk_inv (removeDevice w device r)"
proof -
  have dist: "distinct (map fst (mDevices r))" and ok: "list_all vkEntryOk (mDevices r)"
    using assms(1) by (simp_all add: vk_inv_def)
  have mem: "(k, device) \<in> set (mDevices r)"
    using assms(2) by (auto simp: getDevice_def dest: map_of_SomeD)
  then have id: "dev_id device = k" and okd: "vkEntryOk (k, device)"
    using ok by (auto simp: list_all_iff vkEntryOk_def)
  let ?xs = "kvRemoveItem (dev_id device) (mDevices r)"
  have d': "distinct (map fst ?xs)"
    using dist by (simp add: kvRemoveItem_def distinct_map_filter)
  have ok': "list_all vkEntryOk ?xs"
    using ok by (auto simp: kvRemoveItem_def list_all_iff)
  have ign: "vk_inv (r\<lparr>mDevices := ?xs\<rparr>)" if "ignored device"
  proof -
    have nc: "\<not> contributes device"
      using okd that by (auto simp: vkEntryOk_def contributes_def)
    have "d = device" if "(k, d) \<in> set (mDevices r)" for d
      using the_entry [OF dist _ that] assms(2) by (simp add: getDevice_def)
    then have "filter (\<lambda>(k, d). contributes d) ?xs
        = filter (\<lambda>(k, d). contributes d) (mDevices r)"
      using nc unfolding kvRemoveItem_def id
      by (auto intro!: filter_cong)
    then have "scanVirtualKeys ?xs = scanVirtualKeys (mDevices r)"
      by (simp only: scanVirtualKeys_result)
    then show ?thesis
      using d' ok' assms(1) by (simp add: vk_inv_def)
  qed
  show ?thesis
    using ign d' ok'
    by (auto simp: removeDevice_def Let_def intro!: vk_inv_onConfigurationChanged)
qed

lemma vk_inv_emit [simp]: "vk_inv (emit e r) = vk_inv r"
  by (rule vk_inv_core) simp

lemma vk_inv_process:
  assumes "envKeysOk env" and "vk_inv r"
  shows "vk_inv (process env ev r)"
  using assms
  by (simp add: process_def handleDeviceAdded_def handleDeviceRemoved_def vk_inv_addDevice
      vk_inv_removeDevice vk_inv_handleSync vk_inv_handleKey vk_inv_handleRelativeMotion
      vk_inv_handleAbsoluteMotion vk_inv_handleSwitch split: option.splits)

lemma vk_inv_runReader:
  "list_all envKeysOk envs \<Longrightarrow> vk_inv r \<Longrightarrow> vk_inv (runReader envs r)"
  unfolding runReader_def
  by (induction envs arbitrary: r) (simp_all add: loopOnce_def vk_inv_process)

lemma vk_inv_newReader: "vk_inv newReader"
  by (simp add: newReader_def vk_inv_def updateExportedVirtualKeyState_def scanVirtualKeys_def
      resetDisplayProperties_def resetGlobalMetaState_def emit_def)

text \<open>
  Claim C3. After any number of loop iterations from the constructor state, with a hit test
  that never answers a key whose code is -1, the exported virtual key code differs from -1
  exactly when the virtual key of some device is \<open>DOWN\<close>, and then some device that is
  \<open>DOWN\<close> has the exported key code and scan code as those of its virtual key.
\<close>

theorem exported_virtual_key_tracks_down_device:
  "list_all envKeysOk envs \<longrightarrow>
     ((mExportedVirtualKeyCode (runReader envs newReader) \<noteq> - 1)
        = (\<exists>(k, d) \<in> set (mDevices (runReader envs newReader)). vkDown d))
     \<and> (mExportedVirtualKeyCode (runReader envs newReader) \<noteq> - 1 \<longrightarrow>
          (\<exists>(k, d) \<in> set (mDevices (runReader envs newReader)).
              vkDown d \<and> vkKeyCode d = mExportedVirtualKeyCode (runReader envs newReader)
              \<and> vkScanCode d = mExportedVirtualScanCode (runReader envs newReader)))
     \<and> fst (getCurrentVirtualKey (runReader envs newReader))
         = (\<exists>(k, d) \<in> set (mDevices (runReader envs newReader)). vkDown d)"
proof
  assume "list_all envKeysOk envs"
  then have inv: "vk_inv (runReader envs newReader)"
    by (simp add: vk_inv_runReader vk_inv_newReader)
  show "((mExportedVirtualKeyCode (runReader envs newReader) \<noteq> - 1)
        = (\<exists>(k, d) \<in> set (mDevices (runReader envs newReader)). vkDown d))
     \<and> (mExportedVirtualKeyCode (runReader envs newReader) \<noteq> - 1 \<longrightarrow>
          (\<exists>(k, d) \<in> set (mDevices (runReader envs newReader)).
              vkDown d \<and> vkKeyCode d = mExportedVirtualKeyCode (runReader envs newReader)
              \<and> vkScanCode d = mExportedVirtualScanCode (runReader envs newReader)))
     \<and> fst (getCurrentVirtualKey (runReader envs newReader))
         = (\<exists>(k, d) \<in> set (mDevices (runReader envs newReader)). vkDown d)"
    using vk_inv_claim [OF inv] by (simp add: getCurrentVirtualKey_def)
qed

theorem exported_virtual_key_tracks_down_device_witness:
  "list_all envKeysOk keyDownEvents
   \<and> mExportedVirtualKeyCode (runReader keyDownEvents newReader) = 3
   \<and> mExportedVirtualScanCode (runReader keyDownEvents newReader) = 102
   \<and> (\<exists>(k, d) \<in> set (mDevices (runReader keyDownEvents newReader)).
         vkDown d \<and> vkKeyCode d = 3 \<and> vkScanCode d = 102)
   \<and> list_all envKeysOk (touchDownEvents None @ [reportEvent None])
   \<and> mExportedVirtualKeyCode touchedReader = - 1
   \<and> \<not> (\<exists>(k, d) \<in> set (mDevices touchedReader). vkDown d)"
proof -
  have k: "envKeysOk (touchEnv (Some homeKey) ev)" "envKeysOk (touchEnv None ev)" for ev
    by (simp_all add: envKeysOk_def touchEnv_def homeKey_def)
  have h: "list_all envKeysOk keyDownEvents"
    by (simp add: keyDownEvents_def touchDownEvents_def reportEvent_def k)
  have h': "list_all envKeysOk (touchDownEvents None @ [reportEvent None])"
    by (simp add: touchDownEvents_def reportEvent_def k)
  have c: "mExportedVirtualKeyCode (runReader keyDownEvents newReader) = 3
     \<and> mExportedVirtualScanCode (runReader keyDownEvents newReader) = 102"
    by code_simp
  have c': "mExportedVirtualKeyCode touchedReader = - 1"
    by code_simp
  note t = exported_virtual_key_tracks_down_device [of keyDownEvents, THEN mp, OF h]
  note t' = exported_virtual_key_tracks_down_device
    [of "touchDownEvents None @ [reportEvent None]", THEN mp, OF h']
  from t c have d: "\<exists>(k, d) \<in> set (mDevices (runReader keyDownEvents newReader)).
         vkDown d \<and> vkKeyCode d = 3 \<and> vkScanCode d = 102"
    by simp
  from t' c' have d': "\<not> (\<exists>(k, d) \<in> set (mDevices touchedReader). vkDown d)"
    by (simp add: touchedReader_def)
  show ?thesis
    using h h' c c' d d' by simp
qed

text \<open>Without the condition on the hit test: a touch on a virtual key whose key code is -1
  puts the device into \<open>DOWN\<close>, and the exported key code, taken from that device, is -1.\<close>

theorem down_device_with_exported_key_code_none:
  "map_option vkStatus (getDevice (runReader minusOneKeyEvents newReader) 1) = Some STATUS_DOWN
   \<and> (\<exists>(k, d) \<in> set (mDevices (runReader minusOneKeyEvents newReader)). vkDown d)
   \<and> mExportedVirtualKeyCode (runReader minusOneKeyEvents newReader) = - 1
   \<and> mExportedVirtualScanCode (runReader minusOneKeyEvents newReader) = 102
   \<and> (mExportedVirtualKeyCode (runReader minusOneKeyEvents newReader) \<noteq> - 1)
       \<noteq> (\<exists>(k, d) \<in> set (mDevices (runReader minusOneKeyEvents newReader)). vkDown d)"
  by code_simp

section \<open>Virtual-key transitions and the exported state\<close>

lemma effects_applyStandard:
  "effects (snd (snd (applyStandardInputDispatchPolicyActions w pa pf r))) =
     effects r @ (if pa AND ACTION_APP_SWITCH_COMING \<noteq> 0 then [NotifyAppSwitchComing w] else [])"
  by (simp add: applyStandardInputDispatchPolicyActions_def Let_def)

lemma effects_updateExportedVirtualKeyState:
  "effects (updateExportedVirtualKeyState r) =
     effects r @ [StoreExportedVirtualKey (fst (scanVirtualKeys (mDevices r)))
                    (snd (scanVirtualKeys (mDevices r)))]"
  by (simp add: updateExportedVirtualKeyState_def Let_def split_def)

lemma dispatchVirtualKey_effects:
  "\<exists>rest. effects (dispatchVirtualKey env w k pf action flags r)
     = effects r @ StoreExportedVirtualKey (fst (scanVirtualKeys (mDevices r)))
                     (snd (scanVirtualKeys (mDevices r))) # rest"
  by (simp add: dispatchVirtualKey_def Let_def split_def effects_applyStandard
      effects_updateExportedVirtualKeyState split: option.splits)

lemma dispatchVirtualKey_refresh:
  "refreshedAfter (effects r) (dispatchVirtualKey env w k pf action flags r)"
proof -
  let ?r1 = "updateExportedVirtualKeyState r"
  let ?r' = "dispatchVirtualKey env w k pf action flags r"
  have x1: "(mExportedVirtualKeyCode ?r1, mExportedVirtualScanCode ?r1) = scanVirtualKeys (mDevices r)"
    by (simp add: updateExportedVirtualKeyState_def Let_def split_def)
  have "core ?r' = core ?r1"
    by (rule core_dispatchVirtualKey)
  then have x: "(mExportedVirtualKeyCode ?r', mExportedVirtualScanCode ?r')
      = scanVirtualKeys (mDevices r)"
    using x1 by (simp add: core_def)
  obtain rest where "effects ?r' = effects r @ StoreExportedVirtualKey
      (fst (scanVirtualKeys (mDevices r))) (snd (scanVirtualKeys (mDevices r))) # rest"
    using dispatchVirtualKey_effects by blast
  then show ?thesis
    using x by (simp add: refreshedAfter_def)
qed

lemma getDevice_modVirtualKey:
  "getDevice (modVirtualKey deviceId f r) k =
     (if k = deviceId
      then map_option
             (\<lambda>d. d\<lparr>touchScreen := (touchScreen d)
                       \<lparr>currentVirtualKey := f (currentVirtualKey (touchScreen d))\<rparr>\<rparr>)
             (getDevice r k)
      else getDevice r k)"
  by (simp add: modVirtualKey_def getDevice_modTouchScreen)

lemma vkStatus_modVirtualKey:
  "getDevice r k = Some d \<Longrightarrow>
     map_option vkStatus (getDevice (modVirtualKey k f r) k)
       = Some (vk_status (f (currentVirtualKey (touchScreen d))))"
  by (simp add: getDevice_modVirtualKey vkStatus_def)

lemma getDevice_dispatchVirtualKey [simp]:
  "getDevice (dispatchVirtualKey env w k pf action flags r) k' = getDevice r k'"
  by (simp add: getDevice_def)

lemma effects_modVirtualKey [simp]: "effects (modVirtualKey k f r) = effects r"
  by (simp add: modVirtualKey_def)

lemma mExported_modVirtualKey [simp]:
  "mExportedVirtualKeyCode (modVirtualKey k f r) = mExportedVirtualKeyCode r"
  "mExportedVirtualScanCode (modVirtualKey k f r) = mExportedVirtualScanCode r"
  by (simp_all add: modVirtualKey_def modTouchScreen_def modDevice_def)

text \<open>
  Claim C6. The transitions of \<open>consumeVirtualKeyTouches\<close> that dispatch a virtual key, from
  \<open>NONE\<close> or \<open>UP\<close> to \<open>DOWN\<close>, from \<open>DOWN\<close> to \<open>UP\<close> and from \<open>DOWN\<close> to \<open>CANCELED\<close>, refresh the
  exported key code and scan code: the values scanned from the devices are stored first,
  before the key event, and are the exported state afterwards. The transition from
  \<open>CANCELED\<close> to \<open>UP\<close> changes the status only: nothing is stored or dispatched and the
  exported state stays as it was.
\<close>

theorem virtual_key_transitions_refresh:
  "getDevice r k = Some d \<longrightarrow>
     (goesDown env d \<longrightarrow>
        map_option vkStatus (getDevice (snd (consumeVirtualKeyTouches env w k pf r)) k)
          = Some STATUS_DOWN
        \<and> refreshedAfter (effects r) (snd (consumeVirtualKeyTouches env w k pf r)))
     \<and> (goesUp d \<longrightarrow>
        map_option vkStatus (getDevice (snd (consumeVirtualKeyTouches env w k pf r)) k)
          = Some STATUS_UP
        \<and> refreshedAfter (effects r) (snd (consumeVirtualKeyTouches env w k pf r)))
     \<and> (getsCanceled env d \<longrightarrow>
        map_option vkStatus (getDevice (snd (consumeVirtualKeyTouches env w k pf r)) k)
          = Some STATUS_CANCELED
        \<and> refreshedAfter (effects r) (snd (consumeVirtualKeyTouches env w k pf r)))
     \<and> (canceledGoesUp d \<longrightarrow>
        map_option vkStatus (getDevice (snd (consumeVirtualKeyTouches env w k pf r)) k)
          = Some STATUS_UP
        \<and> effects (snd (consumeVirtualKeyTouches env w k pf r)) = effects r
        \<and> mExportedVirtualKeyCode (snd (consumeVirtualKeyTouches env w k pf r))
            = mExportedVirtualKeyCode r
        \<and> mExportedVirtualScanCode (snd (consumeVirtualKeyTouches env w k pf r))
            = mExportedVirtualScanCode r)"
proof
  assume g: "getDevice r k = Some d"
  have r: "refreshedAfter (effects r) (dispatchVirtualKey env w k pf a fl (modVirtualKey k f r))"
    for a fl f
    using dispatchVirtualKey_refresh [of "modVirtualKey k f r" env w k pf a fl] by simp
  have dn: "map_option vkStatus (getDevice (snd (consumeVirtualKeyTouches env w k pf r)) k)
          = Some STATUS_DOWN
        \<and> refreshedAfter (effects r) (snd (consumeVirtualKeyTouches env w k pf r))"
    if "goesDown env d"
    using that g r
    by (auto simp: goesDown_def consumeVirtualKeyTouches_def Let_def vkStatus_def
        getDevice_modVirtualKey)
  have up: "map_option vkStatus (getDevice (snd (consumeVirtualKeyTouches env w k pf r)) k)
          = Some STATUS_UP
        \<and> refreshedAfter (effects r) (snd (consumeVirtualKeyTouches env w k pf r))"
    if "goesUp d"
    using that g r
    by (auto simp: goesUp_def consumeVirtualKeyTouches_def Let_def vkStatus_def
        getDevice_modVirtualKey)
  have ca: "map_option vkStatus (getDevice (snd (consumeVirtualKeyTouches env w k pf r)) k)
          = Some STATUS_CANCELED
        \<and> refreshedAfter (effects r) (snd (consumeVirtualKeyTouches env w k pf r))"
    if "getsCanceled env d"
    using that g r
    by (auto simp: getsCanceled_def consumeVirtualKeyTouches_def Let_def vkStatus_def vkKeyCode_def
        getDevice_modVirtualKey split: option.splits)
  have cu: "map_option vkStatus (getDevice (snd (consumeVirtualKeyTouches env w k pf r)) k)
          = Some STATUS_UP
        \<and> effects (snd (consumeVirtualKeyTouches env w k pf r)) = effects r
        \<and> mExportedVirtualKeyCode (snd (consumeVirtualKeyTouches env w k pf r))
            = mExportedVirtualKeyCode r
        \<and> mExportedVirtualScanCode (snd (consumeVirtualKeyTouches env w k pf r))
            = mExportedVirtualScanCode r"
    if "canceledGoesUp d"
    using that g
    by (auto simp: canceledGoesUp_def consumeVirtualKeyTouches_def Let_def vkStatus_def
        getDevice_modVirtualKey)
  show "(goesDown env d \<longrightarrow>
        map_option vkStatus (getDevice (snd (consumeVirtualKeyTouches env w k pf r)) k)
          = Some STATUS_DOWN
        \<and> refreshedAfter (effects r) (snd (consumeVirtualKeyTouches env w k pf r)))
     \<and> (goesUp d \<longrightarrow>
        map_option vkStatus (getDevice (snd (consumeVirtualKeyTouches env w k pf r)) k)
          = Some STATUS_UP
        \<and> refreshedAfter (effects r) (snd (consumeVirtualKeyTouches env w k pf r)))
     \<and> (getsCanceled env d \<longrightarrow>
        map_option vkStatus (getDevice (snd (consumeVirtualKeyTouches env w k pf r)) k)
          = Some STATUS_CANCELED
        \<and> refreshedAfter (effects r) (snd (consumeVirtualKeyTouches env w k pf r)))
     \<and> (canceledGoesUp d \<longrightarrow>
        map_option vkStatus (getDevice (snd (consumeVirtualKeyTouches env w k pf r)) k)
          = Some STATUS_UP
        \<and> effects (snd (consumeVirtualKeyTouches env w k pf r)) = effects r
        \<and> mExportedVirtualKeyCode (snd (consumeVirtualKeyTouches env w k pf r))
            = mExportedVirtualKeyCode r
        \<and> mExportedVirtualScanCode (snd (consumeVirtualKeyTouches env w k pf r))
            = mExportedVirtualScanCode r)"
    using dn up ca cu by blast
qed

theorem virtual_key_transitions_refresh_witness:
  "getDevice (withKey STATUS_NONE [0]) 1 = Some (deviceOf (withKey STATUS_NONE [0]))
   \<and> goesDown (reportEvent (Some homeKey)) (deviceOf (withKey STATUS_NONE [0]))
   \<and> map_option vkStatus (getDevice (snd (consumeVirtualKeyTouches (reportEvent (Some homeKey))
         7 1 0 (withKey STATUS_NONE [0]))) 1) = Some STATUS_DOWN
   \<and> refreshedAfter (effects (withKey STATUS_NONE [0]))
        (snd (consumeVirtualKeyTouches (reportEvent (Some homeKey)) 7 1 0
           (withKey STATUS_NONE [0])))
   \<and> getDevice (withKey STATUS_DOWN []) 1 = Some (deviceOf (withKey STATUS_DOWN []))
   \<and> goesUp (deviceOf (withKey STATUS_DOWN []))
   \<and> map_option vkStatus (getDevice (snd (consumeVirtualKeyTouches (reportEvent None)
         7 1 0 (withKey STATUS_DOWN []))) 1) = Some STATUS_UP
   \<and> refreshedAfter (effects (withKey STATUS_DOWN []))
        (snd (consumeVirtualKeyTouches (reportEvent None) 7 1 0 (withKey STATUS_DOWN [])))
   \<and> getDevice (withKey STATUS_DOWN [0]) 1 = Some (deviceOf (withKey STATUS_DOWN [0]))
   \<and> getsCanceled (reportEvent None) (deviceOf (withKey STATUS_DOWN [0]))
   \<and> map_option vkStatus (getDevice (snd (consumeVirtualKeyTouches (reportEvent None)
         7 1 0 (withKey STATUS_DOWN [0]))) 1) = Some STATUS_CANCELED
   \<and> refreshedAfter (effects (withKey STATUS_DOWN [0]))
        (snd (consumeVirtualKeyTouches (reportEvent None) 7 1 0 (withKey STATUS_DOWN [0])))
   \<and> getDevice (withKey STATUS_CANCELED []) 1 = Some (deviceOf (withKey STATUS_CANCELED []))
   \<and> canceledGoesUp (deviceOf (withKey STATUS_CANCELED []))
   \<and> map_option vkStatus (getDevice (snd (consumeVirtualKeyTouches (reportEvent None)
         7 1 0 (withKey STATUS_CANCELED []))) 1) = Some STATUS_UP
   \<and> effects (snd (consumeVirtualKeyTouches (reportEvent None) 7 1 0
         (withKey STATUS_CANCELED []))) = effects (withKey STATUS_CANCELED [])"
proof -
  have g1: "getDevice (withKey STATUS_NONE [0]) 1 = Some (deviceOf (withKey STATUS_NONE [0]))"
    by code_simp
  have g2: "getDevice (withKey STATUS_DOWN []) 1 = Some (deviceOf (withKey STATUS_DOWN []))"
    by code_simp
  have g3: "getDevice (withKey STATUS_DOWN [0]) 1 = Some (deviceOf (withKey STATUS_DOWN [0]))"
    by code_simp
  have g4: "getDevice (withKey STATUS_CANCELED []) 1
      = Some (deviceOf (withKey STATUS_CANCELED []))"
    by code_simp
  have p1: "goesDown (reportEvent (Some homeKey)) (deviceOf (withKey STATUS_NONE [0]))"
    by code_simp
  have p2: "goesUp (deviceOf (withKey STATUS_DOWN []))"
    by code_simp
  have p3: "getsCanceled (reportEvent None) (deviceOf (withKey STATUS_DOWN [0]))"
    by code_simp
  have p4: "canceledGoesUp (deviceOf (withKey STATUS_CANCELED []))"
    by code_simp
  note t1 = virtual_key_transitions_refresh [of "withKey STATUS_NONE [0]" 1 _
      "reportEvent (Some homeKey)" 7 0, THEN mp, OF g1, THEN conjunct1, THEN mp, OF p1]
  note t2 = virtual_key_transitions_refresh [of "withKey STATUS_DOWN []" 1 _
      "reportEvent None" 7 0, THEN mp, OF g2, THEN conjunct2, THEN conjunct1, THEN mp, OF p2]
  note t3 = virtual_key_transitions_refresh [of "withKey STATUS_DOWN [0]" 1 _
      "reportEvent None" 7 0, THEN mp, OF g3, THEN conjunct2, THEN conjunct2, THEN conjunct1,
      THEN mp, OF p3]
  note t4 = virtual_key_transitions_refresh [of "withKey STATUS_CANCELED []" 1 _
      "reportEvent None" 7 0, THEN mp, OF g4, THEN conjunct2, THEN conjunct2, THEN conjunct2,
      THEN mp, OF p4]
  show ?thesis
    using g1 g2 g3 g4 p1 p2 p3 p4 t1 t2 t3 t4 by simp
qed

text \<open>The release after a canceled virtual key: the frame sync takes the device from
  \<open>CANCELED\<close> to \<open>UP\<close> and stores nothing into the exported state.\<close>

theorem canceled_to_up_without_refresh:
  "map_option vkStatus (getDevice canceledReleased 1) = Some STATUS_CANCELED
   \<and> map_option (\<lambda>d. pointerCount (currentTouch (touchScreen d)))
        (getDevice (process (reportEvent None) (getEvent (reportEvent None)) canceledReleased) 1)
       = Some 0
   \<and> map_option vkStatus
        (getDevice (process (reportEvent None) (getEvent (reportEvent None)) canceledReleased) 1)
       = Some STATUS_UP
   \<and> effects (process (reportEvent None) (getEvent (reportEvent None)) canceledReleased)
       = effects canceledReleased
   \<and> \<not> refreshedAfter (effects canceledReleased)
          (process (reportEvent None) (getEvent (reportEvent None)) canceledReleased)"
  by code_simp

end
